theory Spec2Isabelle
  imports
    Complex_Main
    "HOL-Library.Word"
    "HOL-Library.Log_Nat"
    "HOL-Library.Char_ord"
    "HOL-Library.List_Lexorder"
    "HOL-Library.Multiset"
begin

section \<open>SIFT3D: the DICOM wrapper \<^verbatim>\<open>imutil/dicom.cpp\<close>\<close>

text \<open>
  A shallow embedding of \<^verbatim>\<open>src/imutil/dicom.cpp\<close>: the helper class \<^verbatim>\<open>Dicom\<close>,
  \<^verbatim>\<open>read_dcm\<close>, \<^verbatim>\<open>read_dcm_dir\<close>, \<^verbatim>\<open>set_meta_defaults\<close>, \<^verbatim>\<open>write_dcm\<close> and
  \<^verbatim>\<open>write_dcm_dir\<close>. The DCMTK toolkit, the file system and the declarations of
  \<^verbatim>\<open>imutil.h\<close>, \<^verbatim>\<open>macros.h\<close> and \<^verbatim>\<open>dicom.h\<close> are not part of the source file; what
  they answer is an input of the model.
\<close>

subsection \<open>Numbers\<close>

text \<open>
  A voxel is a finite \<^verbatim>\<open>float\<close>, the real number it denotes. The product of the
  rendering loop is rounded to 24 significant bits, to nearest, ties to even (\<open>f32\<close>),
  with an unbounded exponent: a product beyond the range of \<^verbatim>\<open>float\<close> is infinite in
  the program and beyond 255 in the model, and the conversion to \<^verbatim>\<open>uint8_t\<close> is
  undefined for both; a product in the subnormal range truncates to 0 in both.
\<close>

definition rne :: "real \<Rightarrow> int" where
  "rne x = (let f = \<lfloor>x\<rfloor>; d = x - of_int f in
     if d < 1 / 2 then f else if 1 / 2 < d then f + 1
     else if even f then f else f + 1)"

text \<open>The exponent \<open>e\<close> with \<open>2 ^ e \<le> \<bar>x\<bar> < 2 ^ (e + 1)\<close>, for \<open>x \<noteq> 0\<close>.\<close>

definition fl_exponent :: "real \<Rightarrow> int" where
  "fl_exponent x = (if 1 \<le> \<bar>x\<bar> then int (floorlog 2 (nat \<lfloor>\<bar>x\<bar>\<rfloor>)) - 1
     else - int (floorlog 2 (nat (\<lceil>1 / \<bar>x\<bar>\<rceil> - 1))))"

definition fl_round :: "nat \<Rightarrow> real \<Rightarrow> real" where
  "fl_round p x = (if x = 0 then 0 else
     let s = fl_exponent x - (int p - 1) in
     if 0 \<le> s then of_int (rne (x / 2 ^ nat s)) * 2 ^ nat s
     else of_int (rne (x * 2 ^ nat (- s))) / 2 ^ nat (- s))"

definition f32 :: "real \<Rightarrow> real" where
  "f32 x = fl_round 24 x"

text \<open>
  A \<^verbatim>\<open>double\<close> is finite, infinite or not a number. \<open>f64\<close> rounds a real to the
  format: 53 significant bits, to nearest, ties to even, with the gradual underflow below
  \<open>2 ^ - 1022\<close> (down to zero) and the overflow to infinity from \<open>2 ^ 1024\<close>. The sign
  of a zero and of a NaN is not modelled.
\<close>

datatype double = Finite real | PlusInf | MinusInf | NaN

definition pow2 :: "int \<Rightarrow> real" where
  "pow2 s = (if 0 \<le> s then 2 ^ nat s else 1 / 2 ^ nat (- s))"

definition f64 :: "real \<Rightarrow> double" where
  "f64 x = (if x = 0 then Finite 0 else
     let s = max (fl_exponent x) (- 1022) - 52;
         r = of_int (rne (x / pow2 s)) * pow2 s
     in if 2 ^ 1024 \<le> \<bar>r\<bar> then (if 0 < x then PlusInf else MinusInf) else Finite r)"

definition double_sign :: "double \<Rightarrow> int" where
  "double_sign a = (case a of Finite x \<Rightarrow> (if 0 < x then 1 else if x < 0 then - 1 else 0)
     | PlusInf \<Rightarrow> 1 | MinusInf \<Rightarrow> - 1 | NaN \<Rightarrow> 0)"

text \<open>The product of two doubles, and the comparison \<^verbatim>\<open>d <= 0.0\<close>.\<close>

fun double_mul :: "double \<Rightarrow> double \<Rightarrow> double" where
  "double_mul (Finite x) (Finite y) = f64 (x * y)"
| "double_mul NaN b = NaN"
| "double_mul a NaN = NaN"
| "double_mul a b = (if double_sign a * double_sign b = 0 then NaN
     else if 0 < double_sign a * double_sign b then PlusInf else MinusInf)"

definition le_zero :: "double \<Rightarrow> bool" where
  "le_zero d = (case d of Finite x \<Rightarrow> x \<le> 0 | MinusInf \<Rightarrow> True | _ \<Rightarrow> False)"

text \<open>
  \<^verbatim>\<open>static_cast<uint8_t>\<close> of a \<^verbatim>\<open>float\<close> drops the fractional part; when the
  truncated value is not a value of \<^verbatim>\<open>uint8_t\<close> the behaviour is undefined (\<open>None\<close>).
\<close>

definition trunc0 :: "real \<Rightarrow> int" where
  "trunc0 x = (if 0 \<le> x then \<lfloor>x\<rfloor> else \<lceil>x\<rceil>)"

definition cast_uint8 :: "real \<Rightarrow> 8 word option" where
  "cast_uint8 x = (let t = trunc0 x in
     if 0 \<le> t \<and> t \<le> 255 then Some (word_of_int t) else None)"

text \<open>
  \<^verbatim>\<open>atoll\<close>: white space, an optional sign, then the longest run of decimal digits;
  0 when there is none. A value out of range is clamped, as \<^verbatim>\<open>strtoll\<close> does.
  The assignment to an \<^verbatim>\<open>int\<close> keeps the low 32 bits.
\<close>

definition isspace :: "char \<Rightarrow> bool" where
  "isspace c = (c \<in> set [CHR '' '', CHR 0x09, CHR 0x0A, CHR 0x0B, CHR 0x0C, CHR 0x0D])"

definition isdigit :: "char \<Rightarrow> bool" where
  "isdigit c = (CHR ''0'' \<le> c \<and> c \<le> CHR ''9'')"

definition digit_val :: "char \<Rightarrow> nat" where
  "digit_val c = of_char c - 48"

fun digits_val :: "nat \<Rightarrow> string \<Rightarrow> nat" where
  "digits_val acc [] = acc"
| "digits_val acc (c # cs) =
     (if isdigit c then digits_val (10 * acc + digit_val c) cs else acc)"

definition atoll :: "string \<Rightarrow> int" where
  "atoll s = (let v = (case dropWhile isspace s of
         [] \<Rightarrow> 0
       | c # cs \<Rightarrow>
           if c = CHR ''-'' then - int (digits_val 0 cs)
           else if c = CHR ''+'' then int (digits_val 0 cs)
           else int (digits_val 0 (c # cs)))
     in max (- (2 ^ 63)) (min (2 ^ 63 - 1) v))"

definition to_int32 :: "int \<Rightarrow> int" where
  "to_int32 v = sint (word_of_int v :: 32 word)"

subsection \<open>What the toolkit reports about a file\<close>

datatype tag =
    DCM_ImageType | DCM_SOPClassUID | DCM_PhotometricInterpretation
  | DCM_PatientName | DCM_PatientID | DCM_StudyInstanceUID | DCM_SeriesInstanceUID
  | DCM_SeriesDescription | DCM_SOPInstanceUID | DCM_Rows | DCM_Columns
  | DCM_NumberOfFrames | DCM_InstanceNumber | DCM_SliceLocation | DCM_PixelSpacing
  | DCM_PixelAspectRatio | DCM_SliceThickness

text \<open>
  An \<^verbatim>\<open>OFCondition\<close> with the value the call delivers: \<open>Bad\<close> when the status is
  bad, \<open>Good v\<close> otherwise. The string of an element that is found is \<open>Some s\<close>, or
  \<open>None\<close> for the null pointer the toolkit delivers when the element has no value.
\<close>

datatype 'a found = Bad | Good 'a

text \<open>
  A DICOM file as the toolkit presents it to \<^verbatim>\<open>Dicom::Dicom\<close> and \<^verbatim>\<open>read_dcm_cpp\<close>:
  the data set's accessors, and the \<^verbatim>\<open>DicomImage\<close> opened on the same path.
  \<open>getOutputData i\<close> is frame \<open>i\<close> rendered as 32-bit samples, a buffer indexed by
  \<open>x + y * width\<close>, or \<open>None\<close> for a null pointer. Width, height and frame count are
  values of \<^verbatim>\<open>unsigned long\<close>.
\<close>

record dcm_file =
  findAndGetString :: "tag \<Rightarrow> string option found"
  findAndGetFloat64 :: "tag \<Rightarrow> double found"
  getStatus_Normal :: bool
  isMonochrome :: bool
  getWidth :: nat
  getHeight :: nat
  getFrameCount :: nat
  getHeightWidthRatio :: double
  getOutputData :: "nat \<Rightarrow> (nat \<Rightarrow> 32 word) option"

subsection \<open>The helper class \<^verbatim>\<open>Dicom\<close>\<close>

text \<open>
  The private members of the class, one field each (\<open>dcm_nx\<close> is \<^verbatim>\<open>nx\<close>, read by
  \<^verbatim>\<open>getNx()\<close>; \<open>dcm_valid\<close> is read by \<^verbatim>\<open>isValid()\<close>, \<open>dcm_filename\<close> by
  \<^verbatim>\<open>name()\<close>).
\<close>

record Dicom =
  dcm_filename :: string
  dcm_seriesUID :: string
  dcm_instance :: int
  dcm_ux :: double
  dcm_uy :: double
  dcm_uz :: double
  dcm_nx :: int
  dcm_ny :: int
  dcm_nz :: int
  dcm_nc :: int
  dcm_valid :: bool

text \<open>
  \<^verbatim>\<open>std::string::compare\<close>: negative, zero or positive as the receiver is less than,
  equal to or greater than the argument (bytes compared as unsigned values).
\<close>

definition compare :: "string \<Rightarrow> string \<Rightarrow> int" where
  "compare a b = (if a = b then 0 else if a < b then - 1 else 1)"

text \<open>
  \<^verbatim>\<open>bool eqSeries(const Dicom &dicom) const { return seriesUID.compare(dicom.seriesUID); }\<close>:
  the \<^verbatim>\<open>int\<close> becomes a \<^verbatim>\<open>bool\<close>, true for every value but 0.
\<close>

definition eqSeries :: "Dicom \<Rightarrow> Dicom \<Rightarrow> bool" where
  "eqSeries this dicom = (compare (dcm_seriesUID this) (dcm_seriesUID dicom) \<noteq> 0)"

text \<open>\<^verbatim>\<open>operator <\<close>: by instance number.\<close>

definition less_Dicom :: "Dicom \<Rightarrow> Dicom \<Rightarrow> bool" where
  "less_Dicom this dicom = (dcm_instance this < dcm_instance dicom)"

text \<open>
  The constructor \<^verbatim>\<open>Dicom::Dicom(std::string path)\<close> initialises \<^verbatim>\<open>filename\<close> and
  \<^verbatim>\<open>valid\<close> only; \<^verbatim>\<open>seriesUID\<close> starts empty and the other members hold
  indeterminate values until they are assigned.
\<close>

definition Dicom_init :: "string \<Rightarrow> Dicom" where
  "Dicom_init path = \<lparr>dcm_filename = path, dcm_seriesUID = [], dcm_instance = undefined,
     dcm_ux = undefined, dcm_uy = undefined, dcm_uz = undefined,
     dcm_nx = undefined, dcm_ny = undefined, dcm_nz = undefined, dcm_nc = undefined,
     dcm_valid = False\<rparr>"

text \<open>
  The part of the constructor after the two strings: the image is opened, the dimensions
  are assigned to the \<^verbatim>\<open>int\<close> members, which keeps the low 32 bits of the
  \<^verbatim>\<open>unsigned long\<close>, and the spacings are read. Every early \<^verbatim>\<open>return\<close> leaves
  the record built so far, still invalid.
\<close>

definition Dicom_image :: "dcm_file \<Rightarrow> Dicom \<Rightarrow> Dicom" where
  "Dicom_image f d2 =
     (if \<not> getStatus_Normal f then d2
      else if \<not> isMonochrome f then d2
      else
        let d3 = d2\<lparr>dcm_nc := 1\<rparr>;
            d4 = d3\<lparr>dcm_nx := to_int32 (int (getWidth f)),
                     dcm_ny := to_int32 (int (getHeight f)),
                     dcm_nz := to_int32 (int (getFrameCount f))\<rparr>
        in
        if dcm_nx d4 < 1 \<or> dcm_ny d4 < 1 \<or> dcm_nz d4 < 1 then d4
        else
         (case findAndGetFloat64 f DCM_PixelSpacing of Bad \<Rightarrow> d4 | Good pixelSpacing \<Rightarrow>
          let d5 = d4\<lparr>dcm_ux := pixelSpacing\<rparr> in
          if le_zero (dcm_ux d5) then d5
          else
            let d6 = d5\<lparr>dcm_uy := double_mul (dcm_ux d5) (getHeightWidthRatio f)\<rparr> in
            if le_zero (dcm_uy d6) then d6
            else
             (case findAndGetFloat64 f DCM_SliceThickness of Bad \<Rightarrow> d6
              | Good sliceThickness \<Rightarrow>
                let d7 = d6\<lparr>dcm_uz := sliceThickness\<rparr> in
                if le_zero (dcm_uz d7) then d7 else d7\<lparr>dcm_valid := True\<rparr>)))"

text \<open>
  The constructor on the file found at the path (\<open>None\<close>: \<^verbatim>\<open>loadFile\<close> did not
  succeed). \<^verbatim>\<open>std::string(seriesUIDStr)\<close> and \<^verbatim>\<open>atoll(instanceStr)\<close> read the
  strings of the two elements without a test for the null pointer; reading a null
  pointer is undefined behaviour, the result \<open>None\<close>.
\<close>

definition Dicom_Dicom :: "string \<Rightarrow> dcm_file option \<Rightarrow> Dicom option" where
  "Dicom_Dicom path file = (let d0 = Dicom_init path in
     case file of None \<Rightarrow> Some d0 | Some f \<Rightarrow>
     (case findAndGetString f DCM_SeriesInstanceUID of
        Bad \<Rightarrow> Some d0
      | Good None \<Rightarrow> None
      | Good (Some seriesUIDStr) \<Rightarrow>
         let d1 = d0\<lparr>dcm_seriesUID := seriesUIDStr\<rparr> in
         (case findAndGetString f DCM_InstanceNumber of
            Bad \<Rightarrow> Some d1
          | Good None \<Rightarrow> None
          | Good (Some instanceStr) \<Rightarrow>
             Some (Dicom_image f (d1\<lparr>dcm_instance := to_int32 (atoll instanceStr)\<rparr>)))))"

text \<open>
  The record of a construction whose behaviour is defined; the initial, invalid record
  stands for the others, so that a valid \<open>Dicom_ctor\<close> is a defined construction of a
  valid record.
\<close>

definition Dicom_ctor :: "string \<Rightarrow> dcm_file option \<Rightarrow> Dicom" where
  "Dicom_ctor path file =
     (case Dicom_Dicom path file of None \<Rightarrow> Dicom_init path | Some d \<Rightarrow> d)"

subsection \<open>Volumes\<close>

text \<open>
  Modelled from the spec: the \<^verbatim>\<open>Image\<close> struct of \<^verbatim>\<open>imutil.h\<close>, a dense buffer
  addressed by \<open>(x, y, z, channel)\<close> with dimensions \<open>nx, ny, nz, nc\<close> and voxel spacing
  \<open>(ux, uy, uz)\<close>. \<open>vox im (x, y, z, c)\<close> is \<^verbatim>\<open>SIFT3D_IM_GET_VOX(im, x, y, z, c)\<close>;
  the strides set by \<^verbatim>\<open>im_default_stride\<close> are part of that addressing.
\<close>

record Image =
  nx :: int
  ny :: int
  nz :: int
  nc :: int
  ux :: double
  uy :: double
  uz :: double
  vox :: "nat \<times> nat \<times> nat \<times> nat \<Rightarrow> real"

definition set_vox :: "nat \<times> nat \<times> nat \<times> nat \<Rightarrow> real \<Rightarrow> Image \<Rightarrow> Image" where
  "set_vox p v im = im\<lparr>vox := (vox im)(p := v)\<rparr>"

text \<open>Modelled from the spec: \<^verbatim>\<open>init_im\<close> of \<^verbatim>\<open>imutil\<close>, an empty image.\<close>

definition init_im :: Image where
  "init_im = \<lparr>nx = 0, ny = 0, nz = 0, nc = 0, ux = Finite 1, uy = Finite 1, uz = Finite 1,
     vox = (\<lambda>p. 0)\<rparr>"

text \<open>
  The loop macros of \<^verbatim>\<open>macros.h\<close>: \<^verbatim>\<open>SIFT3D_IM_LOOP_START_C\<close> visits every voxel and
  channel of an image, \<^verbatim>\<open>SIFT3D_IM_LOOP_START\<close> every voxel, and
  \<^verbatim>\<open>SIFT3D_IM_LOOP_LIMITED_START\<close> the voxels between inclusive bounds.
\<close>

definition im_loop_c :: "Image \<Rightarrow> (nat \<times> nat \<times> nat \<times> nat) list" where
  "im_loop_c im = [(x, y, z, c).
     z \<leftarrow> [0..<nat (nz im)], y \<leftarrow> [0..<nat (ny im)], x \<leftarrow> [0..<nat (nx im)],
     c \<leftarrow> [0..<nat (nc im)]]"

definition im_loop :: "Image \<Rightarrow> (nat \<times> nat \<times> nat) list" where
  "im_loop im = [(x, y, z).
     z \<leftarrow> [0..<nat (nz im)], y \<leftarrow> [0..<nat (ny im)], x \<leftarrow> [0..<nat (nx im)]]"

definition im_loop_limited :: "int \<Rightarrow> int \<Rightarrow> int \<Rightarrow> int \<Rightarrow> int \<Rightarrow> int \<Rightarrow> (nat \<times> nat \<times> nat) list" where
  "im_loop_limited x_start x_end y_start y_end z_start z_end = [(x, y, z).
     z \<leftarrow> [nat z_start..<nat (z_end + 1)], y \<leftarrow> [nat y_start..<nat (y_end + 1)],
     x \<leftarrow> [nat x_start..<nat (x_end + 1)]]"

subsection \<open>Results and diagnostics\<close>

text \<open>
  Every operation returns \<^verbatim>\<open>SIFT3D_SUCCESS\<close> or \<^verbatim>\<open>SIFT3D_FAILURE\<close>; the message
  written to the error stream is attached to the failure, under the name the
  specification gives that error. \<open>UNDEFINED\<close> stands for an execution whose behaviour the
  language leaves undefined.
\<close>

datatype diag =
    InputNotFound string
  | NotADirectory string
  | OpendirError
  | InvalidSlice string
  | EmptyInput string
  | SeriesMismatch string string
  | DimensionMismatch string "int \<times> int \<times> int" string "int \<times> int \<times> int"
  | ResizeFailure
  | ImageOpenFailure string
  | PayloadDecodeFailure string nat
  | UnsupportedChannels int
  | TagWriteFailure string
  | EncodingFailure
  | PersistFailure string

datatype ret = SIFT3D_SUCCESS | SIFT3D_FAILURE diag | UNDEFINED

subsection \<open>The environment\<close>

datatype im_format = DICOM | OTHER_FORMAT

datatype node = Missing | Regular | Directory

text \<open>
  What the code asks outside \<^verbatim>\<open>dicom.cpp\<close>. On the read path: \<^verbatim>\<open>stat\<close>,
  \<^verbatim>\<open>opendir\<close> with the names \<^verbatim>\<open>readdir\<close> then enumerates in that order, the file the
  toolkit loads from a path, \<^verbatim>\<open>im_get_format\<close> on a file name and whether
  \<^verbatim>\<open>im_resize\<close> can allocate a volume of the given \<open>nx, ny, nz, nc\<close>; and two
  things the language leaves open: how \<^verbatim>\<open>std::sort\<close> arranges records that compare
  equal (\<open>sort_ties\<close>, see \<open>std_sort\<close>), and whether the characters of a string that
  has been destroyed are still read as that string (\<open>c_str_kept\<close>, see
  \<open>read_slices\<close>). On the write
  path: the extension \<^verbatim>\<open>ext_dcm\<close> declared by \<^verbatim>\<open>imutil.h\<close>, the identifier the
  toolkit's \<^verbatim>\<open>dcmGenerateUniqueIdentifier\<close> produces under a root at its \<open>n\<close>-th call,
  and whether \<^verbatim>\<open>putAndInsertString\<close>, \<^verbatim>\<open>putAndInsertUint8Array\<close>,
  \<^verbatim>\<open>canWriteXfer\<close> and \<^verbatim>\<open>saveFile\<close> succeed.
\<close>

datatype uid_root = SITE_STUDY_UID_ROOT | SITE_SERIES_UID_ROOT | SITE_INSTANCE_UID_ROOT

record env =
  stat :: "string \<Rightarrow> node"
  opendir :: "string \<Rightarrow> string list option"
  loadFile :: "string \<Rightarrow> dcm_file option"
  im_get_format :: "string \<Rightarrow> im_format"
  can_allocate :: "int \<Rightarrow> int \<Rightarrow> int \<Rightarrow> int \<Rightarrow> bool"
  sort_ties :: "Dicom list \<Rightarrow> Dicom list"
  c_str_kept :: "string \<Rightarrow> bool"
  ext_dcm :: string
  uid_of :: "uid_root \<Rightarrow> nat \<Rightarrow> string"
  put_ok :: "tag \<Rightarrow> string \<Rightarrow> bool"
  put_array_ok :: "8 word list \<Rightarrow> bool"
  canWriteXfer :: bool
  saveFile_ok :: "string \<Rightarrow> bool"

definition sep :: string where
  "sep = ''/''"

text \<open>
  Modelled from the spec: \<^verbatim>\<open>im_resize\<close> of \<^verbatim>\<open>imutil\<close>, the allocate/resize contract
  of the volume container. It fails when the buffer cannot be allocated and otherwise
  leaves the dimensions as they were set.
\<close>

definition im_resize :: "env \<Rightarrow> Image \<Rightarrow> Image option" where
  "im_resize E im = (if can_allocate E (nx im) (ny im) (nz im) (nc im) then Some im else None)"

subsection \<open>\<^verbatim>\<open>read_dcm\<close>\<close>

text \<open>
  Copying one frame: \<^verbatim>\<open>vox(x, y, i, 0) = static_cast<float>(frameData[x + y * nx])\<close>.
  The index is computed in \<^verbatim>\<open>int\<close>; it overflows, which is undefined behaviour, when
  the frame has more than \<open>2 ^ 31\<close> pixels.
\<close>

definition copy_frame :: "(nat \<Rightarrow> 32 word) \<Rightarrow> nat \<Rightarrow> Image \<Rightarrow> Image" where
  "copy_frame frameData i im =
     fold (\<lambda>(x, y, z). set_vox (x, y, z, 0) (f32 (real (unat (frameData (x + y * nat (nx im)))))))
       (im_loop_limited 0 (nx im - 1) 0 (ny im - 1) (int i) (int i)) im"

fun read_frames :: "dcm_file \<Rightarrow> string \<Rightarrow> nat list \<Rightarrow> Image \<Rightarrow> ret \<times> Image" where
  "read_frames img path [] im = (SIFT3D_SUCCESS, im)"
| "read_frames img path (i # rest) im =
     (case getOutputData img i of
        None \<Rightarrow> (SIFT3D_FAILURE (PayloadDecodeFailure path i), im)
      | Some frameData \<Rightarrow>
          if 2 ^ 31 < nx im * ny im then (UNDEFINED, im)
          else read_frames img path rest (copy_frame frameData i im))"

definition read_dcm_cpp :: "env \<Rightarrow> string \<Rightarrow> Image \<Rightarrow> ret \<times> Image" where
  "read_dcm_cpp E path im =
     (case Dicom_Dicom path (loadFile E path) of
        None \<Rightarrow> (UNDEFINED, im)
      | Some dicom \<Rightarrow>
         if \<not> dcm_valid dicom then (SIFT3D_FAILURE (InvalidSlice path), im)
         else case loadFile E path of
           None \<Rightarrow> (SIFT3D_FAILURE (ImageOpenFailure path), im)
         | Some img \<Rightarrow>
             if \<not> getStatus_Normal img then (SIFT3D_FAILURE (ImageOpenFailure path), im)
             else
               let im1 = im\<lparr>nx := dcm_nx dicom, ny := dcm_ny dicom, nz := dcm_nz dicom,
                     nc := dcm_nc dicom, ux := dcm_ux dicom, uy := dcm_uy dicom,
                     uz := dcm_uz dicom\<rparr>
               in case im_resize E im1 of
                   None \<Rightarrow> (SIFT3D_FAILURE ResizeFailure, im1)
                 | Some im2 \<Rightarrow> read_frames img path [0..<nat (nz im2)] im2)"

text \<open>
  The public functions wrap the helpers in \<^verbatim>\<open>CATCH_EXCEPTIONS\<close>, which turns an
  exception into \<^verbatim>\<open>SIFT3D_FAILURE\<close>. The exhaustion of memory in the strings and
  vectors of the helpers, the one source of an exception there, is not modelled, so the
  helpers as modelled raise none.
\<close>

definition read_dcm :: "env \<Rightarrow> string \<Rightarrow> Image \<Rightarrow> ret \<times> Image" where
  "read_dcm E path im = read_dcm_cpp E path im"

subsection \<open>\<^verbatim>\<open>read_dcm_dir\<close>\<close>

text \<open>The scan of the directory: one \<^verbatim>\<open>Dicom\<close> per entry that is a DICOM file name.\<close>

fun scan_dir :: "env \<Rightarrow> string \<Rightarrow> string list \<Rightarrow> Dicom list \<Rightarrow> ret + Dicom list" where
  "scan_dir E path [] dicoms = Inr dicoms"
| "scan_dir E path (filename # ents) dicoms =
     (if im_get_format E filename \<noteq> DICOM then scan_dir E path ents dicoms
      else
        let fullfile = path @ sep @ filename in
        case Dicom_Dicom fullfile (loadFile E fullfile) of
          None \<Rightarrow> Inl UNDEFINED
        | Some dicom \<Rightarrow>
            if \<not> dcm_valid dicom then Inl (SIFT3D_FAILURE (InvalidSlice fullfile))
            else scan_dir E path ents (dicoms @ [dicom]))"

text \<open>
  \<^verbatim>\<open>for (int i = 1; i < num_files; i++) if (!first.eqSeries(dicoms[i])) ... return SIFT3D_FAILURE;\<close>
\<close>

fun check_series :: "Dicom \<Rightarrow> Dicom list \<Rightarrow> diag option" where
  "check_series first [] = None"
| "check_series first (dicom # rest) =
     (if \<not> eqSeries first dicom
      then Some (SeriesMismatch (dcm_filename dicom) (dcm_filename first))
      else check_series first rest)"

text \<open>
  The dimension check over all files, counting the total z-dimension in the \<^verbatim>\<open>int\<close>
  \<^verbatim>\<open>nz\<close>, whose overflow is undefined behaviour.
\<close>

fun check_dims :: "Dicom \<Rightarrow> Dicom list \<Rightarrow> int \<Rightarrow> ret + int" where
  "check_dims first [] acc_nz = Inr acc_nz"
| "check_dims first (dicom # rest) acc_nz =
     (if dcm_nx dicom \<noteq> dcm_nx first \<or> dcm_ny dicom \<noteq> dcm_ny first
         \<or> dcm_nc dicom \<noteq> dcm_nc first
      then Inl (SIFT3D_FAILURE
             (DimensionMismatch (dcm_filename dicom) (dcm_nx dicom, dcm_ny dicom, dcm_nc dicom)
                (dcm_filename first) (dcm_nx first, dcm_ny first, dcm_nc first)))
      else if 2 ^ 31 \<le> acc_nz + dcm_nz dicom then Inl UNDEFINED
      else check_dims first rest (acc_nz + dcm_nz dicom))"

definition copy_slice :: "Image \<Rightarrow> nat \<Rightarrow> Image \<Rightarrow> Image" where
  "copy_slice sl off_z im =
     fold (\<lambda>(x, y, z, c). set_vox (x, y, z + off_z, c) (vox sl (x, y, z, c)))
       (im_loop_c sl) im"

text \<open>
  The loop that reads the sorted slices into the volume; it yields the result, the
  offset \<^verbatim>\<open>off_z\<close> and the volume. \<^verbatim>\<open>slicename\<close> is the \<^verbatim>\<open>c_str()\<close> of the
  temporary string that \<^verbatim>\<open>name()\<close> returns, which is destroyed at the end of the
  declaration, so \<^verbatim>\<open>read_dcm\<close> reads its path through a dangling pointer: undefined
  behaviour. Where the implementation still delivers the characters of the name
  (\<open>c_str_kept\<close>, as it may for a short string that is stored inside the string
  object) the slice is read from that name; every other run is \<open>UNDEFINED\<close>.
\<close>

fun read_slices :: "env \<Rightarrow> Dicom list \<Rightarrow> Image \<Rightarrow> nat \<Rightarrow> Image \<Rightarrow> ret \<times> nat \<times> Image" where
  "read_slices E [] sl off_z im = (SIFT3D_SUCCESS, off_z, im)"
| "read_slices E (dicom # rest) sl off_z im =
     (if \<not> c_str_kept E (dcm_filename dicom) then (UNDEFINED, off_z, im)
      else case read_dcm E (dcm_filename dicom) sl of
          (SIFT3D_SUCCESS, sl') \<Rightarrow>
            read_slices E rest sl' (off_z + nat (nz sl')) (copy_slice sl' off_z im)
        | (r, sl') \<Rightarrow> (r, off_z, im))"

text \<open>
  \<^verbatim>\<open>std::sort(dicoms.begin(), dicoms.end())\<close> orders by \<^verbatim>\<open>operator <\<close>, the instance
  number, and leaves the order of records with equal instance numbers unspecified. The
  environment arranges the records first (\<open>sort_ties\<close>, used when it is a
  permutation), and a stable sort follows: every sorted permutation is the result for
  some arrangement.
\<close>

definition std_sort :: "env \<Rightarrow> Dicom list \<Rightarrow> Dicom list" where
  "std_sort E dicoms = sort_key dcm_instance
     (if mset (sort_ties E dicoms) = mset dicoms then sort_ties E dicoms else dicoms)"

text \<open>
  \<^verbatim>\<open>read_dcm_dir_cpp\<close>. Every check that fails returns before the destination is
  touched; then the dimensions and the spacing of the series are assigned to the
  destination, it is resized, the records are sorted and the slices are read. A run in
  which the closing \<^verbatim>\<open>assert(off_z == nz)\<close> does not hold is \<open>UNDEFINED\<close>.
\<close>

definition read_dcm_dir_cpp :: "env \<Rightarrow> string \<Rightarrow> Image \<Rightarrow> ret \<times> Image" where
  "read_dcm_dir_cpp E path im =
     (case stat E path of
        Missing \<Rightarrow> (SIFT3D_FAILURE (InputNotFound path), im)
      | Regular \<Rightarrow> (SIFT3D_FAILURE (NotADirectory path), im)
      | Directory \<Rightarrow>
         (case opendir E path of
            None \<Rightarrow> (SIFT3D_FAILURE OpendirError, im)
          | Some ents \<Rightarrow>
             (case scan_dir E path ents [] of
                Inl r \<Rightarrow> (r, im)
              | Inr dicoms \<Rightarrow>
                 (case dicoms of
                    [] \<Rightarrow> (SIFT3D_FAILURE (EmptyInput path), im)
                  | first # others \<Rightarrow>
                     (case check_series first others of
                        Some e \<Rightarrow> (SIFT3D_FAILURE e, im)
                      | None \<Rightarrow>
                         (case check_dims first dicoms 0 of
                            Inl r \<Rightarrow> (r, im)
                          | Inr sum_nz \<Rightarrow>
                             let im1 = im\<lparr>nx := dcm_nx first, ny := dcm_ny first, nz := sum_nz,
                                   nc := dcm_nc first, ux := dcm_ux first, uy := dcm_uy first,
                                   uz := dcm_uz first\<rparr>
                             in case im_resize E im1 of
                                 None \<Rightarrow> (SIFT3D_FAILURE ResizeFailure, im1)
                               | Some im2 \<Rightarrow>
                                  (case read_slices E (std_sort E dicoms) init_im 0 im2 of
                                     (SIFT3D_SUCCESS, off_z, im3) \<Rightarrow>
                                       if int off_z = nz im3 then (SIFT3D_SUCCESS, im3)
                                       else (UNDEFINED, im3)
                                   | (r, off_z, im3) \<Rightarrow> (r, im3))))))))"

definition read_dcm_dir :: "env \<Rightarrow> string \<Rightarrow> Image \<Rightarrow> ret \<times> Image" where
  "read_dcm_dir E path im = read_dcm_dir_cpp E path im"

subsection \<open>Printing numbers\<close>

definition digit_char :: "nat \<Rightarrow> char" where
  "digit_char d = char_of (48 + d)"

fun show_nat :: "nat \<Rightarrow> string" where
  "show_nat n = (if n < 10 then [digit_char n] else show_nat (n div 10) @ [digit_char (n mod 10)])"

declare show_nat.simps [simp del]

text \<open>\<^verbatim>\<open>%d\<close> and \<^verbatim>\<open>%u\<close>.\<close>

definition show_int :: "int \<Rightarrow> string" where
  "show_int i = (if i < 0 then ''-'' @ show_nat (nat (- i)) else show_nat (nat i))"

text \<open>\<^verbatim>\<open>%0wd\<close> of a number that is not negative: at least \<open>w\<close> digits, zeros first.\<close>

definition zero_pad :: "nat \<Rightarrow> nat \<Rightarrow> string" where
  "zero_pad w n = replicate (w - length (show_nat n)) (CHR ''0'') @ show_nat n"

text \<open>
  \<^verbatim>\<open>%f\<close>: six decimals, the nearest decimal to the value, and the words the C library
  prints for an infinity and for a NaN.
\<close>

definition fmt_f :: "double \<Rightarrow> string" where
  "fmt_f d = (case d of
       Finite v \<Rightarrow> (let r = nat (rne (\<bar>v\<bar> * 10 ^ 6)) in
         (if v < 0 then ''-'' else []) @ show_nat (r div 10 ^ 6) @ ''.''
           @ zero_pad 6 (r mod 10 ^ 6))
     | PlusInf \<Rightarrow> ''inf'' | MinusInf \<Rightarrow> ''-inf'' | NaN \<Rightarrow> ''nan'')"

subsection \<open>Metadata\<close>

text \<open>
  A \<^verbatim>\<open>const char *\<close> is a string literal or the address of a character array. The
  store holds the contents of the arrays that exist: the array of a block is in it from
  its declaration to the end of the block. Reading through a pointer to an array that no
  longer exists is undefined behaviour.
\<close>

datatype cstr = Literal string | Buffer nat

text \<open>
  Modelled from the spec: the \<^verbatim>\<open>Dcm_meta\<close> struct of \<^verbatim>\<open>dicom.h\<close> with the fields
  \<open>patient_name, patient_id, study_uid, series_uid, series_descrip, instance_uid,
  instance_num\<close>. The string fields are pointers, as their assignments in
  \<^verbatim>\<open>default_Dcm_meta\<close> require; the instance number is an \<^verbatim>\<open>unsigned int\<close>.
\<close>

record Dcm_meta =
  patient_name :: cstr
  patient_id :: cstr
  study_uid :: cstr
  series_uid :: cstr
  series_descrip :: cstr
  instance_uid :: cstr
  instance_num :: nat

text \<open>A data set under construction: the string elements inserted so far and the pixel data.\<close>

record dataset =
  elements :: "tag \<rightharpoonup> string"
  PixelData :: "8 word list option"

text \<open>
  The state the write path changes: the character arrays that exist, the first address
  not yet handed out, the number of identifiers generated so far, and the files saved.
\<close>

record world =
  heap :: "nat \<rightharpoonup> string"
  next_buf :: nat
  uid_count :: nat
  disk :: "string \<rightharpoonup> dataset"

text \<open>The string a pointer reads, \<open>None\<close> when its array does not exist.\<close>

definition deref :: "world \<Rightarrow> cstr \<Rightarrow> string option" where
  "deref W p = (case p of Literal s \<Rightarrow> Some s | Buffer a \<Rightarrow> heap W a)"

text \<open>
  The declaration of a local array \<^verbatim>\<open>char buf[BUF_LEN]\<close>, at a new address and with
  indeterminate contents, and the end of its block.
\<close>

definition local_buf :: "world \<Rightarrow> nat \<times> world" where
  "local_buf W = (next_buf W,
     W\<lparr>next_buf := Suc (next_buf W), heap := (heap W)(next_buf W \<mapsto> undefined)\<rparr>)"

definition end_block :: "nat \<Rightarrow> world \<Rightarrow> world" where
  "end_block buf W = W\<lparr>heap := (heap W)(buf := None)\<rparr>"

text \<open>
  \<^verbatim>\<open>dcmGenerateUniqueIdentifier(buf, prefix)\<close> writes a new identifier into \<^verbatim>\<open>buf\<close> and
  returns \<^verbatim>\<open>buf\<close>. Both callers pass an array of their own block.
\<close>

definition dcmGenerateUniqueIdentifier :: "env \<Rightarrow> nat \<Rightarrow> uid_root \<Rightarrow> world \<Rightarrow> cstr \<times> world" where
  "dcmGenerateUniqueIdentifier E buf prefix W =
     (Buffer buf, W\<lparr>heap := (heap W)(buf \<mapsto> uid_of E prefix (uid_count W)),
                    uid_count := Suc (uid_count W)\<rparr>)"

definition default_patient_name :: string where
  "default_patient_name = ''DefaultSIFT3DPatient''"

definition default_series_descrip :: string where
  "default_series_descrip = ''Series generated by SIFT3D''"

definition default_patient_id :: string where
  "default_patient_id = ''DefaultSIFT3DPatientID''"

definition default_instance_num :: nat where
  "default_instance_num = 1"

text \<open>
  The statements of \<^verbatim>\<open>default_Dcm_meta\<close>, \<open>buf\<close> being the address of its array: the
  three calls of the generator write into that one array, and the pointer each returns
  is stored in a field.
\<close>

definition default_Dcm_meta_body :: "env \<Rightarrow> nat \<Rightarrow> world \<Rightarrow> Dcm_meta \<times> world" where
  "default_Dcm_meta_body E buf W0 =
     (let (study, W1) = dcmGenerateUniqueIdentifier E buf SITE_STUDY_UID_ROOT W0;
          (series, W2) = dcmGenerateUniqueIdentifier E buf SITE_SERIES_UID_ROOT W1;
          (inst, W3) = dcmGenerateUniqueIdentifier E buf SITE_INSTANCE_UID_ROOT W2
      in (\<lparr>patient_name = Literal default_patient_name,
           patient_id = Literal default_patient_id,
           study_uid = study,
           series_uid = series,
           series_descrip = Literal default_series_descrip,
           instance_uid = inst,
           instance_num = default_instance_num\<rparr>, W3))"

text \<open>
  \<^verbatim>\<open>default_Dcm_meta\<close>: the array \<^verbatim>\<open>char buf[1024]\<close> is declared, the statements run,
  and the array ends with the function, which leaves the pointers in \<^verbatim>\<open>*meta\<close>.
\<close>

definition default_Dcm_meta :: "env \<Rightarrow> world \<Rightarrow> Dcm_meta \<times> world" where
  "default_Dcm_meta E W =
     (let (buf, W0) = local_buf W;
          (meta, W3) = default_Dcm_meta_body E buf W0
      in (meta, end_block buf W3))"

text \<open>\<^verbatim>\<open>meta == NULL\<close> is \<open>None\<close>; otherwise \<^verbatim>\<open>*meta_new = *meta\<close>.\<close>

definition set_meta_defaults :: "env \<Rightarrow> Dcm_meta option \<Rightarrow> world \<Rightarrow> Dcm_meta \<times> world" where
  "set_meta_defaults E meta W =
     (case meta of None \<Rightarrow> default_Dcm_meta E W | Some m \<Rightarrow> (m, W))"

subsection \<open>\<^verbatim>\<open>write_dcm\<close>\<close>

definition empty_dataset :: dataset where
  "empty_dataset = \<lparr>elements = Map.empty, PixelData = None\<rparr>"

definition putAndInsertString :: "env \<Rightarrow> tag \<Rightarrow> string \<Rightarrow> dataset \<Rightarrow> bool \<times> dataset" where
  "putAndInsertString E t v ds =
     (if put_ok E t v then (True, ds\<lparr>elements := (elements ds)(t \<mapsto> v)\<rparr>) else (False, ds))"

definition UID_CTImageStorage :: string where
  "UID_CTImageStorage = ''1.2.840.10008.5.1.4.1.1.2''"

text \<open>
  The insertions of \<^verbatim>\<open>write_dcm_cpp\<close> in program order. Each has the string that is
  inserted, \<open>None\<close> when it is read through a pointer whose array does not exist, and
  the words of the message that its status check prints, \<open>None\<close> where no check can
  fail: the status tested after \<^verbatim>\<open>DCM_SOPClassUID\<close> is still the one of
  \<^verbatim>\<open>DCM_ImageType\<close>, and the insertion of \<^verbatim>\<open>DCM_PhotometricInterpretation\<close> is not
  tested. The check after \<^verbatim>\<open>DCM_InstanceNumber\<close> prints the message of the pixel
  spacing.
\<close>

definition insertions ::
    "world \<Rightarrow> Image \<Rightarrow> Dcm_meta \<Rightarrow> (tag \<times> string option \<times> string option) list" where
  "insertions W im meta_new =
    [(DCM_ImageType, Some ''DERIVED'', Some ''image type''),
     (DCM_SOPClassUID, Some UID_CTImageStorage, None),
     (DCM_PhotometricInterpretation, Some ''MONOCHROME2'', None),
     (DCM_PatientName, deref W (patient_name meta_new), Some ''patient name''),
     (DCM_PatientID, deref W (patient_id meta_new), Some ''patient ID''),
     (DCM_StudyInstanceUID, deref W (study_uid meta_new), Some ''StudyInstanceUID''),
     (DCM_SeriesInstanceUID, deref W (series_uid meta_new), Some ''SeriesInstanceUID''),
     (DCM_SeriesDescription, deref W (series_descrip meta_new), Some ''series description''),
     (DCM_SOPInstanceUID, deref W (instance_uid meta_new), Some ''SOPInstanceUID''),
     (DCM_Rows, Some (show_int (nx im)), Some ''dimensions''),
     (DCM_Columns, Some (show_int (ny im)), Some ''dimensions''),
     (DCM_NumberOfFrames, Some (show_int (nz im)), Some ''dimensions''),
     (DCM_InstanceNumber, Some (show_nat (instance_num meta_new)), Some ''pixel spacing''),
     (DCM_SliceLocation,
        Some (fmt_f (double_mul (uz im) (Finite (real (instance_num meta_new) - 1)))),
        Some ''slice location''),
     (DCM_PixelSpacing, Some (''[2] '' @ fmt_f (ux im) @ '', '' @ fmt_f (uy im)),
        Some ''pixel spacing''),
     (DCM_PixelAspectRatio, Some (''[2] '' @ fmt_f (ux im) @ '', '' @ fmt_f (uy im)),
        Some ''pixel aspect ratio''),
     (DCM_SliceThickness, Some (fmt_f (uz im)), Some ''slice thickness'')]"

fun put_all ::
    "env \<Rightarrow> (tag \<times> string option \<times> string option) list \<Rightarrow> dataset \<Rightarrow> ret + dataset" where
  "put_all E [] ds = Inr ds"
| "put_all E ((t, v, check) # rest) ds =
     (case v of
        None \<Rightarrow> Inl UNDEFINED
      | Some s \<Rightarrow>
         (case putAndInsertString E t s ds of (good, ds') \<Rightarrow>
            (case check of
               Some msg \<Rightarrow>
                 if \<not> good then Inl (SIFT3D_FAILURE (TagWriteFailure msg))
                 else put_all E rest ds'
             | None \<Rightarrow> put_all E rest ds')))"

text \<open>
  \<^verbatim>\<open>unsigned long numPixels = 1; for (i < IM_NDIMS) numPixels *= im->dims[i];\<close> with the
  three dimensions \<open>nx, ny, nz\<close>, in 64-bit unsigned arithmetic.
\<close>

definition numPixels :: "Image \<Rightarrow> nat" where
  "numPixels im = unat (1 * word_of_int (nx im) * word_of_int (ny im) * word_of_int (nz im) :: 64 word)"

text \<open>
  The rendering loop. The index \<^verbatim>\<open>x + y * im->nx + z * im->nx * im->ny\<close> is an
  \<^verbatim>\<open>int\<close>; an index that overflows it or lies outside the array, and a cast whose
  value does not fit, are undefined behaviour (\<open>None\<close>). The array starts uninitialised.
  It is released with \<^verbatim>\<open>delete\<close>, not \<^verbatim>\<open>delete[]\<close>, once the data set has copied
  it; the release is not modelled.
\<close>

definition pixel_index :: "Image \<Rightarrow> nat \<times> nat \<times> nat \<Rightarrow> nat" where
  "pixel_index im p = (case p of (x, y, z) \<Rightarrow> x + y * nat (nx im) + z * nat (nx im) * nat (ny im))"

fun render_loop :: "Image \<Rightarrow> (nat \<times> nat \<times> nat) list \<Rightarrow> 8 word list \<Rightarrow> 8 word list option" where
  "render_loop im [] pixelData = Some pixelData"
| "render_loop im ((x, y, z) # rest) pixelData =
     (let k = pixel_index im (x, y, z) in
      if \<not> (k < 2 ^ 31 \<and> k < length pixelData) then None
      else case cast_uint8 (f32 (vox im (x, y, z, 0) * 255)) of
          None \<Rightarrow> None
        | Some b \<Rightarrow> render_loop im rest (pixelData[k := b]))"

definition render_pixels :: "Image \<Rightarrow> 8 word list option" where
  "render_pixels im = render_loop im (im_loop im) (replicate (numPixels im) undefined)"

definition write_dcm_cpp :: "env \<Rightarrow> string \<Rightarrow> Image \<Rightarrow> Dcm_meta option \<Rightarrow> world \<Rightarrow> ret \<times> world" where
  "write_dcm_cpp E path im meta W =
     (if nc im \<noteq> 1 then (SIFT3D_FAILURE (UnsupportedChannels (nc im)), W)
      else
        let (meta_new, W1) = set_meta_defaults E meta W in
        case put_all E (insertions W1 im meta_new) empty_dataset of
          Inl r \<Rightarrow> (r, W1)
        | Inr ds \<Rightarrow>
           (case render_pixels im of
              None \<Rightarrow> (UNDEFINED, W1)
            | Some pixelData \<Rightarrow>
                if \<not> put_array_ok E pixelData
                then (SIFT3D_FAILURE (TagWriteFailure ''pixel data''), W1)
                else if \<not> canWriteXfer E then (SIFT3D_FAILURE EncodingFailure, W1)
                else if \<not> saveFile_ok E path then (SIFT3D_FAILURE (PersistFailure path), W1)
                else (SIFT3D_SUCCESS,
                      W1\<lparr>disk := (disk W1)(path \<mapsto> ds\<lparr>PixelData := Some pixelData\<rparr>)\<rparr>)))"

definition write_dcm :: "env \<Rightarrow> string \<Rightarrow> Image \<Rightarrow> Dcm_meta option \<Rightarrow> world \<Rightarrow> ret \<times> world" where
  "write_dcm E path im meta W = write_dcm_cpp E path im meta W"

subsection \<open>\<^verbatim>\<open>write_dcm_dir\<close>\<close>

text \<open>
  \<^verbatim>\<open>static_cast<int>(ceil(log10(static_cast<double>(num_slices))))\<close>, with the exact
  logarithm. For \<open>num_slices \<le> 0\<close> the logarithm is infinite or not a number and its
  conversion to \<^verbatim>\<open>int\<close> is undefined (\<open>None\<close>).
\<close>

definition num_zeros :: "int \<Rightarrow> nat option" where
  "num_zeros num_slices =
     (if num_slices \<le> 0 then None else Some (nat \<lceil>log 10 (of_int num_slices)\<rceil>))"

text \<open>
  The file name of slice \<open>i\<close>: \<^verbatim>\<open>snprintf(format, 16, "%%0%dd.%s", num_zeros, ext_dcm)\<close>
  builds the format \<^verbatim>\<open>%0<w>d.<ext>\<close>, cut after 15 characters, and
  \<^verbatim>\<open>snprintf(buf, 1024, format, i)\<close> prints the index with it. The width of an
  \<^verbatim>\<open>int\<close> has at most two digits, so the cut can only shorten the extension, which
  is taken to hold no per cent sign.
\<close>

definition slice_name :: "nat \<Rightarrow> string \<Rightarrow> nat \<Rightarrow> string" where
  "slice_name w ext i = zero_pad w i @ ''.'' @ take (11 - length (show_nat w)) ext"

text \<open>
  One pass of the loop over the slices and the loop itself. The array \<^verbatim>\<open>buf\<close> of the
  loop body first holds the file name, which \<^verbatim>\<open>fullfile\<close> copies, and then the new
  instance identifier; it ends with the pass.
\<close>

definition copy_plane :: "Image \<Rightarrow> nat \<Rightarrow> Image \<Rightarrow> Image" where
  "copy_plane im i sl =
     fold (\<lambda>(x, y, z, c). set_vox (x, y, z, c) (vox im (x, y, i, c))) (im_loop_c sl) sl"

fun write_slices :: "env \<Rightarrow> string \<Rightarrow> Image \<Rightarrow> nat \<Rightarrow> nat list \<Rightarrow> Image \<Rightarrow> Dcm_meta \<Rightarrow> world
    \<Rightarrow> ret \<times> world" where
  "write_slices E path im w [] sl meta_new W = (SIFT3D_SUCCESS, W)"
| "write_slices E path im w (i # rest) sl meta_new W =
     (let (buf, W0) = local_buf W;
          name = slice_name w (ext_dcm E) i;
          W1 = W0\<lparr>heap := (heap W0)(buf \<mapsto> name)\<rparr>;
          fullfile = path @ sep @ name;
          sl' = copy_plane im i sl;
          (uid, W2) = dcmGenerateUniqueIdentifier E buf SITE_INSTANCE_UID_ROOT W1;
          meta1 = meta_new\<lparr>instance_uid := uid\<rparr>;
          meta2 = meta1\<lparr>instance_num := i + 1\<rparr>
      in case write_dcm E fullfile sl' (Some meta2) W2 of
           (SIFT3D_SUCCESS, W3) \<Rightarrow> write_slices E path im w rest sl' meta2 (end_block buf W3)
         | (r, W3) \<Rightarrow> (r, end_block buf W3))"

definition write_dcm_dir_cpp :: "env \<Rightarrow> string \<Rightarrow> Image \<Rightarrow> Dcm_meta option \<Rightarrow> world \<Rightarrow> ret \<times> world" where
  "write_dcm_dir_cpp E path im meta W =
     (let (meta_new, W1) = set_meta_defaults E meta W;
          num_slices = nz im
      in case num_zeros num_slices of
           None \<Rightarrow> (UNDEFINED, W1)
         | Some w \<Rightarrow>
            (let sl = init_im\<lparr>nx := nx im, ny := ny im, nz := 1, nc := nc im\<rparr>
             in case im_resize E sl of
                  None \<Rightarrow> (SIFT3D_FAILURE ResizeFailure, W1)
                | Some sl1 \<Rightarrow>
                    write_slices E path im w [0..<nat num_slices] sl1 meta_new W1))"

definition write_dcm_dir :: "env \<Rightarrow> string \<Rightarrow> Image \<Rightarrow> Dcm_meta option \<Rightarrow> world \<Rightarrow> ret \<times> world" where
  "write_dcm_dir E path im meta W = write_dcm_dir_cpp E path im meta W"

subsection \<open>The files of a decomposition\<close>

text \<open>
  A pointer is allocated when it is a literal or the address, handed out before, of an
  array that exists. The metadata that a caller supplies has allocated study and series
  identifiers (\<open>caller_allocated\<close>), and an allocated patient name, patient id and series
  description as well (\<open>strings_allocated\<close>).
\<close>

definition allocated :: "world \<Rightarrow> cstr \<Rightarrow> bool" where
  "allocated W p =
     (case p of Literal s \<Rightarrow> True | Buffer a \<Rightarrow> a < next_buf W \<and> heap W a \<noteq> None)"

definition caller_allocated :: "world \<Rightarrow> Dcm_meta option \<Rightarrow> bool" where
  "caller_allocated W meta = (case meta of None \<Rightarrow> True
     | Some m \<Rightarrow> allocated W (study_uid m) \<and> allocated W (series_uid m))"

definition strings_allocated :: "world \<Rightarrow> Dcm_meta \<Rightarrow> bool" where
  "strings_allocated W m = (allocated W (patient_name m) \<and> allocated W (patient_id m) \<and>
     allocated W (study_uid m) \<and> allocated W (series_uid m) \<and> allocated W (series_descrip m))"

text \<open>
  The names of the loop body of \<^verbatim>\<open>write_dcm_dir_cpp\<close> at slice \<open>i\<close>: the path
  \<^verbatim>\<open>fullfile\<close>, the metadata handed to \<^verbatim>\<open>write_dcm\<close> and the state in which it is
  called.
\<close>

definition slice_path :: "env \<Rightarrow> string \<Rightarrow> nat \<Rightarrow> nat \<Rightarrow> string" where
  "slice_path E path w i = path @ sep @ slice_name w (ext_dcm E) i"

definition slice_meta :: "world \<Rightarrow> nat \<Rightarrow> Dcm_meta \<Rightarrow> Dcm_meta" where
  "slice_meta W i meta_new = meta_new\<lparr>instance_uid := Buffer (next_buf W), instance_num := i + 1\<rparr>"

definition slice_world :: "env \<Rightarrow> world \<Rightarrow> world" where
  "slice_world E W = W\<lparr>next_buf := Suc (next_buf W),
     heap := (heap W)(next_buf W \<mapsto> uid_of E SITE_INSTANCE_UID_ROOT (uid_count W)),
     uid_count := Suc (uid_count W)\<rparr>"

text \<open>
  What a file of a decomposition holds. It is the file of the plane \<open>z = i\<close>
  (\<open>plane_file\<close>): the instance number is \<open>i + 1\<close>, the dimensions are those of the
  plane, there is one frame, and the samples are those of the voxels of the plane. And it
  has the study, series and instance identifiers (\<open>slice_file\<close>).
\<close>

definition plane_file :: "Image \<Rightarrow> nat \<Rightarrow> dataset \<Rightarrow> bool" where
  "plane_file im i ds =
    (elements ds DCM_InstanceNumber = Some (show_nat (i + 1)) \<and>
     elements ds DCM_Rows = Some (show_int (nx im)) \<and>
     elements ds DCM_Columns = Some (show_int (ny im)) \<and>
     elements ds DCM_NumberOfFrames = Some ''1'' \<and>
     (case PixelData ds of None \<Rightarrow> False
      | Some pix \<Rightarrow>
          (\<forall>x < nat (nx im). \<forall>y < nat (ny im).
             x + y * nat (nx im) < length pix \<and>
             uint (pix ! (x + y * nat (nx im))) = trunc0 (f32 (vox im (x, y, i, 0) * 255)))))"

definition slice_file :: "Image \<Rightarrow> string \<Rightarrow> string \<Rightarrow> string \<Rightarrow> nat \<Rightarrow> dataset \<Rightarrow> bool" where
  "slice_file im study series uid i ds =
    (plane_file im i ds \<and>
     elements ds DCM_StudyInstanceUID = Some study \<and>
     elements ds DCM_SeriesInstanceUID = Some series \<and>
     elements ds DCM_SOPInstanceUID = Some uid)"


subsection \<open>Stages of the directory assembly\<close>

text \<open>
  The failures that \<^verbatim>\<open>read_dcm_dir_cpp\<close> reports after it has set the dimensions of
  the destination: the resize and the reading of the pixel data.
\<close>

definition after_resize :: "diag \<Rightarrow> bool" where
  "after_resize e =
     (case e of ResizeFailure \<Rightarrow> True | PayloadDecodeFailure p k \<Rightarrow> True | _ \<Rightarrow> False)"

text \<open>A record whose file still gives a valid record when it is opened again.\<close>

definition rescanned :: "env \<Rightarrow> Dicom \<Rightarrow> bool" where
  "rescanned E d = dcm_valid (Dicom_ctor (dcm_filename d) (loadFile E (dcm_filename d)))"

text \<open>The destination with the dimensions and the spacing of the series.\<close>

definition series_dims :: "Dicom \<Rightarrow> int \<Rightarrow> Image \<Rightarrow> Image" where
  "series_dims first sum_nz im = im\<lparr>nx := dcm_nx first, ny := dcm_ny first, nz := sum_nz,
     nc := dcm_nc first, ux := dcm_ux first, uy := dcm_uy first, uz := dcm_uz first\<rparr>"

subsection \<open>A written file, read again\<close>

text \<open>
  What the toolkit reports on reading a data set that was written, as far as DICOM fixes
  it: the string elements are found as they were inserted, \<^verbatim>\<open>Rows\<close> is the height of
  the image, \<^verbatim>\<open>Columns\<close> its width and \<^verbatim>\<open>NumberOfFrames\<close> its frame count. Nothing
  is assumed of the other accessors.
\<close>

definition string_element :: "dataset \<Rightarrow> tag \<Rightarrow> string option found" where
  "string_element ds t = (case elements ds t of None \<Rightarrow> Bad | Some s \<Rightarrow> Good (Some s))"

definition integer_element :: "dataset \<Rightarrow> tag \<Rightarrow> int" where
  "integer_element ds t = (case elements ds t of None \<Rightarrow> 0 | Some s \<Rightarrow> atoll s)"

definition presents :: "dcm_file \<Rightarrow> dataset \<Rightarrow> bool" where
  "presents f ds =
    (findAndGetString f DCM_SeriesInstanceUID = string_element ds DCM_SeriesInstanceUID \<and>
     findAndGetString f DCM_InstanceNumber = string_element ds DCM_InstanceNumber \<and>
     int (getWidth f) = integer_element ds DCM_Columns \<and>
     int (getHeight f) = integer_element ds DCM_Rows \<and>
     int (getFrameCount f) = integer_element ds DCM_NumberOfFrames)"


text \<open>
  A directory entry that is a DICOM file name and whose file carries the series identifier
  \<open>s\<close>; and an entry that names a file which a decomposition has written (it was not
  there before) and which is read again as it was written.
\<close>

definition series_file :: "env \<Rightarrow> string \<Rightarrow> string \<Rightarrow> string \<Rightarrow> bool" where
  "series_file E path s n = (im_get_format E n = DICOM \<and>
     (case loadFile E (path @ sep @ n) of None \<Rightarrow> False
      | Some f \<Rightarrow> findAndGetString f DCM_SeriesInstanceUID = Good (Some s)))"

definition written_back :: "env \<Rightarrow> world \<Rightarrow> world \<Rightarrow> string \<Rightarrow> string \<Rightarrow> bool" where
  "written_back E W W' path n = (im_get_format E n = DICOM \<and> disk W (path @ sep @ n) = None \<and>
     (case loadFile E (path @ sep @ n) of None \<Rightarrow> False
      | Some f \<Rightarrow> (case disk W' (path @ sep @ n) of None \<Rightarrow> False | Some ds \<Rightarrow> presents f ds)))"


subsection \<open>Concrete inputs\<close>

text \<open>
  A monochrome file of one frame and one pixel, with pixel spacing 1 and slice thickness 2,
  and an environment whose directory \<open>d\<close> holds the given files, in that order of
  enumeration, where every allocation and every toolkit call succeeds, the sort keeps the
  order of equal records, and the characters of a destroyed string of fewer than 16
  characters are still read.
\<close>

definition demo_file :: "string \<Rightarrow> string \<Rightarrow> (nat \<Rightarrow> (nat \<Rightarrow> 32 word) option) \<Rightarrow> dcm_file" where
  "demo_file series inst frames =
     \<lparr>findAndGetString = (\<lambda>t. if t = DCM_SeriesInstanceUID then Good (Some series)
          else if t = DCM_InstanceNumber then Good (Some inst) else Bad),
      findAndGetFloat64 = (\<lambda>t. if t = DCM_PixelSpacing then Good (Finite 1)
          else if t = DCM_SliceThickness then Good (Finite 2) else Bad),
      getStatus_Normal = True, isMonochrome = True,
      getWidth = 1, getHeight = 1, getFrameCount = 1, getHeightWidthRatio = Finite 1,
      getOutputData = frames\<rparr>"

definition one_frame :: "32 word \<Rightarrow> nat \<Rightarrow> (nat \<Rightarrow> 32 word) option" where
  "one_frame v i = (if i = 0 then Some (\<lambda>k. v) else None)"

definition demo_root :: "uid_root \<Rightarrow> string" where
  "demo_root r = (case r of SITE_STUDY_UID_ROOT \<Rightarrow> ''1.2'' | SITE_SERIES_UID_ROOT \<Rightarrow> ''1.3''
     | SITE_INSTANCE_UID_ROOT \<Rightarrow> ''1.4'')"

definition demo_env :: "(string \<times> dcm_file) list \<Rightarrow> env" where
  "demo_env files =
     \<lparr>stat = (\<lambda>p. if p = ''d'' then Directory else Missing),
      opendir = (\<lambda>p. if p = ''d'' then Some (map fst files) else None),
      loadFile = map_of (map (\<lambda>(n, f). (''d/'' @ n, f)) files),
      im_get_format = (\<lambda>n. DICOM),
      can_allocate = (\<lambda>a b c d. True),
      sort_ties = (\<lambda>ds. ds),
      c_str_kept = (\<lambda>s. length s < 16),
      ext_dcm = ''dcm'',
      uid_of = (\<lambda>r n. demo_root r @ ''.'' @ show_nat n),
      put_ok = (\<lambda>t v. True),
      put_array_ok = (\<lambda>p. True),
      canWriteXfer = True,
      saveFile_ok = (\<lambda>p. True)\<rparr>"

subsection \<open>Notions of the specification\<close>

text \<open>
  Modelled from the spec: a text that parses as an instance number, an integer: white
  space, an optional sign, at least one digit, white space.
\<close>

definition integer_string :: "string \<Rightarrow> bool" where
  "integer_string s = (let t = dropWhile isspace s;
       u = (case t of [] \<Rightarrow> [] | c # cs \<Rightarrow> if c = CHR ''-'' \<or> c = CHR ''+'' then cs else t)
     in takeWhile isdigit u \<noteq> [] \<and> list_all isspace (dropWhile isdigit u))"

text \<open>
  A monochrome volume with one value in every voxel, caller-supplied metadata of string
  literals, the state before any write, and a file as \<open>demo_file\<close> with a given width and
  height.
\<close>

definition demo_image :: "int \<Rightarrow> int \<Rightarrow> int \<Rightarrow> real \<Rightarrow> Image" where
  "demo_image a b c v = \<lparr>nx = a, ny = b, nz = c, nc = 1, ux = Finite 1, uy = Finite 1,
     uz = Finite 2, vox = (\<lambda>p. v)\<rparr>"

definition demo_meta :: Dcm_meta where
  "demo_meta = \<lparr>patient_name = Literal ''P'', patient_id = Literal ''7'',
     study_uid = Literal ''1.2.9'', series_uid = Literal ''1.3.9'',
     series_descrip = Literal ''demo'', instance_uid = Literal ''1.4.9'', instance_num = 1\<rparr>"

definition world0 :: world where
  "world0 = \<lparr>heap = Map.empty, next_buf = 0, uid_count = 0, disk = Map.empty\<rparr>"

definition demo_readback :: "string \<Rightarrow> string \<Rightarrow> nat \<Rightarrow> nat \<Rightarrow> dcm_file" where
  "demo_readback series inst w h =
     (demo_file series inst (one_frame 7))\<lparr>getWidth := w, getHeight := h\<rparr>"

text \<open>A file whose frames cannot be rendered.\<close>

definition no_frames :: "nat \<Rightarrow> (nat \<Rightarrow> 32 word) option" where
  "no_frames i = None"

text \<open>
  An allocator without memory, and one without memory for a volume of a single slice.
\<close>

definition no_memory :: "int \<Rightarrow> int \<Rightarrow> int \<Rightarrow> int \<Rightarrow> bool" where
  "no_memory a b c d = False"

definition no_slice_memory :: "int \<Rightarrow> int \<Rightarrow> int \<Rightarrow> int \<Rightarrow> bool" where
  "no_slice_memory a b c d = (c \<noteq> 1)"

text \<open>
  The constructor reads a null pointer: the series identifier is found without a value,
  or it has one and the instance number is found without a value.
\<close>

definition reads_null :: "dcm_file \<Rightarrow> bool" where
  "reads_null f = (case findAndGetString f DCM_SeriesInstanceUID of
       Bad \<Rightarrow> False
     | Good None \<Rightarrow> True
     | Good (Some s) \<Rightarrow> findAndGetString f DCM_InstanceNumber = Good None)"

text \<open>A spacing so small that its square is below the range of \<^verbatim>\<open>double\<close>.\<close>

definition tiny :: real where
  "tiny = 1 / 2 ^ 550"

text \<open>A file all of whose string elements are found without a value.\<close>

definition no_value :: "tag \<Rightarrow> string option found" where
  "no_value t = Good None"

definition valueless_file :: dcm_file where
  "valueless_file = (demo_file ''1.2.3'' ''1'' (one_frame 7))\<lparr>findAndGetString := no_value\<rparr>"

text \<open>
  A volume of \<open>c\<close> planes of one voxel: the voxel of plane \<open>k\<close> is 1, the others are
  one half.
\<close>

definition marked_stack :: "int \<Rightarrow> nat \<Rightarrow> Image" where
  "marked_stack c k = \<lparr>nx = 1, ny = 1, nz = c, nc = 1, ux = Finite 1, uy = Finite 1,
     uz = Finite 2, vox = (\<lambda>(x, y, z, ch). if z = k then 1 else 1 / 2)\<rparr>"

section \<open>Properties\<close>

lemmas numeric_defs = f32_def f64_def fl_round_def fl_exponent_def compute_floorlog rne_def
  Let_def atoll_def isspace_def isdigit_def digit_val_def to_int32_def pow2_def le_zero_def

lemmas demo_defs = demo_env_def demo_file_def one_frame_def demo_root_def sep_def

lemmas read_defs = read_dcm_dir_cpp_def Dicom_ctor_def Dicom_Dicom_def Dicom_image_def
  Dicom_init_def eqSeries_def compare_def
  im_resize_def std_sort_def read_dcm_def read_dcm_cpp_def init_im_def copy_frame_def
  copy_slice_def im_loop_c_def im_loop_limited_def set_vox_def

subsection \<open>The series check\<close>

text \<open>
  C1. The claim: a candidate set in which some record's series identifier differs from the
  first record's fails with SeriesMismatch, and a set whose records all share the first
  record's identifier passes the check. The code does the opposite, since \<open>eqSeries\<close>
  returns the result of \<^verbatim>\<open>compare\<close> as a truth value: two valid files of the same
  series \<open>1.2.3\<close> are rejected with the message that \<open>d/b.dcm\<close> is from a different series
  than \<open>d/a.dcm\<close>, and two valid files of the different series \<open>1.2.3\<close> and \<open>1.2.4\<close> pass
  the check and are assembled into one volume.
\<close>

theorem read_dcm_dir_series_check_inverted:
  "read_dcm_dir_cpp (demo_env [(''a.dcm'', demo_file ''1.2.3'' ''1'' (one_frame 7)),
        (''b.dcm'', demo_file ''1.2.3'' ''2'' (one_frame 9))]) ''d'' init_im
     = (SIFT3D_FAILURE (SeriesMismatch ''d/b.dcm'' ''d/a.dcm''), init_im)
   \<and> fst (read_dcm_dir_cpp (demo_env [(''a.dcm'', demo_file ''1.2.3'' ''1'' (one_frame 7)),
        (''b.dcm'', demo_file ''1.2.4'' ''2'' (one_frame 9))]) ''d'' init_im)
     = SIFT3D_SUCCESS"
  by (simp add: read_defs demo_defs numeric_defs)

subsection \<open>Construction of a slice record\<close>

text \<open>
  C8, as amended. The behaviour of the constructor is undefined exactly when it reads a
  null pointer, the string of a series identifier or of an instance number that is found
  without a value; in every other case it yields a record, which keeps the path. The
  record is tagged valid exactly when the file loads, the series identifier and the
  instance number are found, the image opens and is monochrome, width, height and frame
  count, as the \<^verbatim>\<open>int\<close> members hold them, are at least 1, the pixel spacing is found
  and not \<open>\<le> 0\<close>, neither is its product with the aspect ratio, and the slice thickness
  is found and not \<open>\<le> 0\<close>. The text of the instance number is not examined.
\<close>

theorem Dicom_ctor_valid_iff:
  "(Dicom_Dicom path file = None) = (case file of None \<Rightarrow> False | Some f \<Rightarrow> reads_null f) \<and>
   dcm_filename (Dicom_ctor path file) = path \<and>
   dcm_valid (Dicom_ctor path file) =
     (case file of None \<Rightarrow> False | Some f \<Rightarrow>
        \<not> reads_null f \<and>
        findAndGetString f DCM_SeriesInstanceUID \<noteq> Bad \<and>
        findAndGetString f DCM_InstanceNumber \<noteq> Bad \<and>
        getStatus_Normal f \<and> isMonochrome f \<and>
        1 \<le> to_int32 (int (getWidth f)) \<and> 1 \<le> to_int32 (int (getHeight f)) \<and>
        1 \<le> to_int32 (int (getFrameCount f)) \<and>
        (case findAndGetFloat64 f DCM_PixelSpacing of Bad \<Rightarrow> False
         | Good ps \<Rightarrow> \<not> le_zero ps \<and> \<not> le_zero (double_mul ps (getHeightWidthRatio f))) \<and>
        (case findAndGetFloat64 f DCM_SliceThickness of Bad \<Rightarrow> False
         | Good st \<Rightarrow> \<not> le_zero st))"
  by (auto simp: Dicom_ctor_def Dicom_Dicom_def Dicom_image_def Dicom_init_def reads_null_def
      Let_def split: option.splits found.splits)

text \<open>
  C8 as stated fails. A file whose instance number is the text \<open>abc\<close>, which does not
  parse as an integer, gives a valid record: \<^verbatim>\<open>atoll\<close> reads the text as 0. A file
  whose series identifier is found without a value gives no record: the constructor reads
  a null pointer. A file that has every tag, is monochrome and has positive dimensions
  and spacings, but whose image does not open, gives an invalid record. And so does a
  file whose width is \<open>2 ^ 31\<close>, which the \<^verbatim>\<open>int\<close> member holds as a negative
  number.
\<close>

theorem Dicom_ctor_unparseable_instance_valid:
  "\<not> integer_string ''abc'' \<and>
   dcm_valid (Dicom_ctor ''a.dcm'' (Some (demo_file ''1.2.3'' ''abc'' (one_frame 7)))) \<and>
   dcm_instance (Dicom_ctor ''a.dcm'' (Some (demo_file ''1.2.3'' ''abc'' (one_frame 7)))) = 0 \<and>
   Dicom_Dicom ''a.dcm'' (Some valueless_file) = None \<and>
   \<not> dcm_valid (Dicom_ctor ''a.dcm''
      (Some ((demo_file ''1.2.3'' ''1'' (one_frame 7))\<lparr>getStatus_Normal := False\<rparr>))) \<and>
   \<not> dcm_valid (Dicom_ctor ''a.dcm''
      (Some ((demo_file ''1.2.3'' ''1'' (one_frame 7))\<lparr>getWidth := 2 ^ 31\<rparr>)))"
  by (simp add: integer_string_def Dicom_ctor_def Dicom_Dicom_def Dicom_image_def Dicom_init_def
      valueless_file_def no_value_def demo_defs numeric_defs)

subsection \<open>The number formats at their edges\<close>

lemma floorlog_pred_power: "0 < n \<Longrightarrow> floorlog 2 (2 ^ n - 1) = n"
proof (rule antisym)
  assume n: "0 < n"
  show "floorlog 2 (2 ^ n - 1) \<le> n" by (rule floorlog_leI) simp_all
  have "(2 :: nat) ^ (n - 1) + 2 ^ (n - 1) = 2 ^ n"
    using n by (cases n) simp_all
  moreover have "(1 :: nat) \<le> 2 ^ (n - 1)" by simp
  ultimately have "(2 :: nat) ^ (n - 1) \<le> 2 ^ n - 1" by linarith
  then show "n \<le> floorlog 2 (2 ^ n - 1)" by (rule floorlog_geI) simp
qed

lemma fl_exponent_inverse_power: "0 < n \<Longrightarrow> fl_exponent (1 / 2 ^ n) = - int n"
proof -
  assume n: "0 < n"
  have l: "(1 :: real) / 2 ^ n < 1" using n by (simp add: field_simps one_less_power)
  have "\<lceil>(2 :: real) ^ n\<rceil> = 2 ^ n" by (metis ceiling_of_int of_int_numeral of_int_power)
  then have "nat (\<lceil>(2 :: real) ^ n\<rceil> - 1) = 2 ^ n - 1"
    by (simp add: nat_diff_distrib nat_power_eq)
  then have "floorlog 2 (nat (\<lceil>(2 :: real) ^ n\<rceil> - 1)) = n"
    using floorlog_pred_power [OF n] by simp
  then show ?thesis using l by (simp add: fl_exponent_def)
qed

lemma rne_small: "0 \<le> x \<Longrightarrow> x < 1 / 2 \<Longrightarrow> rne x = 0"
proof -
  assume a: "0 \<le> x" "x < 1 / 2"
  then have "\<lfloor>x\<rfloor> = 0" by (simp add: floor_eq_iff)
  then show ?thesis using a by (simp add: rne_def Let_def)
qed

text \<open>A power of two below half of the smallest subnormal number is rounded to zero.\<close>

lemma f64_underflow:
  assumes "int m = 1074" and "m + 2 \<le> n"
  shows "f64 (1 / 2 ^ n) = Finite 0"
proof -
  have n: "0 < n" "1022 \<le> int n" using assms by simp_all
  have e: "max (fl_exponent (1 / 2 ^ n)) (- 1022) - 52 = - int m"
    using n assms(1) by (simp add: fl_exponent_inverse_power)
  have p: "pow2 (- int m) = 1 / 2 ^ m" using assms(1) by (simp add: pow2_def)
  obtain k where k: "n = m + 2 + k" using assms(2) by (metis le_iff_add)
  have q: "(1 :: real) / 2 ^ n / (1 / 2 ^ m) = 1 / (4 * 2 ^ k)"
    by (simp add: k power_add)
  have "(1 :: real) \<le> 2 ^ k" by simp
  then have "(1 :: real) < 2 * 2 ^ k" by linarith
  then have "(1 :: real) / (4 * 2 ^ k) < 1 / 2" by (simp add: field_simps)
  then have "rne ((1 :: real) / 2 ^ n / (1 / 2 ^ m)) = 0"
    unfolding q by (intro rne_small) simp_all
  then show ?thesis by (simp add: f64_def e p Let_def)
qed

lemma double_mul_underflow:
  assumes "1076 \<le> a + b"
  shows "double_mul (Finite (1 / 2 ^ a)) (Finite (1 / 2 ^ b)) = Finite 0"
proof -
  have "(1 :: real) / 2 ^ a * (1 / 2 ^ b) = 1 / 2 ^ (a + b)" by (simp add: power_add)
  then show ?thesis using f64_underflow [of 1074 "a + b"] assms by simp
qed

lemma double_mul_tiny: "double_mul (Finite tiny) (Finite tiny) = Finite 0"
  unfolding tiny_def by (rule double_mul_underflow) simp

lemma f64_tiny: "f64 (tiny * tiny) = Finite 0"
  using double_mul_tiny by simp

text \<open>
  A file whose pixel spacing and aspect ratio are positive and whose product underflows
  gives an invalid record, and so does every file whose width is \<open>2 ^ 31\<close>.
\<close>

lemma Dicom_ctor_underflow_invalid:
  assumes "findAndGetFloat64 f DCM_PixelSpacing = Good (Finite tiny)"
    and "getHeightWidthRatio f = Finite tiny"
  shows "\<not> dcm_valid (Dicom_ctor p (Some f))"
  using assms
  by (auto simp: Dicom_ctor_def Dicom_Dicom_def Dicom_image_def Dicom_init_def Let_def
      f64_tiny le_zero_def split: found.splits option.splits)

lemma Dicom_ctor_wide_invalid:
  assumes "getWidth f = 2 ^ 31"
  shows "\<not> dcm_valid (Dicom_ctor p (Some f))"
  using assms
  by (auto simp: Dicom_ctor_def Dicom_Dicom_def Dicom_image_def Dicom_init_def Let_def
      to_int32_def split: found.splits option.splits)

subsection \<open>Metadata resolution\<close>

text \<open>
  C7. The claim: with null metadata the effective metadata holds the literal patient name,
  patient id and series description, freshly generated study, series and instance
  identifiers, and instance number 1; non-null metadata is copied verbatim. The code
  passes the same local array to the three calls of the generator and stores the pointer
  it returns: the three identifier fields are one pointer. Before
  \<^verbatim>\<open>default_Dcm_meta\<close> returns, all three read the identifier generated last, under
  the instance root; once it has returned, the array is gone and none of them can be
  read. The literals, the instance number and the verbatim copy are as claimed.
\<close>

theorem set_meta_defaults_uids_alias:
  "(case default_Dcm_meta_body E buf W of (m, W') \<Rightarrow>
     study_uid m = Buffer buf \<and> series_uid m = Buffer buf \<and> instance_uid m = Buffer buf \<and>
     deref W' (study_uid m) = Some (uid_of E SITE_INSTANCE_UID_ROOT (uid_count W + 2)) \<and>
     deref W' (series_uid m) = Some (uid_of E SITE_INSTANCE_UID_ROOT (uid_count W + 2)) \<and>
     deref W' (instance_uid m) = Some (uid_of E SITE_INSTANCE_UID_ROOT (uid_count W + 2)))
   \<and> (case set_meta_defaults E None W of (m, W') \<Rightarrow>
     patient_name m = Literal default_patient_name \<and>
     patient_id m = Literal default_patient_id \<and>
     series_descrip m = Literal default_series_descrip \<and>
     instance_num m = 1 \<and>
     study_uid m = Buffer (next_buf W) \<and> series_uid m = Buffer (next_buf W) \<and>
     instance_uid m = Buffer (next_buf W) \<and>
     deref W' (study_uid m) = None \<and> deref W' (series_uid m) = None \<and>
     deref W' (instance_uid m) = None)
   \<and> set_meta_defaults E (Some m0) W = (m0, W)"
  by (simp add: set_meta_defaults_def default_Dcm_meta_def default_Dcm_meta_body_def
      local_buf_def end_block_def dcmGenerateUniqueIdentifier_def deref_def
      default_instance_num_def Let_def)

subsection \<open>Printing and parsing numbers\<close>

lemma replicate_numeral_eval: "replicate (numeral k) x = x # replicate (pred_numeral k) x"
  by (simp add: numeral_eq_Suc)

lemma upt_eval: "[m..<numeral k] = (if m < numeral k then m # [Suc m..<numeral k] else [])"
  by (simp add: upt_rec [of m])

lemma digit_char_eval:
  "digit_char 0 = CHR ''0''" "digit_char 1 = CHR ''1''" "digit_char 2 = CHR ''2''"
  "digit_char 3 = CHR ''3''" "digit_char 4 = CHR ''4''" "digit_char 5 = CHR ''5''"
  "digit_char 6 = CHR ''6''" "digit_char 7 = CHR ''7''" "digit_char 8 = CHR ''8''"
  "digit_char 9 = CHR ''9''" "digit_char (Suc 0) = CHR ''1''"
  by (simp_all add: digit_char_def char_of_def bit_Suc_0_iff)

lemma show_nat_digit: "n < 10 \<Longrightarrow> show_nat n = [digit_char n]"
  by (simp add: show_nat.simps [of n])

lemma of_char_digit [simp]: "d < 10 \<Longrightarrow> of_char (digit_char d) = 48 + d"
  by (simp add: digit_char_def)

lemma isdigit_digit_char [simp]: "d < 10 \<Longrightarrow> isdigit (digit_char d)"
  by (simp add: isdigit_def less_eq_char_def)

lemma digit_val_digit_char [simp]: "d < 10 \<Longrightarrow> digit_val (digit_char d) = d"
  by (simp add: digit_val_def)

lemma digits_val_show_nat:
  "digits_val acc (show_nat n @ r) = digits_val (acc * 10 ^ length (show_nat n) + n) r"
proof (induction n arbitrary: acc r rule: show_nat.induct)
  case (1 n)
  show ?case
  proof (cases "n < 10")
    case True
    then show ?thesis by (simp add: show_nat.simps [of n] mult.commute)
  next
    case False
    have "digits_val acc (show_nat n @ r)
        = digits_val acc (show_nat (n div 10) @ (digit_char (n mod 10) # r))"
      using False by (simp add: show_nat.simps [of n])
    also have "\<dots> = digits_val (acc * 10 ^ length (show_nat (n div 10)) + n div 10)
        (digit_char (n mod 10) # r)"
      using False by (rule "1.IH")
    also have "\<dots> = digits_val (acc * 10 ^ length (show_nat n) + n) r"
      using False by (simp add: show_nat.simps [of n] algebra_simps)
    finally show ?thesis .
  qed
qed

lemma show_nat_hd: "\<exists>c cs. show_nat n = c # cs \<and> isdigit c"
proof (induction n rule: show_nat.induct)
  case (1 n)
  show ?case
  proof (cases "n < 10")
    case True
    then show ?thesis by (simp add: show_nat.simps [of n])
  next
    case False
    with "1.IH" obtain c cs where "show_nat (n div 10) = c # cs" "isdigit c" by blast
    with False show ?thesis by (simp add: show_nat.simps [of n])
  qed
qed

lemma isdigit_facts: "isdigit c \<Longrightarrow> \<not> isspace c \<and> c \<noteq> CHR ''-'' \<and> c \<noteq> CHR ''+''"
  by (auto simp: isdigit_def isspace_def less_eq_char_def)

lemma atoll_show_nat: "n < 2 ^ 63 \<Longrightarrow> atoll (show_nat n) = int n"
proof -
  assume n: "n < 2 ^ 63"
  obtain c cs where s: "show_nat n = c # cs" and d: "isdigit c"
    using show_nat_hd by blast
  have "digits_val 0 (show_nat n) = n"
    using digits_val_show_nat [of 0 n "[]"] by simp
  then have "digits_val 0 (c # cs) = n" using s by simp
  moreover have "int n < int (2 ^ 63)" using n by (simp only: of_nat_less_iff)
  then have "max (- (2 ^ 63)) (min (2 ^ 63 - 1) (int n)) = int n" by simp
  ultimately show ?thesis
    using isdigit_facts [OF d] s by (simp add: atoll_def del: digits_val.simps)
qed


lemma atoll_show_int: "0 \<le> i \<Longrightarrow> i < 2 ^ 31 \<Longrightarrow> atoll (show_int i) = i"
proof -
  assume i: "0 \<le> i" "i < 2 ^ 31"
  then have "int (nat i) < int (2 ^ 63)" by simp
  then have "nat i < 2 ^ 63" by (simp only: of_nat_less_iff)
  then show ?thesis using i by (simp add: show_int_def atoll_show_nat)
qed

subsection \<open>Facts about \<^verbatim>\<open>Dicom::Dicom\<close> and \<^verbatim>\<open>write_dcm_cpp\<close>\<close>


lemma Dicom_ctor_Some: "dcm_valid (Dicom_ctor p file) \<Longrightarrow> \<exists>f. file = Some f"
  by (cases "file") (simp_all add: Dicom_ctor_def Dicom_Dicom_def Dicom_init_def)

lemma Dicom_ctor_fields:
  assumes "dcm_valid (Dicom_ctor p (Some f))"
  shows "dcm_nx (Dicom_ctor p (Some f)) = to_int32 (int (getWidth f))"
    and "dcm_ny (Dicom_ctor p (Some f)) = to_int32 (int (getHeight f))"
    and "dcm_nz (Dicom_ctor p (Some f)) = to_int32 (int (getFrameCount f))"
    and "dcm_nc (Dicom_ctor p (Some f)) = 1"
    and "findAndGetString f DCM_SeriesInstanceUID
          = Good (Some (dcm_seriesUID (Dicom_ctor p (Some f))))"
    and "dcm_filename (Dicom_ctor p (Some f)) = p"
    and "Dicom_Dicom p (Some f) = Some (Dicom_ctor p (Some f))"
    and "getStatus_Normal f"
  using assms
  by (auto simp: Dicom_ctor_def Dicom_Dicom_def Dicom_image_def Dicom_init_def Let_def
      split: found.splits option.splits if_splits)

lemma Dicom_Dicom_filename: "Dicom_Dicom p file = Some d \<Longrightarrow> dcm_filename d = p"
  by (auto simp: Dicom_Dicom_def Dicom_image_def Dicom_init_def Let_def
      split: found.splits option.splits if_splits)


lemma put_all_insertions:
  assumes "put_all E (insertions W im m) empty_dataset = Inr ds"
  shows "elements ds DCM_Rows = Some (show_int (nx im))"
    and "elements ds DCM_Columns = Some (show_int (ny im))"
    and "elements ds DCM_NumberOfFrames = Some (show_int (nz im))"
    and "elements ds DCM_InstanceNumber = Some (show_nat (instance_num m))"
    and "elements ds DCM_StudyInstanceUID = Some (the (deref W (study_uid m)))"
    and "elements ds DCM_SeriesInstanceUID = Some (the (deref W (series_uid m)))"
    and "elements ds DCM_SOPInstanceUID = Some (the (deref W (instance_uid m)))"
    and "PixelData ds = None"
    and "deref W (study_uid m) \<noteq> None"
    and "deref W (series_uid m) \<noteq> None"
  using assms
  by (auto simp: insertions_def putAndInsertString_def empty_dataset_def
      split: if_splits option.splits)

lemma allocated_deref: "allocated W p \<Longrightarrow> deref W p \<noteq> None"
  by (cases p) (simp_all add: allocated_def deref_def)

lemma insertions_values:
  assumes "strings_allocated W m" and "allocated W (instance_uid m)"
  shows "list_all (\<lambda>(t, v, c). v \<noteq> None) (insertions W im m)"
  using assms by (auto simp: insertions_def strings_allocated_def dest!: allocated_deref)

lemma put_all_not_success: "put_all E xs ds \<noteq> Inl SIFT3D_SUCCESS"
  by (induction xs arbitrary: ds)
    (auto simp: putAndInsertString_def split: option.splits if_splits)

lemma write_dcm_cpp_success:
  assumes "write_dcm_cpp E path im meta W = (SIFT3D_SUCCESS, W')"
  shows "\<exists>m W1 ds0 pix. set_meta_defaults E meta W = (m, W1) \<and>
      put_all E (insertions W1 im m) empty_dataset = Inr ds0 \<and>
      render_pixels im = Some pix \<and> nc im = 1 \<and> saveFile_ok E path \<and>
      W' = W1\<lparr>disk := (disk W1)(path \<mapsto> ds0\<lparr>PixelData := Some pix\<rparr>)\<rparr>"
  using assms
  by (auto simp: write_dcm_cpp_def Let_def put_all_not_success
      split: if_splits prod.splits sum.splits option.splits)

lemma put_all_total:
  "(\<And>t v. put_ok E t v) \<Longrightarrow> list_all (\<lambda>(t, v, c). v \<noteq> None) xs
    \<Longrightarrow> \<exists>ds'. put_all E xs ds = Inr ds'"
  by (induction xs arbitrary: ds) (auto simp: putAndInsertString_def split: option.splits)

lemma write_dcm_cpp_succeeds:
  assumes "\<And>t v. put_ok E t v" and "put_array_ok E pix" and "canWriteXfer E"
    and "saveFile_ok E path" and "nc im = 1" and "render_pixels im = Some pix"
    and "strings_allocated W m" and "allocated W (instance_uid m)"
  shows "\<exists>ds0. put_all E (insertions W im m) empty_dataset = Inr ds0 \<and>
    write_dcm_cpp E path im (Some m) W
      = (SIFT3D_SUCCESS, W\<lparr>disk := (disk W)(path \<mapsto> ds0\<lparr>PixelData := Some pix\<rparr>)\<rparr>)"
proof -
  obtain ds where "put_all E (insertions W im m) empty_dataset = Inr ds"
    using put_all_total [OF assms(1) insertions_values [OF assms(7,8)]] by blast
  then show ?thesis using assms(2-6) by (simp add: write_dcm_cpp_def set_meta_defaults_def)
qed

lemma demo_meta_allocated:
  "strings_allocated W demo_meta" "allocated W (instance_uid demo_meta)"
  "caller_allocated W (Some demo_meta)"
  by (simp_all add: strings_allocated_def caller_allocated_def allocated_def demo_meta_def)

lemma demo_env_ok:
  "put_ok (demo_env fs) t v" "put_array_ok (demo_env fs) pix" "canWriteXfer (demo_env fs)"
  "saveFile_ok (demo_env fs) path" "can_allocate (demo_env fs) a b c d"
  by (simp_all add: demo_env_def)

lemma render_demo_2_1_1: "render_pixels (demo_image 2 1 1 (1 / 2)) = Some [127, 127]"
  by (simp add: render_pixels_def numPixels_def im_loop_def pixel_index_def cast_uint8_def
      trunc0_def demo_image_def numeric_defs replicate_numeral_eval upt_eval)

subsection \<open>Rows and columns\<close>



subsection \<open>The rendering loop\<close>

lemma mixed_radix_inj:
  fixes a :: nat
  assumes "a < X" "a' < X" "a + X * q = a' + X * q'"
  shows "a = a' \<and> q = q'"
proof -
  have "(a + X * q) mod X = a" "(a' + X * q') mod X = a'" using assms(1,2) by simp_all
  then have a: "a = a'" using assms(3) by simp
  have X: "X \<noteq> 0" using assms(1) by auto
  then have "(a + X * q) div X = q" "(a' + X * q') div X = q'" using assms(1,2) by simp_all
  then show ?thesis using a assms(3) X by simp
qed

lemma set_im_loop:
  "set (im_loop im) = {(x, y, z). x < nat (nx im) \<and> y < nat (ny im) \<and> z < nat (nz im)}"
  by (auto simp: im_loop_def image_iff)

lemma pixel_index_inj: "inj_on (pixel_index im) (set (im_loop im))"
proof (rule inj_onI)
  fix p q assume p: "p \<in> set (im_loop im)" and q: "q \<in> set (im_loop im)"
    and e: "pixel_index im p = pixel_index im q"
  obtain x y z where pp: "p = (x, y, z)" by (cases p)
  obtain x' y' z' where qq: "q = (x', y', z')" by (cases q)
  have b: "x < nat (nx im)" "y < nat (ny im)" "x' < nat (nx im)" "y' < nat (ny im)"
    using p q by (simp_all add: set_im_loop pp qq)
  have "x + nat (nx im) * (y + nat (ny im) * z) = x' + nat (nx im) * (y' + nat (ny im) * z')"
    using e by (simp add: pixel_index_def pp qq algebra_simps)
  from mixed_radix_inj [OF b(1) b(3) this]
  have x: "x = x'" and "y + nat (ny im) * z = y' + nat (ny im) * z'" by simp_all
  from mixed_radix_inj [OF b(2) b(4) this(2)] x show "p = q" by (simp add: pp qq)
qed

lemma render_loop_length:
  "render_loop im cs pix = Some out \<Longrightarrow> length out = length pix"
  by (induction cs arbitrary: pix) (auto simp: Let_def split: if_splits option.splits)

lemma render_loop_untouched:
  "render_loop im cs pix = Some out \<Longrightarrow> k \<notin> pixel_index im ` set cs \<Longrightarrow> out ! k = pix ! k"
  by (induction cs arbitrary: pix) (auto simp: Let_def split: if_splits option.splits)

lemma render_loop_sample:
  assumes "render_loop im cs pix = Some out" and "c \<in> set cs"
    and "inj_on (pixel_index im) (set cs)"
  shows "pixel_index im c < length out \<and>
    cast_uint8 (f32 (vox im (fst c, fst (snd c), snd (snd c), 0) * 255))
      = Some (out ! pixel_index im c)"
  using assms
proof (induction cs arbitrary: pix)
  case Nil
  then show ?case by simp
next
  case (Cons c' rest)
  obtain x y z where c': "c' = (x, y, z)" by (cases c')
  from Cons.prems(1) obtain b where
    k: "pixel_index im c' < length pix" and
    b: "cast_uint8 (f32 (vox im (x, y, z, 0) * 255)) = Some b" and
    r: "render_loop im rest (pix[pixel_index im c' := b]) = Some out"
    by (auto simp: c' Let_def split: if_splits option.splits)
  have inj: "inj_on (pixel_index im) (set rest)"
    using Cons.prems(3) by (simp add: inj_on_def)
  show ?case
  proof (cases "c \<in> set rest")
    case True
    then show ?thesis using Cons.IH [OF r True inj] by simp
  next
    case False
    then have c: "c = c'" using Cons.prems(2) by simp
    have "pixel_index im c' \<notin> pixel_index im ` set rest"
    proof
      assume "pixel_index im c' \<in> pixel_index im ` set rest"
      then obtain d where d: "d \<in> set rest" "pixel_index im d = pixel_index im c'" by auto
      then have "d = c'" using Cons.prems(3) by (simp add: inj_on_def)
      then show False using d(1) False c by simp
    qed
    then have "out ! pixel_index im c' = (pix[pixel_index im c' := b]) ! pixel_index im c'"
      by (rule render_loop_untouched [OF r])
    then have "out ! pixel_index im c' = b" using k by simp
    moreover have "length out = length pix" using render_loop_length [OF r] by simp
    ultimately show ?thesis using b k by (simp add: c c')
  qed
qed

lemma cast_uint8_Some:
  "cast_uint8 v = Some b \<Longrightarrow> uint b = trunc0 v \<and> 0 \<le> trunc0 v \<and> trunc0 v \<le> 255"
  by (auto simp: cast_uint8_def Let_def uint_word_of_int split: if_splits)

lemma render_demo_1_1_1: "render_pixels (demo_image 1 1 1 (1 / 2)) = Some [127]"
  by (simp add: render_pixels_def numPixels_def im_loop_def pixel_index_def cast_uint8_def
      trunc0_def demo_image_def numeric_defs)


text \<open>
  C4, as amended. For every slice that \<^verbatim>\<open>write_dcm\<close> writes with success, the sample
  stored at \<open>x + y * nx + z * nx * ny\<close> of the 8-bit array is the single-precision product
  of the voxel value and 255 with its fractional part dropped (truncated toward zero,
  not rounded).
\<close>

theorem write_dcm_samples_truncated:
  assumes "write_dcm_cpp E path im meta W = (SIFT3D_SUCCESS, W')"
    and "x < nat (nx im)" and "y < nat (ny im)" and "z < nat (nz im)"
  shows "\<exists>ds pix. disk W' path = Some ds \<and> PixelData ds = Some pix \<and>
    pixel_index im (x, y, z) < length pix \<and>
    uint (pix ! pixel_index im (x, y, z)) = trunc0 (f32 (vox im (x, y, z, 0) * 255))"
proof -
  obtain m W1 ds0 pix where
    r: "render_pixels im = Some pix" and
    W': "W' = W1\<lparr>disk := (disk W1)(path \<mapsto> ds0\<lparr>PixelData := Some pix\<rparr>)\<rparr>"
    using write_dcm_cpp_success [OF assms(1)] by blast
  have c: "(x, y, z) \<in> set (im_loop im)" using assms(2-4) by (simp add: set_im_loop)
  have "pixel_index im (x, y, z) < length pix \<and>
      cast_uint8 (f32 (vox im (x, y, z, 0) * 255)) = Some (pix ! pixel_index im (x, y, z))"
    using render_loop_sample [OF r [unfolded render_pixels_def] c pixel_index_inj] by simp
  then show ?thesis using W' cast_uint8_Some by fastforce
qed


text \<open>The theorem at the second voxel of a slice of 2 by 1 voxels of value 0.5.\<close>

theorem write_dcm_samples_truncated_witness:
  "\<exists>W' ds pix. write_dcm_cpp (demo_env []) ''out.dcm'' (demo_image 2 1 1 (1 / 2)) (Some demo_meta) world0
       = (SIFT3D_SUCCESS, W') \<and>
     disk W' ''out.dcm'' = Some ds \<and> PixelData ds = Some pix \<and> 1 < length pix \<and>
     uint (pix ! 1) = 127"
proof -
  let ?im = "demo_image 2 1 1 (1 / 2)"
  have dims: "nx ?im = 2" "ny ?im = 1" "nz ?im = 1" "nc ?im = 1"
    by (simp_all add: demo_image_def)
  have t: "trunc0 (f32 (vox ?im (1, 0, 0, 0) * 255)) = 127"
    by (simp add: demo_image_def trunc0_def numeric_defs)
  obtain W' where
    w: "write_dcm_cpp (demo_env []) ''out.dcm'' ?im (Some demo_meta) world0 = (SIFT3D_SUCCESS, W')"
    using write_dcm_cpp_succeeds [OF demo_env_ok(1-4) dims(4) render_demo_2_1_1
        demo_meta_allocated(1,2)] by blast
  show ?thesis
    using write_dcm_samples_truncated [OF w, of 1 0 0] w dims t
    by (simp add: pixel_index_def)
qed

text \<open>
  C4 as stated fails: a voxel of value 0.5 is written as the sample 127, and
  \<open>round (0.5 * 255)\<close> is 128.
\<close>

theorem write_dcm_sample_not_rounded:
  "fst (write_dcm_cpp (demo_env []) ''out.dcm'' (demo_image 1 1 1 (1 / 2)) (Some demo_meta) world0)
     = SIFT3D_SUCCESS \<and>
   map_option PixelData
     (disk (snd (write_dcm_cpp (demo_env []) ''out.dcm'' (demo_image 1 1 1 (1 / 2))
        (Some demo_meta) world0)) ''out.dcm'') = Some (Some [127]) \<and>
   round (vox (demo_image 1 1 1 (1 / 2)) (0, 0, 0, 0) * 255) = (128 :: int)"
proof -
  let ?im = "demo_image 1 1 1 (1 / 2)"
  have dims: "nc ?im = 1"
    by (simp add: demo_image_def)
  obtain ds0 where
    "write_dcm_cpp (demo_env []) ''out.dcm'' ?im (Some demo_meta) world0
      = (SIFT3D_SUCCESS,
         world0\<lparr>disk := (disk world0)(''out.dcm'' \<mapsto> ds0\<lparr>PixelData := Some [127]\<rparr>)\<rparr>)"
    using write_dcm_cpp_succeeds [OF demo_env_ok(1-4) dims(1) render_demo_1_1_1
        demo_meta_allocated(1,2)] by blast
  moreover have "round (vox ?im (0, 0, 0, 0) * 255) = (128 :: int)"
    by (simp add: demo_image_def round_def)
  ultimately show ?thesis by simp
qed

subsection \<open>Failure of the directory assembly\<close>

lemma read_frames_failure:
  "read_frames img path frames im = (SIFT3D_FAILURE e, im') \<Longrightarrow> after_resize e"
  by (induction frames arbitrary: im)
    (auto simp: after_resize_def split: option.splits if_splits)

lemma read_dcm_cpp_failure:
  assumes "read_dcm_cpp E path sl = (SIFT3D_FAILURE e, sl')"
    and "dcm_valid (Dicom_ctor path (loadFile E path))"
  shows "after_resize e"
proof -
  obtain f where f: "loadFile E path = Some f"
    using Dicom_ctor_Some [OF assms(2)] by blast
  have v: "dcm_valid (Dicom_ctor path (Some f))" using assms(2) f by simp
  note c = Dicom_ctor_fields(7,8) [OF v]
  show ?thesis
    using assms(1) f c v read_frames_failure
    by (auto simp: read_dcm_cpp_def Let_def after_resize_def split: option.splits)
qed

lemma read_slices_failure:
  "read_slices E ds sl off_z im = (SIFT3D_FAILURE e, off', im') \<Longrightarrow> list_all (rescanned E) ds
    \<Longrightarrow> after_resize e"
proof (induction ds arbitrary: sl off_z im)
  case Nil
  then show ?case by simp
next
  case (Cons d ds)
  have k: "c_str_kept E (dcm_filename d)"
    using Cons.prems(1) by (simp split: if_splits)
  obtain r sl' where r: "read_dcm E (dcm_filename d) sl = (r, sl')"
    by (cases "read_dcm E (dcm_filename d) sl")
  show ?case
  proof (cases r)
    case SIFT3D_SUCCESS
    then show ?thesis using Cons r k by simp
  next
    case (SIFT3D_FAILURE e')
    then have "e' = e" using Cons.prems(1) r k by simp
    then show ?thesis
      using read_dcm_cpp_failure [of E "dcm_filename d" sl e sl'] r SIFT3D_FAILURE Cons.prems(2)
      by (simp add: read_dcm_def rescanned_def)
  next
    case UNDEFINED
    then show ?thesis using Cons.prems(1) r k by simp
  qed
qed

lemma read_slices_prefix:
  "read_slices E ds sl off_z im = (SIFT3D_FAILURE e, off', im')
    \<Longrightarrow> \<exists>k < length ds. \<exists>off. read_slices E (take k ds) sl off_z im = (SIFT3D_SUCCESS, off, im')"
proof (induction ds arbitrary: sl off_z im)
  case Nil
  then show ?case by simp
next
  case (Cons d ds)
  have k: "c_str_kept E (dcm_filename d)"
    using Cons.prems by (simp split: if_splits)
  obtain r sl' where r: "read_dcm E (dcm_filename d) sl = (r, sl')"
    by (cases "read_dcm E (dcm_filename d) sl")
  show ?case
  proof (cases r)
    case SIFT3D_SUCCESS
    then have "read_slices E ds sl' (off_z + nat (nz sl')) (copy_slice sl' off_z im)
        = (SIFT3D_FAILURE e, off', im')"
      using Cons.prems r k by simp
    then obtain j off where j: "j < length ds"
      "read_slices E (take j ds) sl' (off_z + nat (nz sl')) (copy_slice sl' off_z im)
        = (SIFT3D_SUCCESS, off, im')"
      using Cons.IH by blast
    then have "Suc j < length (d # ds)"
      "read_slices E (take (Suc j) (d # ds)) sl off_z im = (SIFT3D_SUCCESS, off, im')"
      using r k SIFT3D_SUCCESS by simp_all
    then show ?thesis by blast
  next
    case (SIFT3D_FAILURE e')
    then have "im' = im" using Cons.prems r k by simp
    then have "0 < length (d # ds)"
      "read_slices E (take 0 (d # ds)) sl off_z im = (SIFT3D_SUCCESS, off_z, im')"
      by simp_all
    then show ?thesis by blast
  next
    case UNDEFINED
    then show ?thesis using Cons.prems r k by simp
  qed
qed

text \<open>The loop over the slices changes nothing of the destination but its voxels.\<close>

lemma fold_keeps: "(\<And>p s. g (f p s) = g s) \<Longrightarrow> g (fold f ps s) = g s"
  by (induction ps arbitrary: s) simp_all

lemma copy_slice_geometry: "(copy_slice sl off_z im)\<lparr>vox := c\<rparr> = im\<lparr>vox := c\<rparr>"
  unfolding copy_slice_def
  by (rule fold_keeps [where g = "\<lambda>s. s\<lparr>vox := c\<rparr>"]) (auto simp: set_vox_def)

lemma read_slices_geometry:
  "read_slices E ds sl off_z im = (r, off', im') \<Longrightarrow> im'\<lparr>vox := c\<rparr> = im\<lparr>vox := c\<rparr>"
proof (induction ds arbitrary: sl off_z im)
  case Nil
  then show ?case by simp
next
  case (Cons d ds)
  show ?case
  proof (cases "c_str_kept E (dcm_filename d)")
    case False
    then show ?thesis using Cons.prems by simp
  next
    case True
    obtain r1 sl' where r: "read_dcm E (dcm_filename d) sl = (r1, sl')"
      by (cases "read_dcm E (dcm_filename d) sl")
    show ?thesis
    proof (cases r1)
      case SIFT3D_SUCCESS
      then have "read_slices E ds sl' (off_z + nat (nz sl')) (copy_slice sl' off_z im)
          = (r, off', im')"
        using Cons.prems r True by simp
      then have "im'\<lparr>vox := c\<rparr> = (copy_slice sl' off_z im)\<lparr>vox := c\<rparr>" by (rule Cons.IH)
      then show ?thesis by (simp add: copy_slice_geometry)
    next
      case (SIFT3D_FAILURE e')
      then show ?thesis using Cons.prems r True by simp
    next
      case UNDEFINED
      then show ?thesis using Cons.prems r True by simp
    qed
  qed
qed

lemma read_slices_dims:
  assumes "read_slices E ds sl off_z (series_dims first sum_nz im) = (r, off', im')"
  shows "nx im' = dcm_nx first \<and> ny im' = dcm_ny first \<and> nz im' = sum_nz \<and>
     nc im' = dcm_nc first \<and> ux im' = dcm_ux first \<and> uy im' = dcm_uy first \<and>
     uz im' = dcm_uz first"
proof -
  have e: "im'\<lparr>vox := undefined\<rparr> = (series_dims first sum_nz im)\<lparr>vox := undefined\<rparr>"
    using assms by (rule read_slices_geometry)
  have "nx (im'\<lparr>vox := undefined\<rparr>) = dcm_nx first" "ny (im'\<lparr>vox := undefined\<rparr>) = dcm_ny first"
    "nz (im'\<lparr>vox := undefined\<rparr>) = sum_nz" "nc (im'\<lparr>vox := undefined\<rparr>) = dcm_nc first"
    "ux (im'\<lparr>vox := undefined\<rparr>) = dcm_ux first" "uy (im'\<lparr>vox := undefined\<rparr>) = dcm_uy first"
    "uz (im'\<lparr>vox := undefined\<rparr>) = dcm_uz first"
    unfolding e by (simp_all add: series_dims_def)
  then show ?thesis by simp
qed

lemma scan_dir_rescanned:
  "scan_dir E path ents acc = Inr ds \<Longrightarrow> list_all (rescanned E) acc \<Longrightarrow> list_all (rescanned E) ds"
proof (induction ents arbitrary: acc)
  case Nil
  then show ?case by simp
next
  case (Cons n ents)
  show ?case
  proof (cases "im_get_format E n \<noteq> DICOM")
    case True
    then show ?thesis using Cons by simp
  next
    case False
    let ?p = "path @ sep @ n"
    obtain d where d: "Dicom_Dicom ?p (loadFile E ?p) = Some d" and v: "dcm_valid d"
      and s: "scan_dir E path ents (acc @ [d]) = Inr ds"
      using Cons.prems(1) False by (auto simp: Let_def split: if_splits option.splits)
    have "dcm_filename d = ?p" using d by (rule Dicom_Dicom_filename)
    then have "rescanned E d" using v d by (simp add: rescanned_def Dicom_ctor_def)
    then show ?thesis using Cons.IH [OF s] Cons.prems(2) by simp
  qed
qed

lemma scan_dir_failure:
  "scan_dir E path ents acc = Inl (SIFT3D_FAILURE e) \<Longrightarrow> \<not> after_resize e"
  by (induction ents arbitrary: acc)
    (auto simp: Let_def after_resize_def split: if_splits option.splits)

lemma check_series_failure: "check_series first ds = Some e \<Longrightarrow> \<not> after_resize e"
  by (induction ds) (auto simp: after_resize_def split: if_splits)

lemma check_dims_failure:
  "check_dims first ds n = Inl (SIFT3D_FAILURE e) \<Longrightarrow> \<not> after_resize e"
  by (induction ds arbitrary: n) (auto simp: after_resize_def split: if_splits)

lemma set_std_sort: "set (std_sort E ds) = set ds"
  by (auto simp: std_sort_def dest: mset_eq_setD)

text \<open>Every arrangement that is sorted by instance number is a result of the sort.\<close>

lemma std_sort_arrangement:
  assumes "sort_ties E ds = ys" and "mset ys = mset ds" and "sorted (map dcm_instance ys)"
  shows "std_sort E ds = ys"
  using assms by (simp add: std_sort_def sort_key_id_if_sorted)

lemma length_std_sort: "length (std_sort E ds) = length ds"
  by (auto simp: std_sort_def dest: mset_eq_length)

lemma read_dcm_dir_cpp_cases:
  assumes "read_dcm_dir_cpp E path im = (SIFT3D_FAILURE e, im')"
  shows "(im' = im \<and> \<not> after_resize e) \<or>
    (\<exists>ents first others sum_nz. opendir E path = Some ents \<and>
       scan_dir E path ents [] = Inr (first # others) \<and>
       check_dims first (first # others) 0 = Inr sum_nz \<and>
       ((e = ResizeFailure \<and> im' = series_dims first sum_nz im) \<or>
        (\<exists>off. read_slices E (std_sort E (first # others)) init_im 0 (series_dims first sum_nz im)
           = (SIFT3D_FAILURE e, off, im'))))"
proof (cases "stat E path")
  case Missing
  then show ?thesis using assms by (auto simp: read_dcm_dir_cpp_def after_resize_def)
next
  case Regular
  then show ?thesis using assms by (auto simp: read_dcm_dir_cpp_def after_resize_def)
next
  case Directory
  show ?thesis
  proof (cases "opendir E path")
    case None
    then show ?thesis
      using assms Directory by (auto simp: read_dcm_dir_cpp_def after_resize_def)
  next
    case (Some ents)
    show ?thesis
    proof (cases "scan_dir E path ents []")
      case (Inl r)
      then show ?thesis
        using assms Directory Some scan_dir_failure [of E path ents "[]" e]
        by (auto simp: read_dcm_dir_cpp_def)
    next
      case (Inr dicoms)
      show ?thesis
      proof (cases dicoms)
        case Nil
        then show ?thesis
          using assms Directory Some Inr by (auto simp: read_dcm_dir_cpp_def after_resize_def)
      next
        case (Cons first others)
        show ?thesis
        proof (cases "check_series first others")
          case (Some e')
          then show ?thesis
            using assms Directory \<open>opendir E path = Some ents\<close> Inr Cons
              check_series_failure [of first others e]
            by (auto simp: read_dcm_dir_cpp_def)
        next
          case None
          show ?thesis
          proof (cases "check_dims first (first # others) 0")
            case (Inl r)
            then show ?thesis
              using assms Directory \<open>opendir E path = Some ents\<close> Inr Cons None
                check_dims_failure [of first "first # others" 0 e]
              by (auto simp: read_dcm_dir_cpp_def)
          next
            case (Inr sum_nz)
            let ?im1 = "series_dims first sum_nz im"
            have r: "read_dcm_dir_cpp E path im =
              (case im_resize E ?im1 of
                 None \<Rightarrow> (SIFT3D_FAILURE ResizeFailure, ?im1)
               | Some im2 \<Rightarrow>
                  (case read_slices E (std_sort E (first # others)) init_im 0 im2 of
                     (SIFT3D_SUCCESS, off_z, im3) \<Rightarrow>
                       if int off_z = nz im3 then (SIFT3D_SUCCESS, im3) else (UNDEFINED, im3)
                   | (r, off_z, im3) \<Rightarrow> (r, im3)))"
              using Directory \<open>opendir E path = Some ents\<close>
                \<open>scan_dir E path ents [] = Inr dicoms\<close> Cons None Inr
              unfolding series_dims_def by (simp add: read_dcm_dir_cpp_def Let_def)
            have "(e = ResizeFailure \<and> im' = ?im1) \<or>
              (\<exists>off. read_slices E (std_sort E (first # others)) init_im 0 ?im1
                 = (SIFT3D_FAILURE e, off, im'))"
              using assms unfolding r
              by (auto simp: im_resize_def split: if_splits prod.splits ret.splits)
            then show ?thesis
              using \<open>opendir E path = Some ents\<close> \<open>scan_dir E path ents [] = Inr dicoms\<close> Cons Inr
              by blast
          qed
        qed
      qed
    qed
  qed
qed

text \<open>
  C6, as amended. A directory assembly that fails for any reason but a failed resize or a
  pixel payload that cannot be decoded leaves the destination volume exactly as it was;
  in particular on SeriesMismatch the volume is neither allocated nor mutated. When a
  resize fails, of the destination or of the temporary slice, or a pixel payload cannot
  be decoded, the destination has the dimensions and the spacing of the series and holds
  exactly what the loop had copied from the slices read before the failing one (nothing,
  when it is the resize of the destination that fails).
\<close>

theorem read_dcm_dir_failure_untouched:
  assumes "read_dcm_dir_cpp E path im = (SIFT3D_FAILURE e, im')"
  shows "(\<not> after_resize e \<longrightarrow> im' = im) \<and>
    (after_resize e \<longrightarrow>
      (\<exists>ents first others sum_nz k off. opendir E path = Some ents \<and>
         scan_dir E path ents [] = Inr (first # others) \<and>
         check_dims first (first # others) 0 = Inr sum_nz \<and>
         k < length (first # others) \<and>
         read_slices E (take k (std_sort E (first # others))) init_im 0
             (series_dims first sum_nz im) = (SIFT3D_SUCCESS, off, im') \<and>
         nx im' = dcm_nx first \<and> ny im' = dcm_ny first \<and> nz im' = sum_nz \<and>
         nc im' = dcm_nc first \<and> ux im' = dcm_ux first \<and> uy im' = dcm_uy first \<and>
         uz im' = dcm_uz first))"
proof -
  from read_dcm_dir_cpp_cases [OF assms] show ?thesis
  proof
    assume "im' = im \<and> \<not> after_resize e"
    then show ?thesis by simp
  next
    assume "\<exists>ents first others sum_nz. opendir E path = Some ents \<and>
       scan_dir E path ents [] = Inr (first # others) \<and>
       check_dims first (first # others) 0 = Inr sum_nz \<and>
       ((e = ResizeFailure \<and> im' = series_dims first sum_nz im) \<or>
        (\<exists>off. read_slices E (std_sort E (first # others)) init_im 0 (series_dims first sum_nz im)
           = (SIFT3D_FAILURE e, off, im')))"
    then obtain ents first others sum_nz where
      o: "opendir E path = Some ents" and
      sc: "scan_dir E path ents [] = Inr (first # others)" and
      cd: "check_dims first (first # others) 0 = Inr sum_nz" and
      rs: "(e = ResizeFailure \<and> im' = series_dims first sum_nz im) \<or>
        (\<exists>off. read_slices E (std_sort E (first # others)) init_im 0 (series_dims first sum_nz im)
           = (SIFT3D_FAILURE e, off, im'))"
      by blast
    let ?ds = "std_sort E (first # others)"
    let ?im1 = "series_dims first sum_nz im"
    have "list_all (rescanned E) (first # others)" using scan_dir_rescanned [OF sc] by simp
    then have ra: "list_all (rescanned E) ?ds"
      unfolding list_all_iff set_std_sort by simp
    have "after_resize e \<and>
      (\<exists>k off. k < length (first # others) \<and>
         read_slices E (take k ?ds) init_im 0 ?im1 = (SIFT3D_SUCCESS, off, im'))"
      using rs
    proof
      assume a: "e = ResizeFailure \<and> im' = ?im1"
      then have "0 < length (first # others)"
        "read_slices E (take 0 ?ds) init_im 0 ?im1 = (SIFT3D_SUCCESS, 0, im')"
        by simp_all
      then show ?thesis using a by (auto simp: after_resize_def)
    next
      assume "\<exists>off. read_slices E ?ds init_im 0 ?im1 = (SIFT3D_FAILURE e, off, im')"
      then obtain off where f: "read_slices E ?ds init_im 0 ?im1 = (SIFT3D_FAILURE e, off, im')"
        by blast
      have "after_resize e" using read_slices_failure [OF f ra] .
      moreover obtain k off' where "k < length ?ds"
        "read_slices E (take k ?ds) init_im 0 ?im1 = (SIFT3D_SUCCESS, off', im')"
        using read_slices_prefix [OF f] by blast
      ultimately show ?thesis by (auto simp: length_std_sort)
    qed
    then obtain k off where a: "after_resize e" and k: "k < length (first # others)" and
      r: "read_slices E (take k ?ds) init_im 0 ?im1 = (SIFT3D_SUCCESS, off, im')"
      by blast
    note g = read_slices_dims [OF r]
    show ?thesis using o sc cd a k r g by blast
  qed
qed

text \<open>
  The theorem at the two files of one series which the series check rejects, and at two
  files of which the second cannot be decoded: the destination then holds what the loop
  had copied from the first.
\<close>

theorem read_dcm_dir_failure_untouched_witness:
  "read_dcm_dir_cpp (demo_env [(''a.dcm'', demo_file ''1.2.3'' ''1'' (one_frame 7)),
        (''b.dcm'', demo_file ''1.2.3'' ''2'' (one_frame 9))]) ''d'' (demo_image 3 3 3 1)
     = (SIFT3D_FAILURE (SeriesMismatch ''d/b.dcm'' ''d/a.dcm''), demo_image 3 3 3 1) \<and>
   (\<exists>ents first others sum_nz k off.
      scan_dir (demo_env [(''a.dcm'', demo_file ''1.2.3'' ''1'' (one_frame 7)),
        (''b.dcm'', demo_file ''1.2.4'' ''2'' no_frames)]) ''d'' ents [] = Inr (first # others) \<and>
      k < length (first # others) \<and>
      read_slices (demo_env [(''a.dcm'', demo_file ''1.2.3'' ''1'' (one_frame 7)),
          (''b.dcm'', demo_file ''1.2.4'' ''2'' no_frames)])
        (take k (std_sort (demo_env [(''a.dcm'', demo_file ''1.2.3'' ''1'' (one_frame 7)),
          (''b.dcm'', demo_file ''1.2.4'' ''2'' no_frames)]) (first # others))) init_im 0
        (series_dims first sum_nz init_im)
      = (SIFT3D_SUCCESS, off,
         snd (read_dcm_dir_cpp (demo_env [(''a.dcm'', demo_file ''1.2.3'' ''1'' (one_frame 7)),
          (''b.dcm'', demo_file ''1.2.4'' ''2'' no_frames)]) ''d'' init_im)))"
proof -
  let ?E = "demo_env [(''a.dcm'', demo_file ''1.2.3'' ''1'' (one_frame 7)),
        (''b.dcm'', demo_file ''1.2.3'' ''2'' (one_frame 9))]"
  let ?E2 = "demo_env [(''a.dcm'', demo_file ''1.2.3'' ''1'' (one_frame 7)),
        (''b.dcm'', demo_file ''1.2.4'' ''2'' no_frames)]"
  have "fst (read_dcm_dir_cpp ?E ''d'' (demo_image 3 3 3 1))
      = SIFT3D_FAILURE (SeriesMismatch ''d/b.dcm'' ''d/a.dcm'')"
    by (simp add: read_defs demo_defs numeric_defs)
  then have r: "read_dcm_dir_cpp ?E ''d'' (demo_image 3 3 3 1)
      = (SIFT3D_FAILURE (SeriesMismatch ''d/b.dcm'' ''d/a.dcm''),
         snd (read_dcm_dir_cpp ?E ''d'' (demo_image 3 3 3 1)))"
    by (metis prod.collapse)
  have n: "\<not> after_resize (SeriesMismatch ''d/b.dcm'' ''d/a.dcm'')"
    by (simp add: after_resize_def)
  have 1: "read_dcm_dir_cpp ?E ''d'' (demo_image 3 3 3 1)
     = (SIFT3D_FAILURE (SeriesMismatch ''d/b.dcm'' ''d/a.dcm''), demo_image 3 3 3 1)"
    using read_dcm_dir_failure_untouched [OF r] n r by simp
  have "fst (read_dcm_dir_cpp ?E2 ''d'' init_im) = SIFT3D_FAILURE (PayloadDecodeFailure ''d/b.dcm'' 0)"
    by (simp add: read_defs demo_defs no_frames_def numeric_defs)
  then have r2: "read_dcm_dir_cpp ?E2 ''d'' init_im
      = (SIFT3D_FAILURE (PayloadDecodeFailure ''d/b.dcm'' 0), snd (read_dcm_dir_cpp ?E2 ''d'' init_im))"
    by (metis prod.collapse)
  have a: "after_resize (PayloadDecodeFailure ''d/b.dcm'' 0)"
    by (simp add: after_resize_def)
  have 2: "\<exists>ents first others sum_nz k off.
      scan_dir ?E2 ''d'' ents [] = Inr (first # others) \<and>
      k < length (first # others) \<and>
      read_slices ?E2 (take k (std_sort ?E2 (first # others))) init_im 0
        (series_dims first sum_nz init_im)
      = (SIFT3D_SUCCESS, off, snd (read_dcm_dir_cpp ?E2 ''d'' init_im))"
    using read_dcm_dir_failure_untouched [OF r2] a by blast
  show ?thesis using 1 2 by blast
qed

text \<open>
  C6 as stated fails: when the payload of the second of two files cannot be decoded, the
  operation returns failure and the destination, which was empty, has two slices and
  holds the voxel of the first file. When the destination cannot be resized, and when
  the temporary slice cannot, the operation returns failure and the destination has the
  two slices of the series as its dimension.
\<close>

theorem read_dcm_dir_partial_volume:
  "fst (read_dcm_dir_cpp (demo_env [(''a.dcm'', demo_file ''1.2.3'' ''1'' (one_frame 7)),
        (''b.dcm'', demo_file ''1.2.4'' ''2'' no_frames)]) ''d'' init_im)
     = SIFT3D_FAILURE (PayloadDecodeFailure ''d/b.dcm'' 0) \<and>
   nz (snd (read_dcm_dir_cpp (demo_env [(''a.dcm'', demo_file ''1.2.3'' ''1'' (one_frame 7)),
        (''b.dcm'', demo_file ''1.2.4'' ''2'' no_frames)]) ''d'' init_im)) = 2 \<and>
   vox (snd (read_dcm_dir_cpp (demo_env [(''a.dcm'', demo_file ''1.2.3'' ''1'' (one_frame 7)),
        (''b.dcm'', demo_file ''1.2.4'' ''2'' no_frames)]) ''d'' init_im)) (0, 0, 0, 0) = 7 \<and>
   nz init_im = 0 \<and> vox init_im (0, 0, 0, 0) = 0 \<and>
   fst (read_dcm_dir_cpp ((demo_env [(''a.dcm'', demo_file ''1.2.3'' ''1'' (one_frame 7)),
        (''b.dcm'', demo_file ''1.2.4'' ''2'' (one_frame 9))])\<lparr>can_allocate := no_memory\<rparr>)
        ''d'' init_im)
     = SIFT3D_FAILURE ResizeFailure \<and>
   nz (snd (read_dcm_dir_cpp ((demo_env [(''a.dcm'', demo_file ''1.2.3'' ''1'' (one_frame 7)),
        (''b.dcm'', demo_file ''1.2.4'' ''2'' (one_frame 9))])\<lparr>can_allocate := no_memory\<rparr>)
        ''d'' init_im)) = 2 \<and>
   fst (read_dcm_dir_cpp ((demo_env [(''a.dcm'', demo_file ''1.2.3'' ''1'' (one_frame 7)),
        (''b.dcm'', demo_file ''1.2.4'' ''2'' (one_frame 9))])\<lparr>can_allocate := no_slice_memory\<rparr>)
        ''d'' init_im)
     = SIFT3D_FAILURE ResizeFailure \<and>
   nz (snd (read_dcm_dir_cpp ((demo_env [(''a.dcm'', demo_file ''1.2.3'' ''1'' (one_frame 7)),
        (''b.dcm'', demo_file ''1.2.4'' ''2'' (one_frame 9))])\<lparr>can_allocate := no_slice_memory\<rparr>)
        ''d'' init_im)) = 2"
  by (simp add: read_defs demo_defs no_frames_def no_memory_def no_slice_memory_def numeric_defs)

subsection \<open>File names\<close>

lemma digits_val_zeros: "digits_val 0 (replicate k (CHR ''0'') @ s) = digits_val 0 s"
  by (induction k) (simp_all add: isdigit_def digit_val_def)

lemma digits_val_zero_pad: "digits_val 0 (zero_pad w i) = i"
  using digits_val_show_nat [of 0 i "[]"] by (simp add: zero_pad_def digits_val_zeros)

lemma zero_pad_inj: "zero_pad w i = zero_pad w j \<Longrightarrow> i = j"
  by (metis digits_val_zero_pad)

lemma slice_name_inj: "slice_name w ext i = slice_name w ext j \<Longrightarrow> i = j"
proof -
  assume "slice_name w ext i = slice_name w ext j"
  then have "digits_val 0 (slice_name w ext i) = digits_val 0 (slice_name w ext j)" by simp
  moreover have "\<And>k. digits_val 0 (slice_name w ext k) = k"
  proof -
    fix k
    have "digits_val 0 (slice_name w ext k)
        = digits_val 0 (replicate (w - length (show_nat k)) (CHR ''0'')
            @ (show_nat k @ (''.'' @ take (11 - length (show_nat w)) ext)))"
      by (simp add: slice_name_def zero_pad_def)
    also have "\<dots> = digits_val 0 (show_nat k @ (''.'' @ take (11 - length (show_nat w)) ext))"
      by (rule digits_val_zeros)
    also have "\<dots> = k"
      by (simp add: digits_val_show_nat isdigit_def less_eq_char_def)
    finally show "digits_val 0 (slice_name w ext k) = k" .
  qed
  ultimately show ?thesis by simp
qed

lemma length_show_nat: "0 < w \<Longrightarrow> i < 10 ^ w \<Longrightarrow> length (show_nat i) \<le> w"
proof (induction i arbitrary: w rule: show_nat.induct)
  case (1 n)
  show ?case
  proof (cases "n < 10")
    case True
    then show ?thesis using "1.prems" by (simp add: show_nat.simps [of n])
  next
    case False
    obtain v where w: "w = Suc v" using "1.prems"(1) by (cases w) auto
    have "0 < v"
    proof (rule ccontr)
      assume "\<not> 0 < v"
      then show False using "1.prems"(2) False w by simp
    qed
    moreover have "n div 10 < 10 ^ v" using "1.prems"(2) w by (simp add: less_mult_imp_div_less)
    ultimately have "length (show_nat (n div 10)) \<le> v" using "1.IH" False by simp
    then show ?thesis using False w by (simp add: show_nat.simps [of n])
  qed
qed

lemma length_zero_pad: "0 < w \<Longrightarrow> i < 10 ^ w \<Longrightarrow> length (zero_pad w i) = w"
  using length_show_nat [of w i] by (simp add: zero_pad_def)

lemma isdigit_show_nat: "list_all isdigit (show_nat n)"
proof (induction n rule: show_nat.induct)
  case (1 n)
  then show ?case by (cases "n < 10") (simp_all add: show_nat.simps [of n])
qed

lemma isdigit_zero: "isdigit (CHR ''0'')"
  by (simp add: isdigit_def less_eq_char_def)

lemma isdigit_zero_pad: "list_all isdigit (zero_pad w n)"
  using isdigit_show_nat [of n] by (auto simp: zero_pad_def list_all_iff isdigit_zero)

lemma digits_val_acc:
  "list_all isdigit s \<Longrightarrow> digits_val acc s = acc * 10 ^ length s + digits_val 0 s"
proof (induction s arbitrary: acc)
  case Nil
  then show ?case by simp
next
  case (Cons c s)
  have d: "list_all isdigit s" "isdigit c" using Cons.prems by simp_all
  have "digits_val acc (c # s) = digits_val (10 * acc + digit_val c) s" using d by simp
  also have "\<dots> = (10 * acc + digit_val c) * 10 ^ length s + digits_val 0 s"
    by (rule Cons.IH [OF d(1)])
  finally have l: "digits_val acc (c # s)
      = (10 * acc + digit_val c) * 10 ^ length s + digits_val 0 s" .
  have "digits_val 0 (c # s) = digits_val (digit_val c) s" using d by simp
  also have "\<dots> = digit_val c * 10 ^ length s + digits_val 0 s"
    by (rule Cons.IH [OF d(1)])
  finally have r: "digits_val 0 (c # s) = digit_val c * 10 ^ length s + digits_val 0 s" .
  show ?case unfolding l r by (simp add: algebra_simps)
qed

lemma digits_val_bound: "list_all isdigit s \<Longrightarrow> digits_val 0 s < 10 ^ length s"
proof (induction s)
  case Nil
  then show ?case by simp
next
  case (Cons c s)
  have d: "list_all isdigit s" "isdigit c" using Cons.prems by simp_all
  have c: "digit_val c \<le> 9"
    using d(2) by (auto simp: isdigit_def digit_val_def less_eq_char_def)
  have v: "digits_val 0 (c # s) = digit_val c * 10 ^ length s + digits_val 0 s"
    using digits_val_acc [OF Cons.prems, of 0] digits_val_acc [OF d(1), of "digit_val c"] d(2)
    by simp
  have b: "digits_val 0 s < 10 ^ length s" by (rule Cons.IH [OF d(1)])
  have "digit_val c * 10 ^ length s \<le> 9 * 10 ^ length s" using c by (rule mult_le_mono1)
  then have "digit_val c * 10 ^ length s + digits_val 0 s < 10 * 10 ^ length s"
    using b by linarith
  then show ?case unfolding v by simp
qed

lemma digit_order:
  assumes "isdigit c" and "isdigit d"
  shows "(c < d) = (digit_val c < digit_val d) \<and> (c = d) = (digit_val c = digit_val d)"
proof -
  have c: "48 \<le> (of_char c :: nat)" and d: "48 \<le> (of_char d :: nat)"
    using assms by (simp_all add: isdigit_def less_eq_char_def)
  have "(digit_val c = digit_val d) = ((of_char c :: nat) = of_char d)"
    unfolding digit_val_def using c d by arith
  moreover have "(digit_val c < digit_val d) = ((of_char c :: nat) < of_char d)"
    unfolding digit_val_def using c d by arith
  ultimately show ?thesis by (simp add: less_char_def)
qed

lemma digits_lex_order:
  "length a = length b \<Longrightarrow> list_all isdigit a \<Longrightarrow> list_all isdigit b
    \<Longrightarrow> (a < b) = (digits_val 0 a < digits_val 0 b)"
proof (induction a b rule: list_induct2)
  case Nil
  then show ?case by simp
next
  case (Cons c a d b)
  have da: "list_all isdigit a" "isdigit c" and db: "list_all isdigit b" "isdigit d"
    using Cons.prems by simp_all
  have va: "digits_val 0 (c # a) = digit_val c * 10 ^ length a + digits_val 0 a"
    using digits_val_acc [OF da(1), of "digit_val c"] da(2) by simp
  have vb: "digits_val 0 (d # b) = digit_val d * 10 ^ length a + digits_val 0 b"
    using digits_val_acc [OF db(1), of "digit_val d"] db(2) Cons.hyps by simp
  have ba: "digits_val 0 a < 10 ^ length a" by (rule digits_val_bound [OF da(1)])
  have bb: "digits_val 0 b < 10 ^ length a" using digits_val_bound [OF db(1)] Cons.hyps by simp
  have ih: "(a < b) = (digits_val 0 a < digits_val 0 b)" by (rule Cons.IH [OF da(1) db(1)])
  have o: "(c < d) = (digit_val c < digit_val d)" "(c = d) = (digit_val c = digit_val d)"
    using digit_order [OF da(2) db(2)] by simp_all
  have "(digit_val c * 10 ^ length a + digits_val 0 a < digit_val d * 10 ^ length a + digits_val 0 b)
      = (digit_val c < digit_val d \<or> digit_val c = digit_val d \<and> digits_val 0 a < digits_val 0 b)"
  proof (cases "digit_val c < digit_val d")
    case True
    then have "Suc (digit_val c) \<le> digit_val d" by simp
    then have "Suc (digit_val c) * 10 ^ length a \<le> digit_val d * 10 ^ length a"
      by (rule mult_le_mono1)
    then show ?thesis using True ba by simp
  next
    case False
    show ?thesis
    proof (cases "digit_val c = digit_val d")
      case True
      then show ?thesis by simp
    next
      case ne: False
      then have "Suc (digit_val d) \<le> digit_val c" using False by simp
      then have "Suc (digit_val d) * 10 ^ length a \<le> digit_val c * 10 ^ length a"
        by (rule mult_le_mono1)
      then show ?thesis using False ne bb by simp
    qed
  qed
  then show ?case unfolding va vb by (simp add: ih o)
qed

lemma append_same_less:
  fixes a b :: string
  shows "length a = length b \<Longrightarrow> (a @ s < b @ s) = (a < b)"
  by (induction a b rule: list_induct2) simp_all

lemma zero_pad_order:
  assumes "i < 10 ^ w" and "j < 10 ^ w"
  shows "(zero_pad w i @ s < zero_pad w j @ s) = (i < j)"
proof (cases "w = 0")
  case True
  then show ?thesis using assms by simp
next
  case False
  then have l: "length (zero_pad w i) = length (zero_pad w j)"
    using assms by (simp add: length_zero_pad)
  show ?thesis
    using digits_lex_order [OF l isdigit_zero_pad isdigit_zero_pad]
    by (simp add: append_same_less [OF l] digits_val_zero_pad)
qed


lemma num_zeros_upper:
  assumes "num_zeros n = Some w"
  shows "0 < n" and "n \<le> 10 ^ w"
proof -
  show n: "0 < n" using assms by (simp add: num_zeros_def split: if_splits)
  have w: "w = nat \<lceil>log 10 (of_int n)\<rceil>" using assms n by (simp add: num_zeros_def)
  have "0 \<le> log 10 (of_int n)" using n by simp
  then have "log 10 (of_int n) \<le> real w" unfolding w by linarith
  then have "of_int n \<le> 10 powr (real w)" using n by (simp add: log_le_iff)
  then have "real_of_int n \<le> 10 ^ w" by (simp add: powr_realpow)
  then have "real_of_int n \<le> real_of_int (10 ^ w)" by simp
  then show "n \<le> 10 ^ w" by (simp only: of_int_le_iff)
qed

lemma num_zeros_lower:
  assumes "num_zeros n = Some w" and "0 < w"
  shows "10 ^ (w - 1) < n"
proof -
  have n: "0 < n" using assms by (simp add: num_zeros_def split: if_splits)
  have w: "w = nat \<lceil>log 10 (of_int n)\<rceil>" using assms n by (simp add: num_zeros_def)
  have "real w - 1 < log 10 (of_int n)" unfolding w using assms(2) w by linarith
  then have "real (w - 1) < log 10 (of_int n)" using assms(2) by (simp add: of_nat_diff)
  then have "10 powr real (w - 1) < of_int n" using n by (simp add: less_log_iff)
  then have "(10 :: real) ^ (w - 1) < of_int n" by (simp add: powr_realpow)
  then have "real_of_int (10 ^ (w - 1)) < real_of_int n" by simp
  then show ?thesis by (simp only: of_int_less_iff)
qed

lemma num_zeros_int_range:
  assumes "num_zeros n = Some w" and "n < 2 ^ 31"
  shows "w \<le> 10"
proof (rule ccontr)
  assume "\<not> w \<le> 10"
  then have w: "10 \<le> w - 1" "0 < w" by simp_all
  have "(10 :: int) ^ 10 \<le> 10 ^ (w - 1)" using w(1) by (intro power_increasing) simp_all
  then show False using num_zeros_lower [OF assms(1) w(2)] assms(2) by simp
qed

lemma num_zeros_150: "num_zeros 150 = Some 3"
proof -
  have "\<lceil>log 10 (150 :: real)\<rceil> = int 2 + 1"
    by (subst ceiling_log_eq_powr_iff) (simp_all add: powr_realpow)
  then show ?thesis by (simp add: num_zeros_def)
qed

lemma slice_name_plain:
  assumes "w \<le> 10" and "length ext \<le> 9"
  shows "slice_name w ext i = zero_pad w i @ ''.'' @ ext"
proof -
  have "length (show_nat w) \<le> 2"
    using assms(1) length_show_nat [of 2 w] by simp
  then show ?thesis using assms(2) by (simp add: slice_name_def)
qed

subsection \<open>The loop of the decomposition\<close>

lemma fold_set_vox:
  "vox (fold (\<lambda>p. set_vox p (g p)) ps sl) q = (if q \<in> set ps then g q else vox sl q)"
  by (induction ps arbitrary: sl rule: rev_induct) (auto simp: set_vox_def)

lemma fold_set_vox_dims:
  "nx (fold (\<lambda>p. set_vox p (g p)) ps sl) = nx sl"
  "ny (fold (\<lambda>p. set_vox p (g p)) ps sl) = ny sl"
  "nz (fold (\<lambda>p. set_vox p (g p)) ps sl) = nz sl"
  "nc (fold (\<lambda>p. set_vox p (g p)) ps sl) = nc sl"
  by (induction ps arbitrary: sl; simp add: set_vox_def)+

lemma copy_plane_fold:
  "copy_plane im i sl
    = fold (\<lambda>p. set_vox p (case p of (x, y, z, c) \<Rightarrow> vox im (x, y, i, c))) (im_loop_c sl) sl"
proof -
  have "(\<lambda>(x, y, z, c). set_vox (x, y, z, c) (vox im (x, y, i, c)))
      = (\<lambda>p. set_vox p (case p of (x, y, z, c) \<Rightarrow> vox im (x, y, i, c)))"
    by (auto simp: fun_eq_iff)
  then show ?thesis by (simp add: copy_plane_def)
qed

lemma copy_plane_dims:
  "nx (copy_plane im i sl) = nx sl" "ny (copy_plane im i sl) = ny sl"
  "nz (copy_plane im i sl) = nz sl" "nc (copy_plane im i sl) = nc sl"
  by (simp_all add: copy_plane_fold fold_set_vox_dims)

lemma set_im_loop_c:
  "set (im_loop_c im) = {(x, y, z, c). x < nat (nx im) \<and> y < nat (ny im) \<and> z < nat (nz im)
     \<and> c < nat (nc im)}"
  by (auto simp: im_loop_c_def image_iff)

lemma copy_plane_vox:
  "x < nat (nx sl) \<Longrightarrow> y < nat (ny sl) \<Longrightarrow> z < nat (nz sl) \<Longrightarrow> c < nat (nc sl)
    \<Longrightarrow> vox (copy_plane im i sl) (x, y, z, c) = vox im (x, y, i, c)"
  by (simp add: copy_plane_fold fold_set_vox set_im_loop_c)

lemma write_slices_Cons:
  assumes "write_slices E path im w (i # rest) sl meta W = (SIFT3D_SUCCESS, W')"
  shows "\<exists>W3. write_dcm_cpp E (slice_path E path w i) (copy_plane im i sl)
            (Some (slice_meta W i meta)) (slice_world E W) = (SIFT3D_SUCCESS, W3) \<and>
          write_slices E path im w rest (copy_plane im i sl) (slice_meta W i meta)
            (end_block (next_buf W) W3) = (SIFT3D_SUCCESS, W')"
  using assms
  by (simp add: Let_def local_buf_def dcmGenerateUniqueIdentifier_def write_dcm_def
      slice_path_def slice_meta_def slice_world_def
      split: prod.splits ret.splits)

lemma show_int_1: "show_int 1 = ''1''"
  by (simp add: show_int_def show_nat_digit digit_char_eval)

lemma deref_slice_world: "allocated W p \<Longrightarrow> deref (slice_world E W) p = deref W p"
  by (cases p) (auto simp: allocated_def deref_def slice_world_def)

lemma allocated_slice_world: "allocated W p \<Longrightarrow> allocated (slice_world E W) p"
  by (cases p) (auto simp: allocated_def slice_world_def)

lemma deref_end_slice:
  "allocated W p \<Longrightarrow> deref (end_block (next_buf W) (slice_world E W\<lparr>disk := d\<rparr>)) p = deref W p"
  by (cases p) (auto simp: allocated_def deref_def slice_world_def end_block_def)

lemma allocated_end_slice:
  "allocated W p \<Longrightarrow> allocated (end_block (next_buf W) (slice_world E W\<lparr>disk := d\<rparr>)) p"
  by (cases p) (auto simp: allocated_def slice_world_def end_block_def)

lemma end_slice_fields:
  "uid_count (end_block b (slice_world E W\<lparr>disk := d\<rparr>)) = Suc (uid_count W)"
  "disk (end_block b (slice_world E W\<lparr>disk := d\<rparr>)) = d"
  "next_buf (end_block b (slice_world E W\<lparr>disk := d\<rparr>)) = Suc (next_buf W)"
  by (simp_all add: end_block_def slice_world_def)

lemma slice_path_inj: "slice_path E path w i = slice_path E path w j \<Longrightarrow> i = j"
  by (simp add: slice_path_def slice_name_inj)

lemma write_slice_plane:
  assumes w: "write_dcm_cpp E fp (copy_plane im i sl) (Some (slice_meta W i meta)) (slice_world E W)
      = (SIFT3D_SUCCESS, W3)"
    and d: "nx sl = nx im" "ny sl = ny im" "nz sl = 1"
  shows "\<exists>ds. W3 = (slice_world E W)\<lparr>disk := (disk W)(fp \<mapsto> ds)\<rparr> \<and> plane_file im i ds \<and>
    elements ds DCM_StudyInstanceUID = Some (the (deref (slice_world E W) (study_uid meta))) \<and>
    elements ds DCM_SeriesInstanceUID = Some (the (deref (slice_world E W) (series_uid meta))) \<and>
    elements ds DCM_SOPInstanceUID = Some (uid_of E SITE_INSTANCE_UID_ROOT (uid_count W))"
proof -
  let ?sl = "copy_plane im i sl"
  let ?m = "slice_meta W i meta"
  let ?W = "slice_world E W"
  obtain ds0 pix where
    p: "put_all E (insertions ?W ?sl ?m) empty_dataset = Inr ds0" and
    r: "render_pixels ?sl = Some pix" and
    c: "nc ?sl = 1" and
    W3: "W3 = ?W\<lparr>disk := (disk ?W)(fp \<mapsto> ds0\<lparr>PixelData := Some pix\<rparr>)\<rparr>"
    using write_dcm_cpp_success [OF w] by (auto simp: set_meta_defaults_def)
  have dW: "disk ?W = disk W" by (simp add: slice_world_def)
  have dims: "nx ?sl = nx im" "ny ?sl = ny im" "nz ?sl = 1" "nc sl = 1"
    using d c by (simp_all add: copy_plane_dims)
  have e: "elements ds0 DCM_InstanceNumber = Some (show_nat (i + 1))"
    "elements ds0 DCM_Rows = Some (show_int (nx im))"
    "elements ds0 DCM_Columns = Some (show_int (ny im))"
    "elements ds0 DCM_NumberOfFrames = Some ''1''"
    "elements ds0 DCM_StudyInstanceUID = Some (the (deref ?W (study_uid meta)))"
    "elements ds0 DCM_SeriesInstanceUID = Some (the (deref ?W (series_uid meta)))"
    "elements ds0 DCM_SOPInstanceUID = Some (uid_of E SITE_INSTANCE_UID_ROOT (uid_count W))"
    using put_all_insertions(1-7) [OF p] dims
    by (simp_all add: slice_meta_def show_int_1) (simp add: deref_def slice_world_def)
  have s: "x + y * nat (nx im) < length pix \<and>
      uint (pix ! (x + y * nat (nx im))) = trunc0 (f32 (vox im (x, y, i, 0) * 255))"
    if "x < nat (nx im)" "y < nat (ny im)" for x y
  proof -
    have m: "(x, y, 0) \<in> set (im_loop ?sl)" using that dims by (simp add: set_im_loop)
    have v: "vox ?sl (x, y, 0, 0) = vox im (x, y, i, 0)"
      using that d dims by (simp add: copy_plane_vox)
    have "pixel_index ?sl (x, y, 0) = x + y * nat (nx im)"
      using dims by (simp add: pixel_index_def)
    then show ?thesis
      using render_loop_sample [OF r [unfolded render_pixels_def] m pixel_index_inj] v
        cast_uint8_Some by fastforce
  qed
  have "plane_file im i (ds0\<lparr>PixelData := Some pix\<rparr>)"
    using e s by (simp add: plane_file_def)
  then show ?thesis using W3 dW e by auto
qed

lemma write_slice_file:
  assumes w: "write_dcm_cpp E fp (copy_plane im i sl) (Some (slice_meta W i meta)) (slice_world E W)
      = (SIFT3D_SUCCESS, W3)"
    and d: "nx sl = nx im" "ny sl = ny im" "nz sl = 1"
    and a: "allocated W (study_uid meta)" "allocated W (series_uid meta)"
  shows "\<exists>ds. W3 = (slice_world E W)\<lparr>disk := (disk W)(fp \<mapsto> ds)\<rparr> \<and>
    slice_file im (the (deref W (study_uid meta))) (the (deref W (series_uid meta)))
      (uid_of E SITE_INSTANCE_UID_ROOT (uid_count W)) i ds"
  using write_slice_plane [OF w d] a by (auto simp: slice_file_def deref_slice_world)

lemma write_slices_frame:
  "write_slices E path im w is sl meta W = (SIFT3D_SUCCESS, W')
    \<Longrightarrow> p \<notin> slice_path E path w ` set is \<Longrightarrow> disk W' p = disk W p"
proof (induction "is" arbitrary: sl meta W)
  case Nil
  then show ?case by simp
next
  case (Cons i rest)
  obtain W3 where
    w: "write_dcm_cpp E (slice_path E path w i) (copy_plane im i sl) (Some (slice_meta W i meta))
          (slice_world E W) = (SIFT3D_SUCCESS, W3)" and
    l: "write_slices E path im w rest (copy_plane im i sl) (slice_meta W i meta)
          (end_block (next_buf W) W3) = (SIFT3D_SUCCESS, W')"
    using write_slices_Cons [OF Cons.prems(1)] by blast
  obtain ds where "W3 = (slice_world E W)\<lparr>disk := (disk (slice_world E W))(slice_path E path w i \<mapsto> ds)\<rparr>"
    using write_dcm_cpp_success [OF w] by (auto simp: set_meta_defaults_def)
  then have "disk (end_block (next_buf W) W3) p = disk W p"
    using Cons.prems(2) by (simp add: slice_world_def end_block_def)
  then show ?case using Cons.IH [OF l] Cons.prems(2) by simp
qed

lemma write_slices_planes:
  assumes "write_slices E path im w is sl meta W = (SIFT3D_SUCCESS, W')"
    and "nx sl = nx im" "ny sl = ny im" "nz sl = 1"
    and "distinct is"
  shows "\<forall>k < length is. \<exists>ds. disk W' (slice_path E path w (is ! k)) = Some ds \<and>
       plane_file im (is ! k) ds"
  using assms
proof (induction "is" arbitrary: sl meta W)
  case Nil
  then show ?case by simp
next
  case (Cons i rest)
  let ?sl = "copy_plane im i sl"
  let ?m = "slice_meta W i meta"
  let ?fp = "slice_path E path w i"
  obtain W3 where
    w: "write_dcm_cpp E ?fp ?sl (Some ?m) (slice_world E W) = (SIFT3D_SUCCESS, W3)" and
    l: "write_slices E path im w rest ?sl ?m (end_block (next_buf W) W3) = (SIFT3D_SUCCESS, W')"
    using write_slices_Cons [OF Cons.prems(1)] by blast
  obtain ds where
    W3: "W3 = (slice_world E W)\<lparr>disk := (disk W)(?fp \<mapsto> ds)\<rparr>" and
    f: "plane_file im i ds"
    using write_slice_plane [OF w Cons.prems(2-4)] by blast
  let ?W = "end_block (next_buf W) W3"
  have dims: "nx ?sl = nx im" "ny ?sl = ny im" "nz ?sl = 1"
    using Cons.prems(2-4) by (simp_all add: copy_plane_dims)
  have dk: "disk ?W = (disk W)(?fp \<mapsto> ds)" unfolding W3 by (simp add: end_slice_fields)
  have dist: "distinct rest" "i \<notin> set rest" using Cons.prems(5) by simp_all
  note ih = Cons.IH [OF l dims dist(1)]
  have nfp: "?fp \<notin> slice_path E path w ` set rest"
    using dist(2) slice_path_inj by fastforce
  have "\<exists>ds. disk W' (slice_path E path w ((i # rest) ! k)) = Some ds \<and>
       plane_file im ((i # rest) ! k) ds"
    if k: "k < length (i # rest)" for k
  proof (cases k)
    case 0
    have "disk W' ?fp = disk ?W ?fp" using write_slices_frame [OF l nfp] .
    then show ?thesis using 0 f dk by simp
  next
    case (Suc j)
    then have "j < length rest" using k by simp
    then show ?thesis using ih Suc by simp
  qed
  then show ?case by blast
qed

lemma write_slices_files:
  assumes "write_slices E path im w is sl meta W = (SIFT3D_SUCCESS, W')"
    and "nx sl = nx im" "ny sl = ny im" "nz sl = 1"
    and "allocated W (study_uid meta)" "allocated W (series_uid meta)"
    and "distinct is"
  shows "(\<forall>p. p \<notin> slice_path E path w ` set is \<longrightarrow> disk W' p = disk W p) \<and>
    (\<forall>k < length is. \<exists>ds. disk W' (slice_path E path w (is ! k)) = Some ds \<and>
       slice_file im (the (deref W (study_uid meta))) (the (deref W (series_uid meta)))
         (uid_of E SITE_INSTANCE_UID_ROOT (uid_count W + k)) (is ! k) ds)"
  using assms
proof (induction "is" arbitrary: sl meta W)
  case Nil
  then show ?case by simp
next
  case (Cons i rest)
  let ?sl = "copy_plane im i sl"
  let ?m = "slice_meta W i meta"
  let ?fp = "slice_path E path w i"
  obtain W3 where
    w: "write_dcm_cpp E ?fp ?sl (Some ?m) (slice_world E W) = (SIFT3D_SUCCESS, W3)" and
    l: "write_slices E path im w rest ?sl ?m (end_block (next_buf W) W3) = (SIFT3D_SUCCESS, W')"
    using write_slices_Cons [OF Cons.prems(1)] by blast
  obtain ds where
    W3: "W3 = (slice_world E W)\<lparr>disk := (disk W)(?fp \<mapsto> ds)\<rparr>" and
    f: "slice_file im (the (deref W (study_uid meta))) (the (deref W (series_uid meta)))
      (uid_of E SITE_INSTANCE_UID_ROOT (uid_count W)) i ds"
    using write_slice_file [OF w Cons.prems(2-6)] by blast
  let ?W = "end_block (next_buf W) W3"
  have dims: "nx ?sl = nx im" "ny ?sl = ny im" "nz ?sl = 1"
    using Cons.prems(2-4) by (simp_all add: copy_plane_dims)
  have al: "allocated ?W (study_uid ?m)" "allocated ?W (series_uid ?m)"
    using Cons.prems(5,6) unfolding W3 by (simp_all add: slice_meta_def allocated_end_slice)
  have dr: "deref ?W (study_uid ?m) = deref W (study_uid meta)"
    "deref ?W (series_uid ?m) = deref W (series_uid meta)"
    using Cons.prems(5,6) unfolding W3 by (simp_all add: slice_meta_def deref_end_slice)
  have uc: "uid_count ?W = Suc (uid_count W)" unfolding W3 by (simp add: end_slice_fields)
  have dk: "disk ?W = (disk W)(?fp \<mapsto> ds)" unfolding W3 by (simp add: end_slice_fields)
  have dist: "distinct rest" "i \<notin> set rest" using Cons.prems(7) by simp_all
  note ih = Cons.IH [OF l dims al dist(1), unfolded dr uc]
  have nfp: "?fp \<notin> slice_path E path w ` set rest"
    using dist(2) slice_path_inj by fastforce
  have a: "\<forall>p. p \<notin> slice_path E path w ` set (i # rest) \<longrightarrow> disk W' p = disk W p"
    using ih dk by auto
  have b: "\<exists>ds. disk W' (slice_path E path w ((i # rest) ! k)) = Some ds \<and>
       slice_file im (the (deref W (study_uid meta))) (the (deref W (series_uid meta)))
         (uid_of E SITE_INSTANCE_UID_ROOT (uid_count W + k)) ((i # rest) ! k) ds"
    if k: "k < length (i # rest)" for k
  proof (cases k)
    case 0
    have "disk W' ?fp = disk ?W ?fp" using ih nfp by blast
    then show ?thesis using 0 f dk by simp
  next
    case (Suc j)
    then have "j < length rest" using k by simp
    then show ?thesis using ih Suc by simp
  qed
  show ?case using a b by blast
qed

lemma write_dcm_dir_cpp_success:
  assumes "write_dcm_dir_cpp E path im meta W = (SIFT3D_SUCCESS, W')"
  shows "\<exists>m W1 w. set_meta_defaults E meta W = (m, W1) \<and> num_zeros (nz im) = Some w \<and>
    write_slices E path im w [0..<nat (nz im)]
      (init_im\<lparr>nx := nx im, ny := ny im, nz := 1, nc := nc im\<rparr>) m W1 = (SIFT3D_SUCCESS, W')"
  using assms
  by (auto simp: write_dcm_dir_cpp_def Let_def im_resize_def
      split: prod.splits option.splits if_splits)

text \<open>
  With null metadata no write is a defined success: the study identifier is read through
  the pointer into the array of \<^verbatim>\<open>default_Dcm_meta\<close>, which has returned.
\<close>

lemma default_study_uid_dangling:
  assumes "set_meta_defaults E None W = (m, W1)"
  shows "study_uid m = Buffer (next_buf W)" and "heap W1 (next_buf W) = None"
    and "next_buf W1 = Suc (next_buf W)"
  using assms
  by (auto simp: set_meta_defaults_def default_Dcm_meta_def default_Dcm_meta_body_def
      local_buf_def end_block_def dcmGenerateUniqueIdentifier_def Let_def)

lemma write_dcm_cpp_default_fails:
  "write_dcm_cpp E path im None W \<noteq> (SIFT3D_SUCCESS, W')"
proof
  assume "write_dcm_cpp E path im None W = (SIFT3D_SUCCESS, W')"
  then obtain m W1 ds0 where
    s: "set_meta_defaults E None W = (m, W1)" and
    p: "put_all E (insertions W1 im m) empty_dataset = Inr ds0"
    using write_dcm_cpp_success by blast
  have "deref W1 (study_uid m) = None"
    using default_study_uid_dangling(1,2) [OF s] by (simp add: deref_def)
  then show False using put_all_insertions(9) [OF p] by simp
qed

lemma write_dcm_dir_cpp_default_fails:
  "write_dcm_dir_cpp E path im None W \<noteq> (SIFT3D_SUCCESS, W')"
proof
  assume a: "write_dcm_dir_cpp E path im None W = (SIFT3D_SUCCESS, W')"
  let ?sl = "init_im\<lparr>nx := nx im, ny := ny im, nz := 1, nc := nc im\<rparr>"
  obtain m W1 w where
    s: "set_meta_defaults E None W = (m, W1)" and
    z: "num_zeros (nz im) = Some w" and
    l: "write_slices E path im w [0..<nat (nz im)] ?sl m W1 = (SIFT3D_SUCCESS, W')"
    using write_dcm_dir_cpp_success [OF a] by blast
  have "0 < nz im" using z by (simp add: num_zeros_def split: if_splits)
  then have "[0..<nat (nz im)] = 0 # [1..<nat (nz im)]" by (simp add: upt_conv_Cons)
  then obtain W3 where
    "write_dcm_cpp E (slice_path E path w 0) (copy_plane im 0 ?sl) (Some (slice_meta W1 0 m))
       (slice_world E W1) = (SIFT3D_SUCCESS, W3)"
    using write_slices_Cons [of E path im w 0 "[1..<nat (nz im)]" ?sl m W1 W'] l by auto
  then obtain ds0 where
    p: "put_all E (insertions (slice_world E W1) (copy_plane im 0 ?sl) (slice_meta W1 0 m))
        empty_dataset = Inr ds0"
    using write_dcm_cpp_success by (fastforce simp: set_meta_defaults_def)
  have "deref (slice_world E W1) (study_uid (slice_meta W1 0 m)) = None"
    using default_study_uid_dangling [OF s]
    by (simp add: deref_def slice_meta_def slice_world_def)
  then show False using put_all_insertions(9) [OF p] by simp
qed

lemma write_slices_dom:
  "write_slices E path im w is sl meta W = (SIFT3D_SUCCESS, W')
    \<Longrightarrow> dom (disk W') = dom (disk W) \<union> slice_path E path w ` set is"
proof (induction "is" arbitrary: sl meta W)
  case Nil
  then show ?case by simp
next
  case (Cons i rest)
  obtain W3 where
    w: "write_dcm_cpp E (slice_path E path w i) (copy_plane im i sl) (Some (slice_meta W i meta))
          (slice_world E W) = (SIFT3D_SUCCESS, W3)" and
    l: "write_slices E path im w rest (copy_plane im i sl) (slice_meta W i meta)
          (end_block (next_buf W) W3) = (SIFT3D_SUCCESS, W')"
    using write_slices_Cons [OF Cons.prems] by blast
  obtain ds where "W3 = (slice_world E W)\<lparr>disk := (disk (slice_world E W))(slice_path E path w i \<mapsto> ds)\<rparr>"
    using write_dcm_cpp_success [OF w] by (auto simp: set_meta_defaults_def)
  then have "dom (disk (end_block (next_buf W) W3)) = insert (slice_path E path w i) (dom (disk W))"
    by (simp add: slice_world_def end_block_def)
  then show ?case using Cons.IH [OF l] by auto
qed

lemma strings_allocated_end_slice:
  "strings_allocated W m
    \<Longrightarrow> strings_allocated (end_block (next_buf W) (slice_world E W\<lparr>disk := d\<rparr>)) (slice_meta W i m)"
  by (simp add: strings_allocated_def slice_meta_def allocated_end_slice)

lemma slice_meta_allocated:
  "strings_allocated W m \<Longrightarrow> strings_allocated (slice_world E W) (slice_meta W i m)"
  "allocated (slice_world E W) (instance_uid (slice_meta W i m))"
  by (simp_all add: strings_allocated_def slice_meta_def allocated_slice_world)
    (simp add: allocated_def slice_world_def)

lemma write_slices_succeeds:
  assumes ok: "\<And>t v. put_ok E t v" "\<And>p. put_array_ok E p" "canWriteXfer E" "\<And>p. saveFile_ok E p"
    and r: "\<And>i s. nx s = a \<Longrightarrow> ny s = b \<Longrightarrow> nz s = 1 \<Longrightarrow> nc s = 1
      \<Longrightarrow> \<exists>pix. render_pixels (copy_plane im i s) = Some pix"
    and d: "nx sl = a" "ny sl = b" "nz sl = 1" "nc sl = 1"
    and m: "strings_allocated W meta"
  shows "\<exists>W'. write_slices E path im w is sl meta W = (SIFT3D_SUCCESS, W')"
  using d m
proof (induction "is" arbitrary: sl meta W)
  case Nil
  then show ?case by simp
next
  case (Cons i rest)
  let ?sl = "copy_plane im i sl"
  let ?m = "slice_meta W i meta"
  let ?W = "slice_world E W"
  have dims: "nx ?sl = a" "ny ?sl = b" "nz ?sl = 1" "nc ?sl = 1"
    using Cons.prems(1-4) by (simp_all add: copy_plane_dims)
  obtain pix where p: "render_pixels ?sl = Some pix" using r [OF Cons.prems(1-4)] by blast
  obtain ds0 where
    w: "write_dcm_cpp E (slice_path E path w i) ?sl (Some ?m) ?W
      = (SIFT3D_SUCCESS, ?W\<lparr>disk := (disk ?W)(slice_path E path w i \<mapsto> ds0\<lparr>PixelData := Some pix\<rparr>)\<rparr>)"
    using write_dcm_cpp_succeeds [OF ok(1) ok(2) ok(3) ok(4) dims(4) p
        slice_meta_allocated(1) [OF Cons.prems(5)] slice_meta_allocated(2)] by blast
  let ?W3 = "?W\<lparr>disk := (disk ?W)(slice_path E path w i \<mapsto> ds0\<lparr>PixelData := Some pix\<rparr>)\<rparr>"
  have "strings_allocated (end_block (next_buf W) ?W3) ?m"
    by (rule strings_allocated_end_slice [OF Cons.prems(5)])
  then obtain W' where
    "write_slices E path im w rest ?sl ?m (end_block (next_buf W) ?W3) = (SIFT3D_SUCCESS, W')"
    using Cons.IH [OF dims] by blast
  then show ?case
    using w
    by (simp add: Let_def local_buf_def dcmGenerateUniqueIdentifier_def write_dcm_def
        slice_path_def slice_meta_def slice_world_def)
qed

lemma write_dcm_dir_cpp_succeeds:
  assumes ok: "\<And>t v. put_ok E t v" "\<And>p. put_array_ok E p" "canWriteXfer E" "\<And>p. saveFile_ok E p"
    and al: "\<And>a b c d. can_allocate E a b c d"
    and r: "\<And>i s. nx s = nx im \<Longrightarrow> ny s = ny im \<Longrightarrow> nz s = 1 \<Longrightarrow> nc s = 1
      \<Longrightarrow> \<exists>pix. render_pixels (copy_plane im i s) = Some pix"
    and c: "nc im = 1" and z: "0 < nz im"
    and m: "strings_allocated W m"
  shows "\<exists>W'. write_dcm_dir_cpp E path im (Some m) W = (SIFT3D_SUCCESS, W')"
proof -
  obtain w where w: "num_zeros (nz im) = Some w" using z by (simp add: num_zeros_def)
  let ?sl = "init_im\<lparr>nx := nx im, ny := ny im, nz := 1, nc := nc im\<rparr>"
  have "\<exists>W'. write_slices E path im w [0..<nat (nz im)] ?sl m W = (SIFT3D_SUCCESS, W')"
  proof (rule write_slices_succeeds [OF ok, where a = "nx im" and b = "ny im"])
    show "\<exists>pix. render_pixels (copy_plane im i s) = Some pix"
      if "nx s = nx im" "ny s = ny im" "nz s = 1" "nc s = 1" for i s
      using that by (rule r)
  qed (simp_all add: c m)
  then show ?thesis
    using w al by (auto simp: write_dcm_dir_cpp_def im_resize_def set_meta_defaults_def)
qed

lemma cast_half_255: "cast_uint8 (f32 (1 / 2 * 255)) = Some 127"
  by (simp add: cast_uint8_def trunc0_def numeric_defs)

lemma cast_one_255: "cast_uint8 (f32 (1 * 255)) = Some 255"
  by (simp add: cast_uint8_def trunc0_def numeric_defs)

lemma render_single:
  assumes "nx s = 1" "ny s = 1" "nz s = 1" "cast_uint8 (f32 (vox s (0, 0, 0, 0) * 255)) = Some b"
  shows "render_pixels s = Some [b]"
proof -
  have n: "numPixels s = 1" using assms(1-3) by (simp add: numPixels_def)
  have l: "im_loop s = [(0, 0, 0)]" using assms(1-3) by (simp add: im_loop_def)
  have k: "pixel_index s (0, 0, 0) = 0" by (simp add: pixel_index_def)
  show ?thesis unfolding render_pixels_def n l by (simp add: k assms(4))
qed

lemma render_demo_plane:
  assumes "nx s = 1" "ny s = 1" "nz s = 1" "nc s = 1"
  shows "\<exists>pix. render_pixels (copy_plane (demo_image 1 1 c (1 / 2)) i s) = Some pix"
proof -
  let ?sl = "copy_plane (demo_image 1 1 c (1 / 2)) i s"
  have v: "vox ?sl (0, 0, 0, 0) = 1 / 2"
    using assms by (simp add: copy_plane_vox demo_image_def)
  have "cast_uint8 (f32 (vox ?sl (0, 0, 0, 0) * 255)) = Some 127"
    unfolding v by (rule cast_half_255)
  then have "render_pixels ?sl = Some [127]"
    using assms by (intro render_single) (simp_all add: copy_plane_dims)
  then show ?thesis by blast
qed

lemma render_marked_plane:
  assumes "nx s = 1" "ny s = 1" "nz s = 1" "nc s = 1"
  shows "\<exists>pix. render_pixels (copy_plane (marked_stack c k) i s) = Some pix"
proof -
  let ?sl = "copy_plane (marked_stack c k) i s"
  have "\<exists>b. cast_uint8 (f32 (vox ?sl (0, 0, 0, 0) * 255)) = Some b"
  proof (cases "i = k")
    case True
    have v: "vox ?sl (0, 0, 0, 0) = 1"
      using assms True by (simp add: copy_plane_vox marked_stack_def)
    show ?thesis unfolding v using cast_one_255 by blast
  next
    case False
    have v: "vox ?sl (0, 0, 0, 0) = 1 / 2"
      using assms False by (simp add: copy_plane_vox marked_stack_def)
    show ?thesis unfolding v using cast_half_255 by blast
  qed
  then obtain b where "cast_uint8 (f32 (vox ?sl (0, 0, 0, 0) * 255)) = Some b" by blast
  then have "render_pixels ?sl = Some [b]"
    using assms by (intro render_single) (simp_all add: copy_plane_dims)
  then show ?thesis by blast
qed

lemma demo_write_succeeds:
  "0 < c \<Longrightarrow> \<exists>W'. write_dcm_dir_cpp (demo_env []) path (demo_image 1 1 c (1 / 2))
      (Some demo_meta) W = (SIFT3D_SUCCESS, W')"
proof -
  assume c: "0 < c"
  have d: "nx (demo_image 1 1 c (1 / 2)) = 1" "ny (demo_image 1 1 c (1 / 2)) = 1"
    "nz (demo_image 1 1 c (1 / 2)) = c" "nc (demo_image 1 1 c (1 / 2)) = 1"
    by (simp_all add: demo_image_def)
  show ?thesis
    by (rule write_dcm_dir_cpp_succeeds [OF demo_env_ok(1,2,3,4,5)])
      (simp_all add: d c render_demo_plane demo_meta_allocated)
qed

lemma marked_write_succeeds:
  "0 < c \<Longrightarrow> \<exists>W'. write_dcm_dir_cpp (demo_env []) path (marked_stack c k)
      (Some demo_meta) W = (SIFT3D_SUCCESS, W')"
proof -
  assume c: "0 < c"
  have d: "nx (marked_stack c k) = 1" "ny (marked_stack c k) = 1"
    "nz (marked_stack c k) = c" "nc (marked_stack c k) = 1"
    by (simp_all add: marked_stack_def)
  show ?thesis
    by (rule write_dcm_dir_cpp_succeeds [OF demo_env_ok(1,2,3,4,5)])
      (simp_all add: d c render_marked_plane demo_meta_allocated)
qed

lemma num_zeros_2: "num_zeros 2 = Some 1"
proof -
  have "\<lceil>log 10 (2 :: real)\<rceil> = int 0 + 1"
    by (subst ceiling_log_eq_powr_iff) simp_all
  then show ?thesis by (simp add: num_zeros_def)
qed

lemma inj_demo_uid: "inj (uid_of (demo_env fs) r)"
proof (rule injI)
  fix a b assume "uid_of (demo_env fs) r a = uid_of (demo_env fs) r b"
  then have "show_nat a = show_nat b" by (simp add: demo_env_def)
  then have "digits_val 0 (show_nat a @ []) = digits_val 0 (show_nat b @ [])" by simp
  then show "a = b" by (simp only: digits_val_show_nat) simp
qed

lemma digit_char_2: "digit_char (Suc (Suc 0)) = CHR ''2''"
  by (simp only: numeral_2_eq_2 [symmetric] digit_char_eval)


subsection \<open>Decomposition into a directory\<close>

lemma write_dcm_dir_cpp_files:
  assumes "write_dcm_dir_cpp E path im meta W = (SIFT3D_SUCCESS, W')"
    and "caller_allocated W meta"
  obtains m w where "meta = Some m" and "num_zeros (nz im) = Some w"
    and "\<forall>p. p \<notin> slice_path E path w ` {..<nat (nz im)} \<longrightarrow> disk W' p = disk W p"
    and "\<forall>i < nat (nz im). \<exists>ds. disk W' (slice_path E path w i) = Some ds \<and>
        slice_file im (the (deref W (study_uid m))) (the (deref W (series_uid m)))
          (uid_of E SITE_INSTANCE_UID_ROOT (uid_count W + i)) i ds"
proof -
  let ?sl = "init_im\<lparr>nx := nx im, ny := ny im, nz := 1, nc := nc im\<rparr>"
  obtain m where m: "meta = Some m"
    using assms(1) write_dcm_dir_cpp_default_fails by (cases meta) auto
  obtain w where
    z: "num_zeros (nz im) = Some w" and
    l: "write_slices E path im w [0..<nat (nz im)] ?sl m W = (SIFT3D_SUCCESS, W')"
    using write_dcm_dir_cpp_success [OF assms(1)] by (auto simp: m set_meta_defaults_def)
  have a: "allocated W (study_uid m)" "allocated W (series_uid m)"
    using assms(2) by (simp_all add: m caller_allocated_def)
  have f: "(\<forall>p. p \<notin> slice_path E path w ` set [0..<nat (nz im)] \<longrightarrow> disk W' p = disk W p) \<and>
    (\<forall>k < length [0..<nat (nz im)]. \<exists>ds.
       disk W' (slice_path E path w ([0..<nat (nz im)] ! k)) = Some ds \<and>
       slice_file im (the (deref W (study_uid m))) (the (deref W (series_uid m)))
         (uid_of E SITE_INSTANCE_UID_ROOT (uid_count W + k)) ([0..<nat (nz im)] ! k) ds)"
    by (rule write_slices_files [OF l _ _ _ a]) simp_all
  have "\<forall>p. p \<notin> slice_path E path w ` {..<nat (nz im)} \<longrightarrow> disk W' p = disk W p"
    using f by (simp add: lessThan_atLeast0)
  moreover have "\<forall>i < nat (nz im). \<exists>ds. disk W' (slice_path E path w i) = Some ds \<and>
        slice_file im (the (deref W (study_uid m))) (the (deref W (series_uid m)))
          (uid_of E SITE_INSTANCE_UID_ROOT (uid_count W + i)) i ds"
    using f by simp
  ultimately show ?thesis using m z that by blast
qed

text \<open>
  With metadata of the caller a successful decomposition of a volume with \<open>nz\<close> slices
  changes the target directory at exactly the \<open>nz\<close> pairwise different paths of its
  slices. The file of slice \<open>i\<close> has one frame, the instance number \<open>i + 1\<close> and the
  samples of the plane \<open>z = i\<close>; all files carry the same study and the same series
  identifier, and their instance identifiers are pairwise different, given that the
  generator of the toolkit never repeats an identifier.
\<close>

lemma write_dcm_dir_cpp_supplied:
  assumes "write_dcm_dir_cpp E path im meta W = (SIFT3D_SUCCESS, W')"
    and "caller_allocated W meta"
    and "inj (uid_of E SITE_INSTANCE_UID_ROOT)"
  shows "\<exists>w study series uid.
     num_zeros (nz im) = Some w \<and>
     inj_on (slice_path E path w) {..<nat (nz im)} \<and>
     (\<forall>p. p \<notin> slice_path E path w ` {..<nat (nz im)} \<longrightarrow> disk W' p = disk W p) \<and>
     inj_on uid {..<nat (nz im)} \<and>
     (\<forall>i < nat (nz im). \<exists>ds. disk W' (slice_path E path w i) = Some ds \<and>
        slice_file im study series (uid i) i ds)"
proof -
  obtain m :: Dcm_meta and w where
    z: "num_zeros (nz im) = Some w" and
    u: "\<forall>p. p \<notin> slice_path E path w ` {..<nat (nz im)} \<longrightarrow> disk W' p = disk W p" and
    f: "\<forall>i < nat (nz im). \<exists>ds. disk W' (slice_path E path w i) = Some ds \<and>
        slice_file im (the (deref W (study_uid m))) (the (deref W (series_uid m)))
          (uid_of E SITE_INSTANCE_UID_ROOT (uid_count W + i)) i ds"
    by (rule write_dcm_dir_cpp_files [OF assms(1,2)])
  let ?uid = "\<lambda>k. uid_of E SITE_INSTANCE_UID_ROOT (uid_count W + k)"
  have "inj_on (slice_path E path w) {..<nat (nz im)}"
    by (rule inj_onI) (rule slice_path_inj)
  moreover have "inj_on ?uid {..<nat (nz im)}"
  proof (rule inj_onI)
    fix a b assume "?uid a = ?uid b"
    then have "uid_count W + a = uid_count W + b" using assms(3) by (simp add: inj_eq)
    then show "a = b" by simp
  qed
  ultimately show ?thesis using z u f by blast
qed

lemma write_slices_step:
  "write_slices E path im w (i # rest) sl meta W =
     (case write_dcm_cpp E (slice_path E path w i) (copy_plane im i sl)
             (Some (slice_meta W i meta)) (slice_world E W) of
        (SIFT3D_SUCCESS, W3) \<Rightarrow>
          write_slices E path im w rest (copy_plane im i sl) (slice_meta W i meta)
            (end_block (next_buf W) W3)
      | (r, W3) \<Rightarrow> (r, end_block (next_buf W) W3))"
  by (simp add: Let_def local_buf_def dcmGenerateUniqueIdentifier_def write_dcm_def
      slice_path_def slice_meta_def slice_world_def split: prod.splits ret.splits)

lemma write_dcm_cpp_dangling_study:
  assumes "nc im = 1"
    and "patient_name m = Literal pn" and "patient_id m = Literal pid"
    and "put_ok E DCM_ImageType ''DERIVED''" and "put_ok E DCM_PatientName pn"
    and "put_ok E DCM_PatientID pid"
    and "deref W (study_uid m) = None"
  shows "write_dcm_cpp E path im (Some m) W = (UNDEFINED, W)"
  using assms
  by (simp add: write_dcm_cpp_def set_meta_defaults_def insertions_def putAndInsertString_def
      deref_def)

lemma default_meta_literals:
  assumes "set_meta_defaults E None W = (m, W1)"
  shows "patient_name m = Literal default_patient_name"
    and "patient_id m = Literal default_patient_id"
  using assms
  by (auto simp: set_meta_defaults_def default_Dcm_meta_def default_Dcm_meta_body_def
      local_buf_def end_block_def dcmGenerateUniqueIdentifier_def Let_def)

text \<open>
  C5. The claim: a successful decomposition gives \<open>nz\<close> single-frame files that are
  numbered \<open>1..nz\<close> in the order of the z axis and share one study and series identity,
  with pairwise different instance identifiers, and this also when no metadata is
  supplied. With null metadata the code reads, for the first file already, the study
  identifier through the pointer that \<^verbatim>\<open>default_Dcm_meta\<close> has left in the metadata,
  into the array that ended when that function returned. For every volume of one channel,
  when the slice can be allocated and the toolkit accepts the image type, the patient name
  and the patient identifier, which are inserted before it, the decomposition reaches that
  read, and its behaviour is undefined (for a volume without slices it is undefined
  before, at the width of the file names). No decomposition with null metadata is a
  success with the files of the claim.
\<close>

theorem write_dcm_dir_default_metadata_undefined:
  assumes "nc im = 1"
    and "can_allocate E (nx im) (ny im) 1 1"
    and "put_ok E DCM_ImageType ''DERIVED''"
    and "put_ok E DCM_PatientName default_patient_name"
    and "put_ok E DCM_PatientID default_patient_id"
  shows "fst (write_dcm_dir_cpp E path im None W) = UNDEFINED"
proof -
  let ?sl = "init_im\<lparr>nx := nx im, ny := ny im, nz := 1, nc := nc im\<rparr>"
  obtain m W1 where s: "set_meta_defaults E None W = (m, W1)"
    by (cases "set_meta_defaults E None W")
  show ?thesis
  proof (cases "0 < nz im")
    case False
    then show ?thesis using s by (simp add: write_dcm_dir_cpp_def num_zeros_def)
  next
    case True
    then obtain w where w: "num_zeros (nz im) = Some w" by (simp add: num_zeros_def)
    have u: "[0..<nat (nz im)] = 0 # [1..<nat (nz im)]"
      using True by (simp add: upt_conv_Cons)
    have "deref (slice_world E W1) (study_uid (slice_meta W1 0 m)) = None"
      using default_study_uid_dangling [OF s]
      by (simp add: deref_def slice_meta_def slice_world_def)
    then have "write_dcm_cpp E (slice_path E path w 0) (copy_plane im 0 ?sl)
        (Some (slice_meta W1 0 m)) (slice_world E W1) = (UNDEFINED, slice_world E W1)"
      using assms default_meta_literals [OF s]
      by (intro write_dcm_cpp_dangling_study [where pn = default_patient_name
            and pid = default_patient_id])
        (simp_all add: copy_plane_dims slice_meta_def)
    then have "fst (write_slices E path im w [0..<nat (nz im)] ?sl m W1) = UNDEFINED"
      unfolding u write_slices_step by simp
    then show ?thesis
      using s w assms(1,2) by (simp add: write_dcm_dir_cpp_def im_resize_def)
  qed
qed

text \<open>The theorem at a volume of two slices of one voxel.\<close>

theorem write_dcm_dir_default_metadata_undefined_witness:
  "fst (write_dcm_dir_cpp (demo_env []) ''out'' (demo_image 1 1 2 (1 / 2)) None world0)
     = UNDEFINED"
proof -
  have "nc (demo_image 1 1 2 (1 / 2)) = 1" by (simp add: demo_image_def)
  then show ?thesis
    by (rule write_dcm_dir_default_metadata_undefined) (simp_all add: demo_env_def)
qed

text \<open>
  C9. In a successful decomposition of a volume with \<open>nz\<close> slices the file whose
  name is \<open>i\<close> padded with zeros to \<open>\<lceil>log\<^sub>1\<^sub>0 nz\<rceil>\<close> digits, a dot and the extension is
  the file of slice \<open>i\<close>: it has the instance number \<open>i + 1\<close> and the samples of the
  plane \<open>z = i\<close>. The padded indices have that many digits, so the names order lexically
  as the slices order numerically. For 150 slices the width is 3, from \<open>000\<close> to \<open>149\<close>.
\<close>

theorem slice_file_names:
  assumes "write_dcm_dir_cpp E path im meta W = (SIFT3D_SUCCESS, W')"
    and "nz im < 2 ^ 31" and "length (ext_dcm E) \<le> 9"
    and "i < nat (nz im)" and "j < nat (nz im)"
  shows "(\<exists>ds. disk W' (path @ sep @ zero_pad (nat \<lceil>log 10 (of_int (nz im))\<rceil>) i @ ''.''
            @ ext_dcm E) = Some ds \<and> plane_file im i ds) \<and>
     (0 < nat \<lceil>log 10 (of_int (nz im))\<rceil> \<longrightarrow>
        length (zero_pad (nat \<lceil>log 10 (of_int (nz im))\<rceil>) i) = nat \<lceil>log 10 (of_int (nz im))\<rceil>) \<and>
     ((zero_pad (nat \<lceil>log 10 (of_int (nz im))\<rceil>) i @ ''.'' @ ext_dcm E
         < zero_pad (nat \<lceil>log 10 (of_int (nz im))\<rceil>) j @ ''.'' @ ext_dcm E) = (i < j)) \<and>
     num_zeros 150 = Some 3 \<and> zero_pad 3 0 = ''000'' \<and> zero_pad 3 149 = ''149''"
proof -
  let ?sl = "init_im\<lparr>nx := nx im, ny := ny im, nz := 1, nc := nc im\<rparr>"
  obtain m W1 w where
    z: "num_zeros (nz im) = Some w" and
    l: "write_slices E path im w [0..<nat (nz im)] ?sl m W1 = (SIFT3D_SUCCESS, W')"
    using write_dcm_dir_cpp_success [OF assms(1)] by blast
  have w: "w = nat \<lceil>log 10 (of_int (nz im))\<rceil>"
    using z by (simp add: num_zeros_def split: if_splits)
  have w10: "w \<le> 10" by (rule num_zeros_int_range [OF z assms(2)])
  have "int i < nz im" "int j < nz im" using assms(4,5) by simp_all
  then have "int i < 10 ^ w" "int j < 10 ^ w" using num_zeros_upper(2) [OF z] by linarith+
  then have "int i < int (10 ^ w)" "int j < int (10 ^ w)" by simp_all
  then have b: "i < 10 ^ w" "j < 10 ^ w" by (simp_all only: of_nat_less_iff)
  have "\<forall>k < length [0..<nat (nz im)]. \<exists>ds.
      disk W' (slice_path E path w ([0..<nat (nz im)] ! k)) = Some ds \<and>
      plane_file im ([0..<nat (nz im)] ! k) ds"
    by (rule write_slices_planes [OF l]) simp_all
  then have "\<exists>ds. disk W' (slice_path E path w i) = Some ds \<and> plane_file im i ds"
    using assms(4) by simp
  then have "\<exists>ds. disk W' (path @ sep @ zero_pad w i @ ''.'' @ ext_dcm E) = Some ds \<and>
      plane_file im i ds"
    by (simp add: slice_path_def slice_name_plain [OF w10 assms(3)])
  moreover have "0 < w \<longrightarrow> length (zero_pad w i) = w" using b(1) by (simp add: length_zero_pad)
  moreover have "(zero_pad w i @ ''.'' @ ext_dcm E < zero_pad w j @ ''.'' @ ext_dcm E) = (i < j)"
    by (rule zero_pad_order [OF b])
  moreover have "zero_pad 3 0 = ''000''" "zero_pad 3 149 = ''149''"
    by (simp_all add: zero_pad_def show_nat.simps digit_char_eval replicate_numeral_eval)
  ultimately show ?thesis using num_zeros_150 unfolding w by simp
qed

text \<open>
  The theorem at a volume of 150 slices whose plane 7 alone has the voxel 1: the file
  \<open>007\<close> has the instance number 8 and the sample 255.
\<close>

theorem slice_file_names_witness:
  "\<exists>W' ds pix. write_dcm_dir_cpp (demo_env []) ''out'' (marked_stack 150 7) (Some demo_meta)
        world0 = (SIFT3D_SUCCESS, W') \<and>
    disk W' ''out/007.dcm'' = Some ds \<and> elements ds DCM_InstanceNumber = Some ''8'' \<and>
    PixelData ds = Some pix \<and> uint (pix ! 0) = 255 \<and>
    (''007.dcm'' < ''149.dcm'') = ((7 :: nat) < 149)"
proof -
  let ?im = "marked_stack 150 7"
  obtain W' where
    w: "write_dcm_dir_cpp (demo_env []) ''out'' ?im (Some demo_meta) world0
        = (SIFT3D_SUCCESS, W')"
    using marked_write_succeeds [of 150 "''out''" 7 world0] by auto
  have z: "nz ?im = 150" by (simp add: marked_stack_def)
  have h: "nz ?im < 2 ^ 31" "length (ext_dcm (demo_env [])) \<le> 9" "7 < nat (nz ?im)"
    "149 < nat (nz ?im)"
    by (simp_all add: marked_stack_def demo_env_def)
  have l: "nat \<lceil>log 10 (of_int (nz ?im))\<rceil> = 3"
    using num_zeros_150 by (simp add: num_zeros_def z)
  have p: "zero_pad 3 7 = ''007''" "zero_pad 3 149 = ''149''"
    by (simp_all add: zero_pad_def show_nat.simps digit_char_eval replicate_numeral_eval)
  note t = slice_file_names [OF w h]
  obtain ds where d: "disk W' ''out/007.dcm'' = Some ds" and f: "plane_file ?im 7 ds"
    using t unfolding l p by (auto simp: sep_def demo_env_def)
  have o: "(''007.dcm'' < ''149.dcm'') = ((7 :: nat) < 149)"
    using t unfolding l p by (simp add: demo_env_def)
  have n: "elements ds DCM_InstanceNumber = Some ''8''"
    using f by (simp add: plane_file_def show_nat_digit digit_char_eval)
  obtain pix where px: "PixelData ds = Some pix" and
    al: "\<forall>x < nat (nx ?im). \<forall>y < nat (ny ?im). x + y * nat (nx ?im) < length pix \<and>
      uint (pix ! (x + y * nat (nx ?im))) = trunc0 (f32 (vox ?im (x, y, 7, 0) * 255))"
    using f by (cases "PixelData ds") (simp_all add: plane_file_def)
  have "nx ?im = 1" "ny ?im = 1" "vox ?im (0, 0, 7, 0) = 1" by (simp_all add: marked_stack_def)
  then have "uint (pix ! 0) = trunc0 (f32 (1 * 255))" using al by simp
  then have s: "uint (pix ! 0) = 255" by (simp add: trunc0_def numeric_defs)
  show ?thesis using w d n px s o by blast
qed

subsection \<open>Files of one series\<close>

lemma Dicom_Dicom_None: "(Dicom_Dicom p (Some f) = None) = reads_null f"
  by (auto simp: Dicom_Dicom_def reads_null_def Let_def split: found.splits option.splits)

lemma Dicom_Dicom_series:
  "Dicom_Dicom p (Some f) = Some d \<Longrightarrow> dcm_valid d
    \<Longrightarrow> findAndGetString f DCM_SeriesInstanceUID = Good (Some s) \<Longrightarrow> dcm_seriesUID d = s"
  by (auto simp: Dicom_Dicom_def Dicom_image_def Dicom_init_def Let_def
      split: found.splits option.splits if_splits)

lemma scan_dir_same_series:
  assumes "list_all (series_file E path s) ents"
  shows "(\<exists>r. scan_dir E path ents acc = Inl r) \<or>
    (\<exists>ds. scan_dir E path ents acc = Inr (acc @ ds) \<and> length ds = length ents \<and>
       list_all (\<lambda>d. dcm_seriesUID d = s) ds)"
  using assms
proof (induction ents arbitrary: acc)
  case Nil
  then show ?case by simp
next
  case (Cons n ents)
  obtain f where f: "im_get_format E n = DICOM" "loadFile E (path @ sep @ n) = Some f"
    "findAndGetString f DCM_SeriesInstanceUID = Good (Some s)"
    using Cons.prems by (auto simp: series_file_def split: option.splits)
  show ?case
  proof (cases "Dicom_Dicom (path @ sep @ n) (Some f)")
    case None
    then show ?thesis using f by simp
  next
    case (Some d)
    show ?thesis
    proof (cases "dcm_valid d")
      case False
      then show ?thesis using f Some by simp
    next
      case True
      have s: "dcm_seriesUID d = s" by (rule Dicom_Dicom_series [OF Some True f(3)])
      have r: "list_all (series_file E path s) ents" using Cons.prems by simp
      have e: "scan_dir E path (n # ents) acc = scan_dir E path ents (acc @ [d])"
        using f Some True by simp
      from Cons.IH [OF r, of "acc @ [d]"] show ?thesis
      proof
        assume "\<exists>r. scan_dir E path ents (acc @ [d]) = Inl r"
        then show ?thesis unfolding e by blast
      next
        assume "\<exists>ds. scan_dir E path ents (acc @ [d]) = Inr ((acc @ [d]) @ ds) \<and>
          length ds = length ents \<and> list_all (\<lambda>d. dcm_seriesUID d = s) ds"
        then obtain ds where
          "scan_dir E path ents (acc @ [d]) = Inr (acc @ (d # ds))" "length ds = length ents"
          "list_all (\<lambda>d. dcm_seriesUID d = s) ds"
          by auto
        then have "scan_dir E path (n # ents) acc = Inr (acc @ (d # ds)) \<and>
          length (d # ds) = length (n # ents) \<and> list_all (\<lambda>d. dcm_seriesUID d = s) (d # ds)"
          unfolding e using s by simp
        then show ?thesis by blast
      qed
    qed
  qed
qed

lemma same_series_rejected:
  assumes "stat E path = Directory" and "opendir E path = Some ents" and "2 \<le> length ents"
    and "list_all (series_file E path s) ents"
  shows "(\<exists>r. scan_dir E path ents [] = Inl r \<and> read_dcm_dir_cpp E path im = (r, im)) \<or>
    (\<exists>a b. read_dcm_dir_cpp E path im = (SIFT3D_FAILURE (SeriesMismatch a b), im))"
proof -
  from scan_dir_same_series [OF assms(4), of "[]"] show ?thesis
  proof
    assume "\<exists>r. scan_dir E path ents [] = Inl r"
    then show ?thesis using assms(1,2) by (auto simp: read_dcm_dir_cpp_def)
  next
    assume "\<exists>ds. scan_dir E path ents [] = Inr ([] @ ds) \<and> length ds = length ents \<and>
       list_all (\<lambda>d. dcm_seriesUID d = s) ds"
    then obtain ds where
      sc: "scan_dir E path ents [] = Inr ds" and l: "length ds = length ents" and
      a: "list_all (\<lambda>d. dcm_seriesUID d = s) ds"
      by auto
    obtain d1 d2 rest where ds: "ds = d1 # d2 # rest"
      using l assms(3) by (cases ds; cases "tl ds") auto
    have "\<not> eqSeries d1 d2" using a by (simp add: ds eqSeries_def compare_def)
    then show ?thesis using assms(1,2) sc by (simp add: read_dcm_dir_cpp_def ds)
  qed
qed

lemma scan_dir_valid:
  assumes "list_all (\<lambda>n. dcm_valid (Dicom_ctor (path @ sep @ n) (loadFile E (path @ sep @ n)))) ents"
  shows "\<exists>ds. scan_dir E path ents acc = Inr ds"
  using assms
  by (induction ents arbitrary: acc)
    (auto simp: Let_def Dicom_ctor_def Dicom_init_def split: option.splits)

lemma scan_dir_Inl:
  assumes "scan_dir E path ents acc = Inl r"
    and "list_all (\<lambda>n. Dicom_Dicom (path @ sep @ n) (loadFile E (path @ sep @ n)) \<noteq> None) ents"
  shows "\<exists>e. r = SIFT3D_FAILURE e"
  using assms
  by (induction ents arbitrary: acc) (auto simp: Let_def split: if_splits option.splits)


text \<open>
  C3. The claim: for two or more slice files of one series, the directory assembly gives
  the same volume for every order of enumeration. The code gives no volume: whenever a
  directory lists two or more valid files of one series, in whatever order, the assembly
  fails with the message of a series mismatch and leaves the destination as it was,
  because the series check is inverted.
\<close>

theorem same_series_rejected_in_every_order:
  assumes "stat E path = Directory" and "2 \<le> length ents"
    and "list_all (series_file E path s) ents"
    and "list_all (\<lambda>n. dcm_valid (Dicom_ctor (path @ sep @ n) (loadFile E (path @ sep @ n)))) ents"
    and "mset ents' = mset ents"
  shows "\<exists>a b. read_dcm_dir_cpp (E\<lparr>opendir := (opendir E)(path \<mapsto> ents')\<rparr>) path im
    = (SIFT3D_FAILURE (SeriesMismatch a b), im)"
proof -
  let ?E = "E\<lparr>opendir := (opendir E)(path \<mapsto> ents')\<rparr>"
  have st: "set ents' = set ents" and le: "length ents' = length ents"
    using assms(5) by (auto dest: mset_eq_setD mset_eq_length)
  have sf: "series_file ?E path s = series_file E path s"
    by (simp add: series_file_def fun_eq_iff)
  have 1: "stat ?E path = Directory" "opendir ?E path = Some ents'" "2 \<le> length ents'"
    using assms(1,2) le by simp_all
  have 2: "list_all (series_file ?E path s) ents'"
    using assms(3) st unfolding sf list_all_iff by simp
  have "list_all (\<lambda>n. dcm_valid (Dicom_ctor (path @ sep @ n) (loadFile ?E (path @ sep @ n)))) ents'"
    using assms(4) st unfolding list_all_iff by simp
  then obtain ds where "scan_dir ?E path ents' [] = Inr ds"
    using scan_dir_valid by blast
  then show ?thesis using same_series_rejected [OF 1 2, of im] by auto
qed

text \<open>The theorem at two files of the series \<open>1.2.3\<close>, enumerated in the other order.\<close>

theorem same_series_rejected_in_every_order_witness:
  "\<exists>a b. read_dcm_dir_cpp
      ((demo_env [(''a.dcm'', demo_file ''1.2.3'' ''1'' (one_frame 7)),
          (''b.dcm'', demo_file ''1.2.3'' ''2'' (one_frame 9))])
        \<lparr>opendir := (opendir (demo_env [(''a.dcm'', demo_file ''1.2.3'' ''1'' (one_frame 7)),
          (''b.dcm'', demo_file ''1.2.3'' ''2'' (one_frame 9))]))(''d'' \<mapsto> [''b.dcm'', ''a.dcm''])\<rparr>)
      ''d'' init_im
    = (SIFT3D_FAILURE (SeriesMismatch a b), init_im)"
proof -
  let ?E = "demo_env [(''a.dcm'', demo_file ''1.2.3'' ''1'' (one_frame 7)),
          (''b.dcm'', demo_file ''1.2.3'' ''2'' (one_frame 9))]"
  have 1: "stat ?E ''d'' = Directory" by (simp add: demo_env_def)
  have 2: "2 \<le> length [''a.dcm'', ''b.dcm'']" by simp
  have 3: "list_all (series_file ?E ''d'' ''1.2.3'') [''a.dcm'', ''b.dcm'']"
    by (simp add: series_file_def demo_defs)
  have 4: "list_all (\<lambda>n. dcm_valid (Dicom_ctor (''d'' @ sep @ n) (loadFile ?E (''d'' @ sep @ n))))
      [''a.dcm'', ''b.dcm'']"
    by (simp add: Dicom_ctor_def Dicom_Dicom_def Dicom_image_def Dicom_init_def demo_defs
        numeric_defs)
  have 5: "mset [''b.dcm'', ''a.dcm''] = mset [''a.dcm'', ''b.dcm'']"
    by (simp add: add_mset_commute)
  show ?thesis
    by (rule same_series_rejected_in_every_order [OF 1 2 3 4 5])
qed

text \<open>
  C2. The claim: a volume that is decomposed into a directory and assembled again comes
  back with the same dimensions and spacing and with voxels within one quantization
  step. The code: the files of one decomposition all carry one series identifier, so a
  directory that lists two or more of them, each read again as it was written, is
  rejected by the assembly, which returns failure and no volume.
\<close>

theorem decomposed_directory_is_rejected:
  assumes "write_dcm_dir_cpp E path im meta W = (SIFT3D_SUCCESS, W')"
    and "caller_allocated W meta"
    and "stat E' path = Directory" and "opendir E' path = Some ents" and "2 \<le> length ents"
    and "list_all (written_back E' W W' path) ents"
  shows "\<exists>e. read_dcm_dir_cpp E' path im0 = (SIFT3D_FAILURE e, im0)"
proof -
  obtain m :: Dcm_meta and w where
    u: "\<forall>p. p \<notin> slice_path E path w ` {..<nat (nz im)} \<longrightarrow> disk W' p = disk W p" and
    f: "\<forall>i < nat (nz im). \<exists>ds. disk W' (slice_path E path w i) = Some ds \<and>
        slice_file im (the (deref W (study_uid m))) (the (deref W (series_uid m)))
          (uid_of E SITE_INSTANCE_UID_ROOT (uid_count W + i)) i ds"
    by (rule write_dcm_dir_cpp_files [OF assms(1,2)])
  let ?s = "the (deref W (series_uid m))"
  have "series_file E' path ?s n" if n: "n \<in> set ents" for n
  proof -
    let ?p = "path @ sep @ n"
    have wb: "written_back E' W W' path n" using assms(6) n by (simp add: list_all_iff)
    obtain g where g: "loadFile E' ?p = Some g"
      using wb by (cases "loadFile E' ?p") (simp_all add: written_back_def)
    obtain ds where ds: "disk W' ?p = Some ds"
      using wb g by (cases "disk W' ?p") (simp_all add: written_back_def)
    have w: "im_get_format E' n = DICOM" "disk W ?p = None" "loadFile E' ?p = Some g"
        "disk W' ?p = Some ds" "presents g ds"
      using wb g ds by (simp_all add: written_back_def)
    have "?p \<in> slice_path E path w ` {..<nat (nz im)}"
      using u w(2,4) by force
    then obtain i where i: "i < nat (nz im)" "?p = slice_path E path w i" by auto
    then have "slice_file im (the (deref W (study_uid m))) ?s
        (uid_of E SITE_INSTANCE_UID_ROOT (uid_count W + i)) i ds"
      using f w(4) by fastforce
    then have "elements ds DCM_SeriesInstanceUID = Some ?s" by (simp add: slice_file_def)
    then have "findAndGetString g DCM_SeriesInstanceUID = Good (Some ?s)"
      using w(5) by (simp add: presents_def string_element_def)
    then show ?thesis using w(1,3) by (simp add: series_file_def)
  qed
  then have sf: "list_all (series_file E' path ?s) ents" by (simp add: list_all_iff)
  have "Dicom_Dicom (path @ sep @ n) (loadFile E' (path @ sep @ n)) \<noteq> None"
    if n: "n \<in> set ents" for n
  proof -
    let ?p = "path @ sep @ n"
    have wb: "written_back E' W W' path n" using assms(6) n by (simp add: list_all_iff)
    obtain g where g: "loadFile E' ?p = Some g"
      using wb by (cases "loadFile E' ?p") (simp_all add: written_back_def)
    obtain ds where ds: "disk W' ?p = Some ds"
      using wb g by (cases "disk W' ?p") (simp_all add: written_back_def)
    have pr: "presents g ds" using wb g ds by (simp add: written_back_def)
    have "\<not> reads_null g"
      using pr
      by (auto simp: reads_null_def presents_def string_element_def
          split: found.splits option.splits)
    then show ?thesis using g by (simp add: Dicom_Dicom_None)
  qed
  then have df: "list_all (\<lambda>n. Dicom_Dicom (path @ sep @ n) (loadFile E' (path @ sep @ n)) \<noteq> None)
      ents"
    by (simp add: list_all_iff)
  from same_series_rejected [OF assms(3,4,5) sf, of im0] show ?thesis
  proof
    assume "\<exists>r. scan_dir E' path ents [] = Inl r \<and> read_dcm_dir_cpp E' path im0 = (r, im0)"
    then obtain r where r: "scan_dir E' path ents [] = Inl r"
      "read_dcm_dir_cpp E' path im0 = (r, im0)"
      by blast
    then show ?thesis using scan_dir_Inl [OF r(1) df] by auto
  next
    assume "\<exists>a b. read_dcm_dir_cpp E' path im0 = (SIFT3D_FAILURE (SeriesMismatch a b), im0)"
    then show ?thesis by blast
  qed
qed


text \<open>The theorem at the decomposition of a volume of two slices.\<close>

theorem decomposed_directory_is_rejected_witness:
  "\<exists>W' e. write_dcm_dir_cpp (demo_env []) ''d'' (demo_image 1 1 2 (1 / 2)) (Some demo_meta) world0
       = (SIFT3D_SUCCESS, W') \<and>
     read_dcm_dir_cpp (demo_env [(''0.dcm'', demo_readback ''1.3.9'' ''1'' 1 1),
         (''1.dcm'', demo_readback ''1.3.9'' ''2'' 1 1)]) ''d'' init_im
       = (SIFT3D_FAILURE e, init_im)"
proof -
  let ?E = "demo_env []"
  let ?E' = "demo_env [(''0.dcm'', demo_readback ''1.3.9'' ''1'' 1 1),
         (''1.dcm'', demo_readback ''1.3.9'' ''2'' 1 1)]"
  let ?im = "demo_image 1 1 2 (1 / 2)"
  obtain W' where
    w: "write_dcm_dir_cpp ?E ''d'' ?im (Some demo_meta) world0 = (SIFT3D_SUCCESS, W')"
    using demo_write_succeeds [of 2 "''d''" world0] by auto
  note a = demo_meta_allocated(3) [of world0]
  have z: "nz ?im = 2" "nx ?im = 1" "ny ?im = 1" by (simp_all add: demo_image_def)
  obtain m :: Dcm_meta and v where
    s: "Some demo_meta = Some m" and
    n: "num_zeros (nz ?im) = Some v" and
    f: "\<forall>i < nat (nz ?im). \<exists>ds. disk W' (slice_path ?E ''d'' v i) = Some ds \<and>
        slice_file ?im (the (deref world0 (study_uid m))) (the (deref world0 (series_uid m)))
          (uid_of ?E SITE_INSTANCE_UID_ROOT (uid_count world0 + i)) i ds"
    by (rule write_dcm_dir_cpp_files [OF w a])
  have m: "m = demo_meta" using s by simp
  have v: "v = 1" using n num_zeros_2 by (simp add: z)
  have p: "slice_path ?E ''d'' 1 0 = ''d/0.dcm''" "slice_path ?E ''d'' 1 1 = ''d/1.dcm''"
    by (simp_all add: slice_path_def slice_name_def zero_pad_def sep_def demo_env_def
        show_nat_digit digit_char_eval)
  have "0 < nat (nz ?im)" "1 < nat (nz ?im)" by (simp_all add: z)
  then have "\<exists>ds. disk W' (slice_path ?E ''d'' v 0) = Some ds \<and>
        slice_file ?im (the (deref world0 (study_uid m))) (the (deref world0 (series_uid m)))
          (uid_of ?E SITE_INSTANCE_UID_ROOT (uid_count world0 + 0)) 0 ds"
    and "\<exists>ds. disk W' (slice_path ?E ''d'' v 1) = Some ds \<and>
        slice_file ?im (the (deref world0 (study_uid m))) (the (deref world0 (series_uid m)))
          (uid_of ?E SITE_INSTANCE_UID_ROOT (uid_count world0 + 1)) 1 ds"
    using f by blast+
  then obtain ds0 ds1 where
    d0: "disk W' ''d/0.dcm'' = Some ds0"
      "slice_file ?im (the (deref world0 (study_uid m))) (the (deref world0 (series_uid m)))
          (uid_of ?E SITE_INSTANCE_UID_ROOT (uid_count world0 + 0)) 0 ds0" and
    d1: "disk W' ''d/1.dcm'' = Some ds1"
      "slice_file ?im (the (deref world0 (study_uid m))) (the (deref world0 (series_uid m)))
          (uid_of ?E SITE_INSTANCE_UID_ROOT (uid_count world0 + 1)) 1 ds1"
    unfolding v p by blast
  have one: "atoll ''1'' = 1" using atoll_show_int [of 1] by (simp add: show_int_1)
  have r0: "presents (demo_readback ''1.3.9'' ''1'' 1 1) ds0"
    using d0(2) z one
    by (simp add: slice_file_def plane_file_def presents_def string_element_def
        integer_element_def demo_readback_def demo_file_def m demo_meta_def deref_def
        show_int_1 show_nat_digit digit_char_eval)
  have r1: "presents (demo_readback ''1.3.9'' ''2'' 1 1) ds1"
    using d1(2) z one
    by (simp add: slice_file_def plane_file_def presents_def string_element_def
        integer_element_def demo_readback_def demo_file_def m demo_meta_def deref_def
        show_int_1 show_nat_digit digit_char_eval digit_char_2)
  have 1: "stat ?E' ''d'' = Directory" "opendir ?E' ''d'' = Some [''0.dcm'', ''1.dcm'']"
    "2 \<le> length [''0.dcm'', ''1.dcm'']"
    by (simp_all add: demo_env_def)
  have 2: "list_all (written_back ?E' world0 W' ''d'') [''0.dcm'', ''1.dcm'']"
    using d0(1) d1(1) r0 r1 by (simp add: written_back_def demo_env_def sep_def world0_def)
  show ?thesis
    using decomposed_directory_is_rejected [OF w a 1 2, of init_im] w by blast
qed

end
